theory Spec2Isabelle
  imports Complex_Main
begin

section \<open>Common data model (CommonLib)\<close>

text \<open>
  The motion-vector class, positions and the motion record are declared in headers
  (Mv.h, Common.h, MotionInfo.h) that are not part of the analysed sources; their fields
  are taken the way UnitTools.cpp reads and writes them.  The precision flag
  \<open>highPrec\<close> exists only when the macro REMOVE_MV_ADAPT_PREC is off; it is kept as a
  field so that both configurations can be followed.
\<close>

record Mv =
  hor :: int
  ver :: int
  highPrec :: bool

record Position =
  px :: int
  py :: int

datatype RefPicList = REF_PIC_LIST_0 | REF_PIC_LIST_1

definition NOT_VALID :: int where
  "NOT_VALID = -1"

record MotionInfo =
  isInter :: bool
  interDir :: nat
  sliceIdx :: nat
  mi_mv0 :: Mv
  mi_mv1 :: Mv
  mi_refIdx0 :: int
  mi_refIdx1 :: int

definition mi_mv :: "MotionInfo \<Rightarrow> RefPicList \<Rightarrow> Mv" where
  "mi_mv mi l = (case l of REF_PIC_LIST_0 \<Rightarrow> mi_mv0 mi | REF_PIC_LIST_1 \<Rightarrow> mi_mv1 mi)"

definition mi_refIdx :: "MotionInfo \<Rightarrow> RefPicList \<Rightarrow> int" where
  "mi_refIdx mi l = (case l of REF_PIC_LIST_0 \<Rightarrow> mi_refIdx0 mi | REF_PIC_LIST_1 \<Rightarrow> mi_refIdx1 mi)"

definition otherList :: "RefPicList \<Rightarrow> RefPicList" where
  "otherList l = (case l of REF_PIC_LIST_0 \<Rightarrow> REF_PIC_LIST_1 | REF_PIC_LIST_1 \<Rightarrow> REF_PIC_LIST_0)"

text \<open>
  Compile-time switches and constants of TypeDef.h / CommonDef.h, which is not among the
  sources: they are parameters of every function that depends on them.
\<close>

record macros =
  REMOVE_MV_ADAPT_PREC :: bool
  JVET_L0090_PAIR_AVG :: bool
  HM_JEM_MERGE_CANDS :: bool
  JVET_L0646_GBI :: bool
  AMVP_DECIMATION_FACTOR :: int
  AMVP_MAX_NUM_CANDS_MEM :: nat
  MRG_MAX_NUM_CANDS :: nat
  VCEG_AZ07_MV_ADD_PRECISION_BIT_FOR_STORE :: nat
  MAX_CU_DEPTH :: nat
  GBI_DEFAULT :: nat

text \<open>
  Helper routines that UnitTools.cpp calls but whose bodies live in Mv.h, Mv.cpp,
  MotionInfo.h and Rom.cpp: they are parameters as well.  \<open>mvPlus\<close> and \<open>mvMinus\<close>
  stand for the operators \<open>+=\<close> and \<open>-\<close> of the vector class, \<open>miNotEqual\<close> for the
  operator \<open>!=\<close> of the motion record.
\<close>

record helpers =
  scaleMv :: "int \<Rightarrow> Mv \<Rightarrow> Mv"
  mvPlus :: "Mv \<Rightarrow> Mv \<Rightarrow> Mv"
  mvMinus :: "Mv \<Rightarrow> Mv \<Rightarrow> Mv"
  miNotEqual :: "MotionInfo \<Rightarrow> MotionInfo \<Rightarrow> bool"
  setHighPrec :: "Mv \<Rightarrow> Mv"
  setLowPrec :: "Mv \<Rightarrow> Mv"
  roundMV :: "Mv \<Rightarrow> nat \<Rightarrow> Mv"
  roundMV2SignalPrecision :: "Mv \<Rightarrow> Mv"
  roundAffineMv :: "int \<Rightarrow> int \<Rightarrow> nat \<Rightarrow> int \<times> int"
  g_aucLog2 :: "int \<Rightarrow> nat"
  getGbiWeight :: "nat \<Rightarrow> RefPicList \<Rightarrow> int"
  g_GbiWeightBase :: int

datatype error =
    CheckFailed string
  | DivisionByZero
  | NullPointer

subsection \<open>Slices and pictures as the candidate derivation reads them\<close>

record ColSlice =
  col_independentSliceIdx :: nat
  col_POC :: int
  col_isUsedAsLongTerm :: "RefPicList \<Rightarrow> int \<Rightarrow> bool"
  col_refPOC :: "RefPicList \<Rightarrow> int \<Rightarrow> int"

record Picture =
  pic_poc :: int
  pic_longTerm :: bool
  pic_motion :: "Position \<Rightarrow> MotionInfo"
  pic_slices :: "ColSlice list"

record Slice =
  sl_POC :: int
  sl_isInterB :: bool
  sl_colFromL0Flag :: bool
  sl_colRefIdx :: int
  sl_checkLDC :: bool
  sl_refPic :: "RefPicList \<Rightarrow> int \<Rightarrow> Picture option"
  sl_refPOC :: "RefPicList \<Rightarrow> int \<Rightarrow> int"
  sl_enableTMVPFlag :: bool
  sl_numRefIdx :: "RefPicList \<Rightarrow> int"
  sl_maxNumMergeCand :: nat

section \<open>Temporal motion-vector scaling\<close>

definition Clip3 :: "int \<Rightarrow> int \<Rightarrow> int \<Rightarrow> int" where
  "Clip3 minVal maxVal a = min (max minVal a) maxVal"

text \<open>C++ integer division truncates towards zero.\<close>

definition cdiv :: "int \<Rightarrow> int \<Rightarrow> int" where
  "cdiv a b = sgn a * sgn b * (\<bar>a\<bar> div \<bar>b\<bar>)"

text \<open>
  A C++ \<open>int\<close> has 32 bits.  The difference of two picture order counts can leave
  that range; the subtraction then wraps around, which \<open>wrap32\<close> writes out.
\<close>

definition wrap32 :: "int \<Rightarrow> int" where
  "wrap32 x = (x + 2147483648) mod 4294967296 - 2147483648"

text \<open>
  \<open>xGetDistScaleFactor\<close> (UnitTools.cpp 1115-1132).  The division by \<open>iTDD\<close> traps when
  the collocated distance is zero and the current one is not.  After the clipping to
  \<open>-128..127\<close> no further operation can leave the 32-bit range.
\<close>

definition xGetDistScaleFactor :: "int \<Rightarrow> int \<Rightarrow> int \<Rightarrow> int \<Rightarrow> error + int" where
  "xGetDistScaleFactor iCurrPOC iCurrRefPOC iColPOC iColRefPOC =
    (let iDiffPocD = wrap32 (iColPOC - iColRefPOC);
         iDiffPocB = wrap32 (iCurrPOC - iCurrRefPOC)
     in if iDiffPocD = iDiffPocB then Inr 4096
        else
          (let iTDB = Clip3 (-128) 127 iDiffPocB;
               iTDD = Clip3 (-128) 127 iDiffPocD
           in if iTDD = 0 then Inl DivisionByZero
              else
                (let iX = cdiv (16384 + \<bar>cdiv iTDD 2\<bar>) iTDD;
                     iScale = Clip3 (-4096) 4095 ((iTDB * iX + 32) div 64)
                 in Inr iScale)))"

text \<open>
  What \<open>PU::getColocatedMVP\<close> reads of its prediction unit: the slice, the motion
  compression switch of the pre-calculated values and the high-precision switch of the
  sequence parameter set.
\<close>

record ColEnv =
  ce_slice :: Slice
  ce_noMotComp :: bool
  ce_useHighPrecMv :: bool

text \<open>
  Lines 1136-1186 of \<open>PU::getColocatedMVP\<close>: locating the collocated motion, choosing
  the reference list of the collocated block and finding its slice.  The result is
  the motion record, the chosen list, the reference index in it and the slice;
  \<open>Inr None\<close> is the source's \<open>return false\<close>.
\<close>

definition colRefSelect :: "MotionInfo \<Rightarrow> RefPicList \<Rightarrow> (RefPicList \<times> int) option" where
  "colRefSelect mi eColRefPicList =
    (if mi_refIdx mi eColRefPicList < 0
     then (if mi_refIdx mi (otherList eColRefPicList) < 0 then None
           else Some (otherList eColRefPicList, mi_refIdx mi (otherList eColRefPicList)))
     else Some (eColRefPicList, mi_refIdx mi eColRefPicList))"

definition findColSlice :: "ColSlice list \<Rightarrow> nat \<Rightarrow> ColSlice option" where
  "findColSlice ss idx = find (\<lambda>s. col_independentSliceIdx s = idx) ss"

definition colLocate ::
  "macros \<Rightarrow> ColEnv \<Rightarrow> RefPicList \<Rightarrow> Position
     \<Rightarrow> error + (MotionInfo \<times> RefPicList \<times> int \<times> ColSlice) option" where
  "colLocate m e eRefPicList pos0 =
    (let scale = (if ce_noMotComp e then 1 else 4 * max 1 (cdiv (4 * AMVP_DECIMATION_FACTOR m) 4));
         mask = not (scale - 1);
         pos = \<lparr> px = and (px pos0) mask, py = and (py pos0) mask \<rparr>;
         slice = ce_slice e
     in case sl_refPic slice
               (if sl_isInterB slice
                then (if sl_colFromL0Flag slice then REF_PIC_LIST_0 else REF_PIC_LIST_1)
                else REF_PIC_LIST_0)
               (sl_colRefIdx slice) of
          None \<Rightarrow> Inr None
        | Some pColPic \<Rightarrow>
            (let eColRefPicList0 =
                   (if sl_checkLDC slice then eRefPicList
                    else (if sl_colFromL0Flag slice then REF_PIC_LIST_1 else REF_PIC_LIST_0));
                 mi = pic_motion pColPic pos
             in if \<not> isInter mi then Inr None
                else
                  (case colRefSelect mi eColRefPicList0 of
                     None \<Rightarrow> Inr None
                   | Some (eColRefPicList, iColRefIdx) \<Rightarrow>
                       (case findColSlice (pic_slices pColPic) (sliceIdx mi) of
                          None \<Rightarrow> Inl (CheckFailed ''Slice segment not found'')
                        | Some colSlice \<Rightarrow>
                            Inr (Some (mi, eColRefPicList, iColRefIdx, colSlice))))))"

text \<open>
  Lines 1188-1229: the long-term test and the scaling of the collocated vector.
\<close>

definition colScale ::
  "macros \<Rightarrow> helpers \<Rightarrow> ColEnv \<Rightarrow> RefPicList \<Rightarrow> int
     \<Rightarrow> MotionInfo \<times> RefPicList \<times> int \<times> ColSlice \<Rightarrow> error + Mv option" where
  "colScale m h e eRefPicList refIdx loc =
    (case loc of (mi, eColRefPicList, iColRefIdx, colSlice) \<Rightarrow>
      (let slice = ce_slice e
       in case sl_refPic slice eRefPicList refIdx of
            None \<Rightarrow> Inl NullPointer
          | Some currRef \<Rightarrow>
             (let bIsCurrRefLongTerm = pic_longTerm currRef;
                  bIsColRefLongTerm = col_isUsedAsLongTerm colSlice eColRefPicList iColRefIdx
              in if bIsCurrRefLongTerm \<noteq> bIsColRefLongTerm then Inr None
                 else
                   (let cColMv = mi_mv mi eColRefPicList
                    in if bIsCurrRefLongTerm then Inr (Some cColMv)
                       else
                         (let currPOC = sl_POC slice;
                              colPOC = col_POC colSlice;
                              colRefPOC = col_refPOC colSlice eColRefPicList iColRefIdx;
                              currRefPOC = pic_poc currRef
                          in case xGetDistScaleFactor currPOC currRefPOC colPOC colRefPOC of
                               Inl err \<Rightarrow> Inl err
                             | Inr distscale \<Rightarrow>
                                 if distscale = 4096 then Inr (Some cColMv)
                                 else Inr (Some (scaleMv h distscale
                                        (if \<not> REMOVE_MV_ADAPT_PREC m \<and> ce_useHighPrecMv e
                                         then setHighPrec h cColMv else cColMv))))))))"

definition getColocatedMVP ::
  "macros \<Rightarrow> helpers \<Rightarrow> ColEnv \<Rightarrow> RefPicList \<Rightarrow> Position \<Rightarrow> int \<Rightarrow> error + Mv option" where
  "getColocatedMVP m h e eRefPicList pos0 refIdx =
    (case colLocate m e eRefPicList pos0 of
       Inl err \<Rightarrow> Inl err
     | Inr None \<Rightarrow> Inr None
     | Inr (Some loc) \<Rightarrow> colScale m h e eRefPicList refIdx loc)"

section \<open>Prediction units and their neighbourhood\<close>

datatype MvpDir = MD_LEFT | MD_ABOVE | MD_ABOVE_RIGHT | MD_BELOW_LEFT | MD_ABOVE_LEFT

datatype AffineModel = AFFINEMODEL_4PARAM | AFFINEMODEL_6PARAM

datatype MergeType = MRG_TYPE_DEFAULT_N | MRG_TYPE_SUBPU_ATMVP

record MvField =
  mf_mv :: Mv
  mf_refIdx :: int

text \<open>
  \<open>MergeCtx\<close>: the arrays are lists of the declared capacity (MRG_MAX_NUM_CANDS
  entries, twice as many motion fields).  Of the sub-block motion buffer only the fact
  that it has been allocated is kept.
\<close>

record MergeCtx =
  interDirNeighbours :: "nat list"
  mrgTypeNeighbours :: "MergeType list"
  mvFieldNeighbours :: "MvField list"
  GBiIdx :: "nat list"
  numValidMergeCand :: nat
  subPuMvpMiBuf_allocated :: bool

text \<open>
  What \<open>PU::getInterMergeSubPuMvpCand\<close> (UnitTools.cpp 2278-2460) leaves in the merge
  context: its return value and the entries it stores at index \<open>count\<close>: inter
  direction, the two motion fields and the weight index.  The derivation itself walks
  the collocated motion field and fills the sub-block motion buffer; it enters the
  candidate list only through these values, so they are a parameter of the
  prediction unit.
\<close>

record SubPuResult =
  sp_found :: bool
  sp_interDir :: nat
  sp_mvField0 :: MvField
  sp_mvField1 :: MvField
  sp_GBiIdx :: nat

text \<open>A neighbouring prediction unit as returned by \<open>getPURestricted\<close>.\<close>

record NeighPU =
  n_cu :: nat
  n_isInter :: bool
  n_motion :: "Position \<Rightarrow> MotionInfo"
  n_lumaPos :: Position
  n_GBiIdx :: nat
  n_affine :: bool
  n_affineType :: AffineModel
  n_interDir :: nat
  n_refIdx :: "RefPicList \<Rightarrow> int"
  n_pos :: Position
  n_width :: int
  n_height :: int
  n_topLeft :: Position
  n_topRight :: Position
  n_bottomLeft :: Position

text \<open>
  The current prediction unit with everything the derivations read through it: its
  slice, the restricted neighbour lookup of its coding structure, its geometry (the
  corner accessors of \<open>pu.Y()\<close> are taken as given positions), the pre-calculated
  picture values and the parameter-set switches.
\<close>

record PUEnv =
  pu_slice :: Slice
  pu_getPURestricted :: "Position \<Rightarrow> NeighPU option"
  pu_getInterMergeSubPuMvpCand :: "MergeCtx \<Rightarrow> nat \<Rightarrow> error + SubPuResult"
  pu_cu :: nat
  pu_imv :: nat
  pu_affineType :: AffineModel
  pu_lumaPos :: Position
  pu_pos :: Position
  pu_width :: int
  pu_height :: int
  pu_topLeft :: Position
  pu_topRight :: Position
  pu_bottomLeft :: Position
  pu_bottomRight :: Position
  pu_center :: Position
  pcv_minCUWidth :: int
  pcv_minCUHeight :: int
  pcv_lumaWidth :: int
  pcv_lumaHeight :: int
  pcv_maxCUWidth :: int
  pcv_maxCUHeight :: int
  pcv_maxCUWidthMask :: int
  pcv_maxCUHeightMask :: int
  pcv_noMotComp :: bool
  sps_useHighPrecMv :: bool
  sps_useSubPuMvp :: bool
  sps_useATMVP :: bool
  pps_log2ParallelMergeLevelMinus2 :: nat

definition colEnv :: "PUEnv \<Rightarrow> ColEnv" where
  "colEnv pu = \<lparr> ce_slice = pu_slice pu, ce_noMotComp = pcv_noMotComp pu,
                 ce_useHighPrecMv = sps_useHighPrecMv pu \<rparr>"

definition offset :: "Position \<Rightarrow> int \<Rightarrow> int \<Rightarrow> Position" where
  "offset p dx dy = \<lparr> px = px p + dx, py = py p + dy \<rparr>"

text \<open>\<open>Mv()\<close> and \<open>Mv(0, 0)\<close>: the zero vector.\<close>

definition Mv0 :: Mv where
  "Mv0 = \<lparr> hor = 0, ver = 0, highPrec = False \<rparr>"

text \<open>Sequencing of fallible steps: the first error ends the computation.\<close>

definition ebind :: "error + 'a \<Rightarrow> ('a \<Rightarrow> error + 'b) \<Rightarrow> error + 'b" where
  "ebind r f = (case r of Inl err \<Rightarrow> Inl err | Inr v \<Rightarrow> f v)"

section \<open>AMVP candidate list\<close>

text \<open>
  Modelled from the spec: the constant AMVP_MAX_NUM_CANDS is declared in CommonDef.h,
  which is not among the sources; the specification fixes the capacity of the AMVP
  list at 2.
\<close>

definition AMVP_MAX_NUM_CANDS :: nat where
  "AMVP_MAX_NUM_CANDS = 2"

record AMVPInfo =
  mvCand :: "Mv list"
  numCand :: nat

text \<open>\<open>info.mvCand[info.numCand++] = v\<close>\<close>

definition amvpAppend :: "AMVPInfo \<Rightarrow> Mv \<Rightarrow> AMVPInfo" where
  "amvpAppend info v =
     info\<lparr> mvCand := (mvCand info)[numCand info := v], numCand := numCand info + 1 \<rparr>"

definition neibPosOf :: "Position \<Rightarrow> MvpDir \<Rightarrow> Position" where
  "neibPosOf pos eDir =
    (case eDir of
       MD_LEFT \<Rightarrow> offset pos (-1) 0
     | MD_ABOVE \<Rightarrow> offset pos 0 (-1)
     | MD_ABOVE_RIGHT \<Rightarrow> offset pos 1 (-1)
     | MD_BELOW_LEFT \<Rightarrow> offset pos (-1) 1
     | MD_ABOVE_LEFT \<Rightarrow> offset pos (-1) (-1))"

text \<open>Whether a vector is among the first \<open>numCand\<close> entries.\<close>

definition mvAmong :: "AMVPInfo \<Rightarrow> Mv \<Rightarrow> bool" where
  "mvAmong info v = (v \<in> set (take (numCand info) (mvCand info)))"

text \<open>
  The end of a round in both candidate routines: the affine variant appends the
  vector only if it is new, the ordinary variant always; \<open>Some\<close> is the
  \<open>return true\<close> with the extended list.
\<close>

definition appendCand :: "bool \<Rightarrow> AMVPInfo \<Rightarrow> Mv \<Rightarrow> AMVPInfo option" where
  "appendCand affine info v =
    (if affine
     then (if mvAmong info v then None else Some (amvpAppend info v))
     else Some (amvpAppend info v))"

text \<open>One round of the loop over \<open>predictorSource\<close> in \<open>PU::addMVPCandUnscaled\<close>.\<close>

definition unscaledRound ::
  "PUEnv \<Rightarrow> int \<Rightarrow> MotionInfo \<Rightarrow> bool \<Rightarrow> AMVPInfo \<Rightarrow> RefPicList \<Rightarrow> AMVPInfo option" where
  "unscaledRound pu currRefPOC neibMi affine info eRefPicListIndex =
    (let neibRefIdx = mi_refIdx neibMi eRefPicListIndex
     in if neibRefIdx \<ge> 0 \<and> currRefPOC = sl_refPOC (pu_slice pu) eRefPicListIndex neibRefIdx
        then appendCand affine info (mi_mv neibMi eRefPicListIndex)
        else None)"

text \<open>\<open>PU::addMVPCandUnscaled\<close> (UnitTools.cpp 1778-1855).\<close>

definition addMVPCandUnscaled ::
  "PUEnv \<Rightarrow> RefPicList \<Rightarrow> int \<Rightarrow> Position \<Rightarrow> MvpDir \<Rightarrow> AMVPInfo \<Rightarrow> bool
     \<Rightarrow> error + (bool \<times> AMVPInfo)" where
  "addMVPCandUnscaled pu eRefPicList iRefIdx pos eDir info affine =
    (let neibPos = neibPosOf pos eDir
     in case pu_getPURestricted pu neibPos of
          None \<Rightarrow> Inr (False, info)
        | Some neibPU \<Rightarrow>
            if \<not> n_isInter neibPU then Inr (False, info)
            else
              (let neibMi = n_motion neibPU neibPos
               in case sl_refPic (pu_slice pu) eRefPicList iRefIdx of
                    None \<Rightarrow> Inl NullPointer
                  | Some currRef \<Rightarrow>
                      (let currRefPOC = pic_poc currRef;
                           eRefPicList2nd = otherList eRefPicList
                       in case unscaledRound pu currRefPOC neibMi affine info eRefPicList of
                            Some info' \<Rightarrow> Inr (True, info')
                          | None \<Rightarrow>
                              (case unscaledRound pu currRefPOC neibMi affine info eRefPicList2nd of
                                 Some info' \<Rightarrow> Inr (True, info')
                               | None \<Rightarrow> Inr (False, info)))))"

text \<open>
  One round of the loop over \<open>predictorSource\<close> in \<open>PU::addMVPCandWithScaling\<close>:
  first the vector \<open>cMv\<close> of the round, if the neighbour has one for the list and
  agrees with the current reference in long-term status, then its insertion.  The
  neighbour lies in the current picture, so its POC is the current POC.
\<close>

definition scaledVector ::
  "macros \<Rightarrow> helpers \<Rightarrow> PUEnv \<Rightarrow> Picture \<Rightarrow> MotionInfo \<Rightarrow> RefPicList \<Rightarrow> error + Mv option" where
  "scaledVector m h pu currRef neibMi eRefPicListIndex =
    (let slice = pu_slice pu;
         currPOC = sl_POC slice;
         currRefPOC = pic_poc currRef;
         bIsCurrRefLongTerm = pic_longTerm currRef;
         neibPOC = currPOC;
         neibRefIdx = mi_refIdx neibMi eRefPicListIndex
     in if neibRefIdx \<ge> 0
        then (case sl_refPic slice eRefPicListIndex neibRefIdx of
                None \<Rightarrow> Inl NullPointer
              | Some neibRef \<Rightarrow>
                  if bIsCurrRefLongTerm = pic_longTerm neibRef
                  then (if \<not> bIsCurrRefLongTerm
                        then ebind (xGetDistScaleFactor currPOC currRefPOC neibPOC
                                      (sl_refPOC slice eRefPicListIndex neibRefIdx))
                               (\<lambda>scale.
                                  if scale \<noteq> 4096
                                  then Inr (Some (scaleMv h scale
                                         (if \<not> REMOVE_MV_ADAPT_PREC m \<and> sps_useHighPrecMv pu
                                          then setHighPrec h (mi_mv neibMi eRefPicListIndex)
                                          else mi_mv neibMi eRefPicListIndex)))
                                  else Inr (Some (mi_mv neibMi eRefPicListIndex)))
                        else Inr (Some (mi_mv neibMi eRefPicListIndex)))
                  else Inr None)
        else Inr None)"

definition scaledRound ::
  "macros \<Rightarrow> helpers \<Rightarrow> PUEnv \<Rightarrow> Picture \<Rightarrow> MotionInfo \<Rightarrow> bool \<Rightarrow> AMVPInfo \<Rightarrow> RefPicList
     \<Rightarrow> error + AMVPInfo option" where
  "scaledRound m h pu currRef neibMi affine info eRefPicListIndex =
    ebind (scaledVector m h pu currRef neibMi eRefPicListIndex)
      (\<lambda>r. case r of
             None \<Rightarrow> Inr None
           | Some cMv \<Rightarrow> Inr (appendCand affine info cMv))"

text \<open>\<open>PU::addMVPCandWithScaling\<close> (UnitTools.cpp 1865-1966).\<close>

definition addMVPCandWithScaling ::
  "macros \<Rightarrow> helpers \<Rightarrow> PUEnv \<Rightarrow> RefPicList \<Rightarrow> int \<Rightarrow> Position \<Rightarrow> MvpDir \<Rightarrow> AMVPInfo \<Rightarrow> bool
     \<Rightarrow> error + (bool \<times> AMVPInfo)" where
  "addMVPCandWithScaling m h pu eRefPicList iRefIdx pos eDir info affine =
    (let neibPos = neibPosOf pos eDir
     in case pu_getPURestricted pu neibPos of
          None \<Rightarrow> Inr (False, info)
        | Some neibPU \<Rightarrow>
            if \<not> n_isInter neibPU then Inr (False, info)
            else
              (let neibMi = n_motion neibPU neibPos;
                   eRefPicList2nd = otherList eRefPicList
               in case sl_refPic (pu_slice pu) eRefPicList iRefIdx of
                    None \<Rightarrow> Inl NullPointer
                  | Some currRef \<Rightarrow>
                      ebind (scaledRound m h pu currRef neibMi affine info eRefPicList)
                        (\<lambda>r. case r of
                               Some info' \<Rightarrow> Inr (True, info')
                             | None \<Rightarrow>
                                 ebind (scaledRound m h pu currRef neibMi affine info eRefPicList2nd)
                                   (\<lambda>r2. case r2 of
                                            Some info' \<Rightarrow> Inr (True, info')
                                          | None \<Rightarrow> Inr (False, info)))))"

text \<open>
  \<open>bAdded = first; if (!bAdded) bAdded = next\<close>: the next attempt runs only when
  the previous one returned false.
\<close>

definition orElse ::
  "error + (bool \<times> AMVPInfo) \<Rightarrow> (AMVPInfo \<Rightarrow> error + (bool \<times> AMVPInfo))
     \<Rightarrow> error + (bool \<times> AMVPInfo)" where
  "orElse r f = ebind r (\<lambda>(bAdded, info). if bAdded then Inr (True, info) else f info)"

text \<open>
  The bottom-right and centre positions probed in the collocated picture
  (UnitTools.cpp 1368-1403, and again 818-853): the first component is \<open>posC0\<close> when
  \<open>C0Avail\<close> holds, the second is \<open>posC1\<close>.
\<close>

definition temporalPositions :: "PUEnv \<Rightarrow> Position option \<times> Position" where
  "temporalPositions pu =
    (let posRB = offset (pu_bottomRight pu) (-3) (-3);
         posC1 = pu_center pu
     in if px posRB + pcv_minCUWidth pu < pcv_lumaWidth pu
           \<and> py posRB + pcv_minCUHeight pu < pcv_lumaHeight pu
        then
          (let posInCtu = \<lparr> px = and (px posRB) (pcv_maxCUWidthMask pu),
                            py = and (py posRB) (pcv_maxCUHeightMask pu) \<rparr>
           in if px posInCtu + 4 < pcv_maxCUWidth pu \<and> py posInCtu + 4 < pcv_maxCUHeight pu
              then (Some (offset posRB 4 4), posC1)
              else if px posInCtu + 4 < pcv_maxCUWidth pu
              then (None, posC1)
              else if py posInCtu + 4 < pcv_maxCUHeight pu
              then (Some (offset posRB 4 4), posC1)
              else (None, posC1))
        else (None, posC1))"

text \<open>
  \<open>(C0Avail && getColocatedMVP(.., posC0, ..)) || getColocatedMVP(.., posC1, ..)\<close>
\<close>

definition temporalMVP ::
  "macros \<Rightarrow> helpers \<Rightarrow> PUEnv \<Rightarrow> RefPicList \<Rightarrow> int \<Rightarrow> error + Mv option" where
  "temporalMVP m h pu eRefPicList refIdx =
    (case temporalPositions pu of
       (Some posC0, posC1) \<Rightarrow>
          ebind (getColocatedMVP m h (colEnv pu) eRefPicList posC0 refIdx)
            (\<lambda>r. case r of
                   Some cColMv \<Rightarrow> Inr (Some cColMv)
                 | None \<Rightarrow> getColocatedMVP m h (colEnv pu) eRefPicList posC1 refIdx)
     | (None, posC1) \<Rightarrow> getColocatedMVP m h (colEnv pu) eRefPicList posC1 refIdx)"

text \<open>Applying a function to the first \<open>n\<close> entries of an array.\<close>

definition mapFirst :: "nat \<Rightarrow> ('a \<Rightarrow> 'a) \<Rightarrow> 'a list \<Rightarrow> 'a list" where
  "mapFirst n f xs = map f (take n xs) @ drop n xs"

text \<open>
  The rounding \<open>v >= 0 ? (v + nOffset) >> nShift : -((-v + nOffset) >> nShift)\<close> with
  \<open>nOffset = 1 << (nShift - 1)\<close>.
\<close>

definition roundStore :: "nat \<Rightarrow> int \<Rightarrow> int" where
  "roundStore nShift v =
    (let nOffset = 2 ^ (nShift - 1)
     in if v \<ge> 0 then (v + nOffset) div 2 ^ nShift else - ((- v + nOffset) div 2 ^ nShift))"

definition roundStoreMv :: "nat \<Rightarrow> Mv \<Rightarrow> Mv" where
  "roundStoreMv nShift v = v\<lparr> hor := roundStore nShift (hor v), ver := roundStore nShift (ver v) \<rparr>"

definition lowPrecIfHigh :: "helpers \<Rightarrow> Mv \<Rightarrow> Mv" where
  "lowPrecIfHigh h v = (if highPrec v then setLowPrec h v else v)"

text \<open>The zero padding \<open>while (pInfo->numCand < AMVP_MAX_NUM_CANDS)\<close> (1415-1424).\<close>

function padCand :: "macros \<Rightarrow> AMVPInfo \<Rightarrow> AMVPInfo" where
  "padCand m info =
    (if numCand info < AMVP_MAX_NUM_CANDS
     then padCand m
            (info\<lparr> mvCand := (mvCand info)[numCand info :=
                       (if REMOVE_MV_ADAPT_PREC m then Mv0
                        else Mv0\<lparr> highPrec := highPrec (mvCand info ! numCand info) \<rparr>)],
                   numCand := numCand info + 1 \<rparr>)
     else info)"
  by pat_completeness auto
termination
  by (relation "measure (\<lambda>(m, info). AMVP_MAX_NUM_CANDS - numCand info)") auto

declare padCand.simps [simp del]

text \<open>The left predictor search (1293-1311).\<close>

definition leftSearch ::
  "macros \<Rightarrow> helpers \<Rightarrow> PUEnv \<Rightarrow> RefPicList \<Rightarrow> int \<Rightarrow> AMVPInfo \<Rightarrow> error + (bool \<times> AMVPInfo)" where
  "leftSearch m h pu eRefPicList refIdx info =
    orElse (addMVPCandUnscaled pu eRefPicList refIdx (pu_bottomLeft pu) MD_BELOW_LEFT info False)
      (\<lambda>i1. orElse (addMVPCandUnscaled pu eRefPicList refIdx (pu_bottomLeft pu) MD_LEFT i1 False)
        (\<lambda>i2. orElse (addMVPCandWithScaling m h pu eRefPicList refIdx (pu_bottomLeft pu)
                        MD_BELOW_LEFT i2 False)
          (\<lambda>i3. addMVPCandWithScaling m h pu eRefPicList refIdx (pu_bottomLeft pu)
                   MD_LEFT i3 False)))"

text \<open>The above predictor search (1313-1326).\<close>

definition aboveSearch ::
  "PUEnv \<Rightarrow> RefPicList \<Rightarrow> int \<Rightarrow> AMVPInfo \<Rightarrow> error + (bool \<times> AMVPInfo)" where
  "aboveSearch pu eRefPicList refIdx info =
    orElse (addMVPCandUnscaled pu eRefPicList refIdx (pu_topRight pu) MD_ABOVE_RIGHT info False)
      (\<lambda>i1. orElse (addMVPCandUnscaled pu eRefPicList refIdx (pu_topRight pu) MD_ABOVE i1 False)
        (\<lambda>i2. addMVPCandUnscaled pu eRefPicList refIdx (pu_topLeft pu) MD_ABOVE_LEFT i2 False))"

text \<open>The scaled above search, run when no left neighbour is inter coded (1328-1341).\<close>

definition aboveScaledSearch ::
  "macros \<Rightarrow> helpers \<Rightarrow> PUEnv \<Rightarrow> RefPicList \<Rightarrow> int \<Rightarrow> AMVPInfo \<Rightarrow> error + (bool \<times> AMVPInfo)" where
  "aboveScaledSearch m h pu eRefPicList refIdx info =
    orElse (addMVPCandWithScaling m h pu eRefPicList refIdx (pu_topRight pu) MD_ABOVE_RIGHT info False)
      (\<lambda>i1. orElse (addMVPCandWithScaling m h pu eRefPicList refIdx (pu_topRight pu) MD_ABOVE i1 False)
        (\<lambda>i2. addMVPCandWithScaling m h pu eRefPicList refIdx (pu_topLeft pu) MD_ABOVE_LEFT i2 False))"

definition neighbourIsInter :: "PUEnv \<Rightarrow> Position \<Rightarrow> bool" where
  "neighbourIsInter pu pos =
    (case pu_getPURestricted pu pos of None \<Rightarrow> False | Some tmpPU \<Rightarrow> n_isInter tmpPU)"

text \<open>Lines 1343-1361: rounding to the integer-motion precision and the duplicate test.\<close>

definition imvRoundFirst :: "macros \<Rightarrow> helpers \<Rightarrow> PUEnv \<Rightarrow> AMVPInfo \<Rightarrow> AMVPInfo" where
  "imvRoundFirst m h pu info =
    (if pu_imv pu \<noteq> 0
     then (let imvShift = 2 * pu_imv pu
                  + (if REMOVE_MV_ADAPT_PREC m then VCEG_AZ07_MV_ADD_PRECISION_BIT_FOR_STORE m else 0)
           in info\<lparr> mvCand := mapFirst (numCand info) (\<lambda>v. roundMV h v imvShift) (mvCand info) \<rparr>)
     else info)"

definition dropDuplicate :: "AMVPInfo \<Rightarrow> AMVPInfo" where
  "dropDuplicate info =
    (if numCand info = 2
     then (if mvCand info ! 0 = mvCand info ! 1 then info\<lparr> numCand := 1 \<rparr> else info)
     else info)"

text \<open>Lines 1363-1409: the temporal predictor.\<close>

definition addTemporal ::
  "macros \<Rightarrow> helpers \<Rightarrow> PUEnv \<Rightarrow> RefPicList \<Rightarrow> int \<Rightarrow> AMVPInfo \<Rightarrow> error + AMVPInfo" where
  "addTemporal m h pu eRefPicList refIdx info =
    (if sl_enableTMVPFlag (pu_slice pu)
     then ebind (temporalMVP m h pu eRefPicList refIdx)
            (\<lambda>r. case r of Some cColMv \<Rightarrow> Inr (amvpAppend info cColMv) | None \<Rightarrow> Inr info)
     else Inr info)"

text \<open>Lines 1410-1459: truncation, zero padding and the final rounding passes.\<close>

definition truncateCand :: "AMVPInfo \<Rightarrow> AMVPInfo" where
  "truncateCand info =
    (if numCand info > AMVP_MAX_NUM_CANDS then info\<lparr> numCand := AMVP_MAX_NUM_CANDS \<rparr> else info)"

definition finalRounding :: "macros \<Rightarrow> helpers \<Rightarrow> PUEnv \<Rightarrow> AMVPInfo \<Rightarrow> AMVPInfo" where
  "finalRounding m h pu info =
    (let i1 = (if REMOVE_MV_ADAPT_PREC m
               then info\<lparr> mvCand := map (roundStoreMv (VCEG_AZ07_MV_ADD_PRECISION_BIT_FOR_STORE m))
                                        (mvCand info) \<rparr>
               else if sps_useHighPrecMv pu
               then info\<lparr> mvCand := map (lowPrecIfHigh h) (mvCand info) \<rparr>
               else info);
         i2 = (if pu_imv pu \<noteq> 0
               then i1\<lparr> mvCand := mapFirst (numCand i1) (\<lambda>v. roundMV h v (2 * pu_imv pu)) (mvCand i1) \<rparr>
               else i1)
     in if \<not> REMOVE_MV_ADAPT_PREC m \<and> sps_useHighPrecMv pu
        then i2\<lparr> mvCand := map (lowPrecIfHigh h) (mvCand i2) \<rparr>
        else i2)"

text \<open>
  Lines 1279-1341: the spatial candidates.  \<open>isScaledFlagLX\<close> is true when the
  below-left or the left neighbour is inter coded.
\<close>

definition spatialCands ::
  "macros \<Rightarrow> helpers \<Rightarrow> PUEnv \<Rightarrow> RefPicList \<Rightarrow> int \<Rightarrow> AMVPInfo \<Rightarrow> error + AMVPInfo" where
  "spatialCands m h pu eRefPicList refIdx info0 =
    (let isScaledFlagLX =
           (neighbourIsInter pu (offset (pu_bottomLeft pu) (-1) 1)
            \<or> neighbourIsInter pu (offset (pu_bottomLeft pu) (-1) 0))
     in ebind (if isScaledFlagLX then leftSearch m h pu eRefPicList refIdx info0
               else Inr (False, info0))
          (\<lambda>rL. ebind (aboveSearch pu eRefPicList refIdx (snd rL))
             (\<lambda>rA. if \<not> isScaledFlagLX
                    then ebind (aboveScaledSearch m h pu eRefPicList refIdx (snd rA))
                           (\<lambda>rS. Inr (snd rS))
                    else Inr (snd rA))))"

text \<open>
  Lines 1279-1409: the candidates found (spatial, rounded, without an exact duplicate,
  with the temporal one), before the list is cut to two entries or padded.
\<close>

definition foundCands ::
  "macros \<Rightarrow> helpers \<Rightarrow> PUEnv \<Rightarrow> RefPicList \<Rightarrow> int \<Rightarrow> AMVPInfo \<Rightarrow> error + AMVPInfo" where
  "foundCands m h pu eRefPicList refIdx info0 =
    ebind (spatialCands m h pu eRefPicList refIdx info0)
      (\<lambda>i3. addTemporal m h pu eRefPicList refIdx (dropDuplicate (imvRoundFirst m h pu i3)))"

text \<open>\<open>PU::fillMvpCand\<close> (UnitTools.cpp 1261-1460).\<close>

definition fillMvpCand ::
  "macros \<Rightarrow> helpers \<Rightarrow> PUEnv \<Rightarrow> RefPicList \<Rightarrow> int \<Rightarrow> AMVPInfo \<Rightarrow> error + AMVPInfo" where
  "fillMvpCand m h pu eRefPicList refIdx amvpInfo =
    (let info0 = amvpInfo\<lparr> numCand := 0 \<rparr>
     in if refIdx < 0 then Inr info0
        else
          ebind (foundCands m h pu eRefPicList refIdx info0)
            (\<lambda>i4. Inr (finalRounding m h pu (padCand m (truncateCand i4)))))"

section \<open>Affine AMVP candidate list\<close>

record AffineAMVPInfo =
  mvCandLT :: "Mv list"
  mvCandRT :: "Mv list"
  mvCandLB :: "Mv list"
  aff_numCand :: nat

definition affNeighbour :: "PUEnv \<Rightarrow> Position \<Rightarrow> NeighPU list" where
  "affNeighbour pu pos =
    (case pu_getPURestricted pu pos of
       None \<Rightarrow> []
     | Some npu \<Rightarrow> if n_affine npu then [npu] else [])"

text \<open>\<open>getAvailableAffineNeighbours\<close> (UnitTools.cpp 1463-1501): the array \<open>npu\<close>.\<close>

definition getAvailableAffineNeighbours :: "PUEnv \<Rightarrow> NeighPU list" where
  "getAvailableAffineNeighbours pu =
     affNeighbour pu (offset (pu_bottomLeft pu) (-1) 0)
   @ affNeighbour pu (offset (pu_topRight pu) 0 (-1))
   @ affNeighbour pu (offset (pu_topRight pu) 1 (-1))
   @ affNeighbour pu (offset (pu_bottomLeft pu) (-1) 1)
   @ affNeighbour pu (offset (pu_topLeft pu) (-1) (-1))"

text \<open>\<open>v << k\<close> on integers.\<close>

definition shl :: "int \<Rightarrow> nat \<Rightarrow> int" where
  "shl v k = v * 2 ^ k"

text \<open>
  Storing a computed corner vector: with REMOVE_MV_ADAPT_PREC the two components are
  assigned, otherwise a high-precision vector is constructed.
\<close>

definition storeCorner :: "macros \<Rightarrow> Mv \<Rightarrow> int \<times> int \<Rightarrow> Mv" where
  "storeCorner m old hv =
    (if REMOVE_MV_ADAPT_PREC m then old\<lparr> hor := fst hv, ver := snd hv \<rparr>
     else \<lparr> hor = fst hv, ver = snd hv, highPrec = True \<rparr>)"

text \<open>\<open>PU::xInheritedAffineMv\<close> (UnitTools.cpp 1503-1578).\<close>

definition xInheritedAffineMv ::
  "macros \<Rightarrow> helpers \<Rightarrow> PUEnv \<Rightarrow> NeighPU \<Rightarrow> RefPicList \<Rightarrow> Mv list \<Rightarrow> Mv list" where
  "xInheritedAffineMv m h pu puNeighbour eRefPicList rcMv =
    (let posNeiX = px (n_pos puNeighbour);
         posNeiY = py (n_pos puNeighbour);
         posCurX = px (pu_pos pu);
         posCurY = py (pu_pos pu);
         neiW = n_width puNeighbour;
         curW = pu_width pu;
         neiH = n_height puNeighbour;
         curH = pu_height pu;
         mvLT = mi_mv (n_motion puNeighbour (n_topLeft puNeighbour)) eRefPicList;
         mvRT = mi_mv (n_motion puNeighbour (n_topRight puNeighbour)) eRefPicList;
         mvLB = mi_mv (n_motion puNeighbour (n_bottomLeft puNeighbour)) eRefPicList;
         shift = MAX_CU_DEPTH m;
         iDMvHorX = shl (hor (mvMinus h mvRT mvLT)) (shift - g_aucLog2 h neiW);
         iDMvHorY = shl (ver (mvMinus h mvRT mvLT)) (shift - g_aucLog2 h neiW);
         iDMvVerX = (if n_affineType puNeighbour = AFFINEMODEL_6PARAM
                     then shl (hor (mvMinus h mvLB mvLT)) (shift - g_aucLog2 h neiH)
                     else - iDMvHorY);
         iDMvVerY = (if n_affineType puNeighbour = AFFINEMODEL_6PARAM
                     then shl (ver (mvMinus h mvLB mvLT)) (shift - g_aucLog2 h neiH)
                     else iDMvHorX);
         iMvScaleHor = shl (hor mvLT) shift;
         iMvScaleVer = shl (ver mvLT) shift;
         v0 = roundAffineMv h
                (iMvScaleHor + iDMvHorX * (posCurX - posNeiX) + iDMvVerX * (posCurY - posNeiY))
                (iMvScaleVer + iDMvHorY * (posCurX - posNeiX) + iDMvVerY * (posCurY - posNeiY))
                shift;
         rc0 = rcMv[0 := storeCorner m (rcMv ! 0) v0];
         v1 = roundAffineMv h
                (iMvScaleHor + iDMvHorX * (posCurX + curW - posNeiX) + iDMvVerX * (posCurY - posNeiY))
                (iMvScaleVer + iDMvHorY * (posCurX + curW - posNeiX) + iDMvVerY * (posCurY - posNeiY))
                shift;
         rc1 = rc0[1 := storeCorner m (rc0 ! 1) v1]
     in if pu_affineType pu = AFFINEMODEL_6PARAM
        then (let v2 = roundAffineMv h
                         (iMvScaleHor + iDMvHorX * (posCurX - posNeiX)
                            + iDMvVerX * (posCurY + curH - posNeiY))
                         (iMvScaleVer + iDMvHorY * (posCurX - posNeiX)
                            + iDMvVerY * (posCurY + curH - posNeiY))
                         shift
              in rc1[2 := storeCorner m (rc1 ! 2) v2])
        else rc1)"

text \<open>
  The test that guards both insertions of an affine candidate (1626-1629 and
  1737-1740), and the insertion itself.
\<close>

definition affIsNew :: "PUEnv \<Rightarrow> Mv list \<Rightarrow> AffineAMVPInfo \<Rightarrow> bool" where
  "affIsNew pu outputAffineMv affi =
    (aff_numCand affi = 0
     \<or> (pu_affineType pu = AFFINEMODEL_4PARAM
          \<and> (outputAffineMv ! 0 \<noteq> mvCandLT affi ! 0 \<or> outputAffineMv ! 1 \<noteq> mvCandRT affi ! 0))
     \<or> (pu_affineType pu = AFFINEMODEL_6PARAM
          \<and> (outputAffineMv ! 0 \<noteq> mvCandLT affi ! 0 \<or> outputAffineMv ! 1 \<noteq> mvCandRT affi ! 0
               \<or> outputAffineMv ! 2 \<noteq> mvCandLB affi ! 0)))"

definition affAppend :: "AffineAMVPInfo \<Rightarrow> Mv \<Rightarrow> Mv \<Rightarrow> Mv \<Rightarrow> AffineAMVPInfo" where
  "affAppend affi lt rt lb =
    affi\<lparr> mvCandLT := (mvCandLT affi)[aff_numCand affi := lt],
          mvCandRT := (mvCandRT affi)[aff_numCand affi := rt],
          mvCandLB := (mvCandLB affi)[aff_numCand affi := lb],
          aff_numCand := aff_numCand affi + 1 \<rparr>"

definition listBit :: "RefPicList \<Rightarrow> nat" where
  "listBit l = (case l of REF_PIC_LIST_0 \<Rightarrow> 1 | REF_PIC_LIST_1 \<Rightarrow> 2)"

text \<open>
  The loop over the affine neighbours (1608-1636) for one tested reference list; the
  state is the scratch array \<open>outputAffineMv\<close> and the list under construction.
\<close>

fun inheritLoop ::
  "macros \<Rightarrow> helpers \<Rightarrow> PUEnv \<Rightarrow> RefPicList \<Rightarrow> int \<Rightarrow> NeighPU list
     \<Rightarrow> Mv list \<times> AffineAMVPInfo \<Rightarrow> Mv list \<times> AffineAMVPInfo" where
  "inheritLoop m h pu eTestRefPicList targetRefPOC [] st = st"
| "inheritLoop m h pu eTestRefPicList targetRefPOC (puNeighbour # rest) st =
    (case st of (outputAffineMv, affi) \<Rightarrow>
      if \<not> aff_numCand affi < AMVP_MAX_NUM_CANDS then st
      else if and (n_interDir puNeighbour) (listBit eTestRefPicList) = 0
              \<or> sl_refPOC (pu_slice pu) eTestRefPicList (n_refIdx puNeighbour eTestRefPicList)
                   \<noteq> targetRefPOC
      then inheritLoop m h pu eTestRefPicList targetRefPOC rest st
      else
        (let o1 = xInheritedAffineMv m h pu puNeighbour eTestRefPicList outputAffineMv;
             o2 = o1[0 := roundMV2SignalPrecision h (o1 ! 0)];
             o3 = o2[1 := roundMV2SignalPrecision h (o2 ! 1)];
             o4 = (if pu_affineType pu = AFFINEMODEL_6PARAM
                   then o3[2 := roundMV2SignalPrecision h (o3 ! 2)] else o3)
         in inheritLoop m h pu eTestRefPicList targetRefPOC rest
              (o4, if affIsNew pu o4 affi then affAppend affi (o4 ! 0) (o4 ! 1) (o4 ! 2)
                   else affi)))"

text \<open>The two rounds of the outer loop over \<open>refPicList\<close> (1604-1637).\<close>

definition inheritedCands ::
  "macros \<Rightarrow> helpers \<Rightarrow> PUEnv \<Rightarrow> RefPicList \<Rightarrow> int \<Rightarrow> Mv list \<times> AffineAMVPInfo
     \<Rightarrow> Mv list \<times> AffineAMVPInfo" where
  "inheritedCands m h pu eRefPicList targetRefPOC st =
    (let npu = getAvailableAffineNeighbours pu;
         st1 = (if aff_numCand (snd st) < AMVP_MAX_NUM_CANDS
                then inheritLoop m h pu eRefPicList targetRefPOC npu st else st)
     in if aff_numCand (snd st1) < AMVP_MAX_NUM_CANDS
        then inheritLoop m h pu (otherList eRefPicList) targetRefPOC npu st1 else st1)"

text \<open>The rounding of the first \<open>numCand\<close> corner triples under REMOVE_MV_ADAPT_PREC.\<close>

definition affRoundStore :: "macros \<Rightarrow> AffineAMVPInfo \<Rightarrow> AffineAMVPInfo" where
  "affRoundStore m affi =
    (if REMOVE_MV_ADAPT_PREC m
     then (let f = roundStoreMv (VCEG_AZ07_MV_ADD_PRECISION_BIT_FOR_STORE m); n = aff_numCand affi
           in affi\<lparr> mvCandLT := mapFirst n f (mvCandLT affi),
                    mvCandRT := mapFirst n f (mvCandRT affi),
                    mvCandLB := mapFirst n f (mvCandLB affi) \<rparr>)
     else affi)"

text \<open>A local \<open>AMVPInfo\<close> whose vectors are default constructed.\<close>

definition localAMVPInfo :: "macros \<Rightarrow> AMVPInfo" where
  "localAMVPInfo m = \<lparr> mvCand = replicate (AMVP_MAX_NUM_CANDS_MEM m) Mv0, numCand = 0 \<rparr>"

text \<open>The three corner searches of the constructed candidate (1661-1699).\<close>

definition cornerSearch ::
  "PUEnv \<Rightarrow> RefPicList \<Rightarrow> int \<Rightarrow> (Position \<times> MvpDir) list \<Rightarrow> AMVPInfo \<Rightarrow> error + AMVPInfo" where
  "cornerSearch pu eRefPicList refIdx tries info0 =
    fold (\<lambda>(pos, eDir) r.
            ebind r (\<lambda>info.
              if numCand info < 1
              then ebind (addMVPCandUnscaled pu eRefPicList refIdx pos eDir info True)
                     (\<lambda>(bAdded, info'). Inr info')
              else Inr info))
      tries (Inr info0)"

text \<open>Lines 1701-1747: combining the corners into the constructed candidate.\<close>

definition constructedCand ::
  "macros \<Rightarrow> helpers \<Rightarrow> PUEnv \<Rightarrow> AMVPInfo \<Rightarrow> AMVPInfo \<Rightarrow> AMVPInfo \<Rightarrow> AffineAMVPInfo
     \<Rightarrow> AffineAMVPInfo" where
  "constructedCand m h pu amvpInfo0 amvpInfo1 amvpInfo2 affi =
    (let cornerMVPattern = or (or (or 0 (numCand amvpInfo0)) (push_bit 1 (numCand amvpInfo1)))
                              (push_bit 2 (numCand amvpInfo2));
         prep = (\<lambda>v. roundMV2SignalPrecision h
                        (if REMOVE_MV_ADAPT_PREC m then v else setHighPrec h v));
         o0 = prep (mvCand amvpInfo0 ! 0);
         o1 = prep (mvCand amvpInfo1 ! 0);
         o2 = prep (mvCand amvpInfo2 ! 0);
         curWidth = pu_width pu;
         curHeight = pu_height pu;
         shift = MAX_CU_DEPTH m
     in if cornerMVPattern = 7 \<or> cornerMVPattern = 3 \<or> cornerMVPattern = 5
        then
          (let o2' = (if cornerMVPattern = 3 \<and> pu_affineType pu = AFFINEMODEL_6PARAM
                      then (let k = shift + g_aucLog2 h curHeight - g_aucLog2 h curWidth;
                                v = roundAffineMv h
                                      (shl (hor o0) shift - shl (ver o1 - ver o0) k)
                                      (shl (ver o0) shift + shl (hor o1 - hor o0) k)
                                      shift
                            in roundMV2SignalPrecision h (o2\<lparr> hor := fst v, ver := snd v \<rparr>))
                      else o2);
               o1' = (if cornerMVPattern = 5
                      then (let k = shift + g_aucLog2 h curWidth - g_aucLog2 h curHeight;
                                v = roundAffineMv h
                                      (shl (hor o0) shift + shl (ver o2' - ver o0) k)
                                      (shl (ver o0) shift - shl (hor o2' - hor o0) k)
                                      shift
                            in roundMV2SignalPrecision h (o1\<lparr> hor := fst v, ver := snd v \<rparr>))
                      else o1)
           in if affIsNew pu [o0, o1', o2'] affi then affAppend affi o0 o1' o2' else affi)
        else affi)"

text \<open>
  Lines 1759-1775: topping up with ordinary AMVP candidates, each replicated to the
  three corners.
\<close>

fun topUp :: "macros \<Rightarrow> helpers \<Rightarrow> AMVPInfo \<Rightarrow> nat \<Rightarrow> nat \<Rightarrow> AffineAMVPInfo \<Rightarrow> AffineAMVPInfo" where
  "topUp m h amvpInfo i 0 affi = affi"
| "topUp m h amvpInfo i (Suc k) affi =
    (let v = (if REMOVE_MV_ADAPT_PREC m then mvCand amvpInfo ! i
              else setHighPrec h (mvCand amvpInfo ! i))
     in topUp m h (amvpInfo\<lparr> mvCand := (mvCand amvpInfo)[i := v] \<rparr>) (i + 1) k
          (affAppend affi v v v))"

text \<open>
  Lines 1655-1758: the three corner searches, the constructed candidate and the
  rounding that follows it.  Each search starts from an empty local list, so the first
  call of a search is not guarded in the source.
\<close>

definition constructedStage ::
  "macros \<Rightarrow> helpers \<Rightarrow> PUEnv \<Rightarrow> RefPicList \<Rightarrow> int \<Rightarrow> AffineAMVPInfo
     \<Rightarrow> error + AffineAMVPInfo" where
  "constructedStage m h pu eRefPicList refIdx affi1 =
    ebind (cornerSearch pu eRefPicList refIdx
             [(pu_topLeft pu, MD_ABOVE_LEFT), (pu_topLeft pu, MD_ABOVE),
              (pu_topLeft pu, MD_LEFT)] (localAMVPInfo m))
      (\<lambda>amvpInfo0.
        ebind (cornerSearch pu eRefPicList refIdx
                 [(pu_topRight pu, MD_ABOVE), (pu_topRight pu, MD_ABOVE_RIGHT)]
                 (localAMVPInfo m))
          (\<lambda>amvpInfo1.
            ebind (cornerSearch pu eRefPicList refIdx
                     [(pu_bottomLeft pu, MD_LEFT), (pu_bottomLeft pu, MD_BELOW_LEFT)]
                     (localAMVPInfo m))
              (\<lambda>amvpInfo2.
                 Inr (affRoundStore m
                        (constructedCand m h pu amvpInfo0 amvpInfo1 amvpInfo2 affi1)))))"

text \<open>\<open>PU::fillAffineMvpCand\<close> (UnitTools.cpp 1581-1776).\<close>

definition fillAffineMvpCand ::
  "macros \<Rightarrow> helpers \<Rightarrow> PUEnv \<Rightarrow> RefPicList \<Rightarrow> int \<Rightarrow> AffineAMVPInfo
     \<Rightarrow> error + AffineAMVPInfo" where
  "fillAffineMvpCand m h pu eRefPicList refIdx affiAMVPInfo =
    (let affi0 = affiAMVPInfo\<lparr> aff_numCand := 0 \<rparr>
     in if refIdx < 0 then Inr affi0
        else
          (let targetRefPOC = sl_refPOC (pu_slice pu) eRefPicList refIdx;
               affi1 = snd (inheritedCands m h pu eRefPicList targetRefPOC
                              ([Mv0, Mv0, Mv0], affi0))
           in if aff_numCand affi1 \<ge> AMVP_MAX_NUM_CANDS then Inr (affRoundStore m affi1)
              else
                ebind (constructedStage m h pu eRefPicList refIdx affi1)
                  (\<lambda>affi2.
                     if aff_numCand affi2 < 2
                     then ebind (fillMvpCand m h pu eRefPicList refIdx (localAMVPInfo m))
                            (\<lambda>amvpInfo.
                               Inr (topUp m h amvpInfo 0
                                      (numCand amvpInfo - aff_numCand affi2) affi2))
                     else Inr affi2)))"

section \<open>Encoder: the best-mode ledger and the end of a node (EncoderLib)\<close>

datatype ChannelType = LUMA | CHROMA

datatype PredMode = MODE_INTER | MODE_INTRA | MODE_IBC | MODE_PLT | NUMBER_OF_PREDICTION_MODES

datatype ModeType = MODE_TYPE_ALL | MODE_TYPE_INTER | MODE_TYPE_INTRA

datatype PartSplit =
  CU_DONT_SPLIT | CU_QUAD_SPLIT | CU_HORZ_SPLIT | CU_VERT_SPLIT | CU_TRIH_SPLIT | CU_TRIV_SPLIT

text \<open>
  Rate-distortion costs are doubles that the code only compares and copies; they are
  reals here.  \<open>MAX_DOUBLE\<close> (CommonDef.h, not among the sources) is the largest finite
  double, used as the sentinel of a region without a finished encoding.
\<close>

definition MAX_DOUBLE :: real where
  "MAX_DOUBLE = 2 ^ 1024 - 2 ^ 971"

record CodingUnit =
  cu_skip :: bool
  cu_mergeFlag :: bool
  cu_chType :: ChannelType
  cu_qp :: int
  cu_predMode :: PredMode
  cu_tileIdx :: nat
  cu_rootCbf :: bool
  cu_lumaArea :: nat
  cu_coversArea :: bool

text \<open>
  A coding structure: the coding units, the accumulated cost figures and the state
  saved around a split.  Palette predictor and motion look-up table are opaque values
  that are only saved and restored.
\<close>

record CodingStructure =
  cs_cus :: "CodingUnit list"
  cs_cost :: real
  cs_costDbOffset :: real
  cs_useDbCost :: bool
  cs_fracBits :: nat
  cs_dist :: nat
  cs_prevQP :: "ChannelType \<Rightarrow> int"
  cs_prevPLT :: "nat list"
  cs_motionLut :: "nat list"
  cs_isDualITree :: bool
  cs_lumaArea :: nat
  cs_tileIdxOfArea :: nat

record EncTestMode =
  etm_split :: PartSplit
  etm_qp :: int

text \<open>
  Calls into collaborators that are outside the analysed sources leave a trace entry;
  what they compute does not enter the ledger.
\<close>

datatype event =
    FinishCULevel
  | SaveMotionForHmvp
  | CopyPredAndReco
  | SaveCuAreaCostInSCIPU
  | UpdatePrevPLT
  | AddAffMVInfo
  | AddUniMvInfo
  | ReleaseIntermediateData

text \<open>
  The encoder object.  Coding structures live in a store and are referred to by
  address, as the pointers \<open>tempCS\<close> and \<open>bestCS\<close> do; the entropy-coder context and
  the two checkpoints of the current node (\<open>m_CurrCtx->start\<close>, \<open>m_CurrCtx->best\<close>)
  are lists of context states.
\<close>

type_synonym Ctx = "nat list"

record EncCu =
  store :: "nat \<Rightarrow> CodingStructure"
  m_CABACEstimator_ctx :: Ctx
  m_CurrCtx_start :: Ctx
  m_CurrCtx_best :: Ctx
  m_bestModeUpdated :: bool
  trace :: "event list"

text \<open>
  The collaborators of a node: the mode controller's decision
  \<open>m_modeCtrl->useModeResult\<close> (EncModeCtrl.cpp), the cost function
  \<open>m_pcRdCost->calcRdCost\<close>, the delta-QP check \<open>xCheckDQP\<close> as a transformer of the
  provisional structure and the context, and the configuration switch
  \<open>getUseEncDbOpt\<close>.  The controller keeps its own pointer to the best structure of the
  node, so its decision is a function of the test mode, the provisional structure and
  the best structure.
\<close>

record EncEnv =
  useModeResult :: "EncTestMode \<Rightarrow> CodingStructure \<Rightarrow> CodingStructure \<Rightarrow> bool"
  calcRdCost :: "nat \<Rightarrow> nat \<Rightarrow> real"
  xCheckDQP :: "CodingStructure \<Rightarrow> Ctx \<Rightarrow> error + (CodingStructure \<times> Ctx)"
  getUseEncDbOpt :: bool

text \<open>
  Modelled from the spec: \<open>EncModeCtrl::useModeResult\<close> is not among the sources.
  Section 4.4 of the specification: a trial is accepted iff its cost is strictly
  better under a simple cost ordering, ties keeping the result found first.
\<close>

definition useModeResult_spec :: "EncTestMode \<Rightarrow> CodingStructure \<Rightarrow> CodingStructure \<Rightarrow> bool" where
  "useModeResult_spec encTestMode tempCS bestCS = (cs_cost tempCS < cs_cost bestCS)"

text \<open>
  \<open>EncCu::xCheckBestMode\<close> (EncCu.cpp 462-493).  The two pointer references are passed
  and returned as a pair of addresses \<open>(tempCS, bestCS)\<close>.
\<close>

definition xCheckBestMode ::
  "EncEnv \<Rightarrow> EncCu \<Rightarrow> nat \<times> nat \<Rightarrow> EncTestMode \<Rightarrow> error + (bool \<times> (nat \<times> nat) \<times> EncCu)" where
  "xCheckBestMode env s ptrs encTestMode =
    (case ptrs of (tempCS, bestCS) \<Rightarrow>
      (let temp = store s tempCS
       in if cs_cus temp \<noteq> []
          then
            (if length (cs_cus temp) = 1 \<and> cu_skip (hd (cs_cus temp))
                  \<and> \<not> cu_mergeFlag (hd (cs_cus temp))
             then Inl (CheckFailed ''Skip flag without a merge flag is not allowed!'')
             else if useModeResult env encTestMode temp (store s bestCS)
             then Inr (True, (bestCS, tempCS),
                       s\<lparr> m_CurrCtx_best := m_CABACEstimator_ctx s,
                          m_bestModeUpdated := True,
                          m_CABACEstimator_ctx := m_CurrCtx_start s \<rparr>)
             else Inr (False, (tempCS, bestCS), s\<lparr> m_CABACEstimator_ctx := m_CurrCtx_start s \<rparr>))
          else Inr (False, (tempCS, bestCS), s\<lparr> m_CABACEstimator_ctx := m_CurrCtx_start s \<rparr>)))"

text \<open>
  The locals of \<open>EncCu::xCheckModeSplit\<close> that are live at line 1462, after the
  children have been encoded and the split signalling bits added.
\<close>

record SplitLocals =
  loc_oldPrevQp :: int
  loc_oldMotionLut :: "nat list"
  loc_oldPLT :: "nat list"
  loc_qgEnableChildren :: bool
  loc_modeTypeParent :: ModeType
  loc_modeTypeChild :: ModeType
  loc_chType :: ChannelType
  loc_isAffMVInfoSaved :: bool
  loc_isUniMvInfoSaved :: bool
  loc_sliceIsIntra :: bool
  loc_skipInterPass :: bool
  loc_splitRdCostBest :: "PartSplit \<Rightarrow> real"

definition updStore :: "EncCu \<Rightarrow> nat \<Rightarrow> (CodingStructure \<Rightarrow> CodingStructure) \<Rightarrow> EncCu" where
  "updStore s a f = s\<lparr> store := (store s)(a := f (store s a)) \<rparr>"

text \<open>
  Lines 1462-1496: the cost of the split structure, the delta-QP bits, and the
  bookkeeping before the comparison.
\<close>

definition splitCost ::
  "EncEnv \<Rightarrow> EncCu \<Rightarrow> nat \<times> nat \<Rightarrow> EncTestMode \<Rightarrow> SplitLocals \<Rightarrow> error + (EncCu \<times> SplitLocals)" where
  "splitCost env s ptrs encTestMode loc =
    (case ptrs of (tempCS, bestCS) \<Rightarrow>
      (let s1 = updStore s tempCS
                  (\<lambda>c. c\<lparr> cs_cost := calcRdCost env (cs_fracBits c) (cs_dist c) \<rparr>)
       in ebind (if \<not> loc_qgEnableChildren loc
                 then ebind (xCheckDQP env (store s1 tempCS) (m_CABACEstimator_ctx s1))
                        (\<lambda>(c, ctx). Inr ((updStore s1 tempCS (\<lambda>_. c))\<lparr> m_CABACEstimator_ctx := ctx \<rparr>))
                 else Inr s1)
            (\<lambda>s2.
               (let s3 = (if cs_cost (store s2 bestCS) \<noteq> MAX_DOUBLE then s2
                          else updStore s2 bestCS (\<lambda>c. c\<lparr> cs_costDbOffset := 0 \<rparr>));
                    s4 = updStore s3 tempCS (\<lambda>c. c\<lparr> cs_useDbCost := getUseEncDbOpt env \<rparr>);
                    temp = store s4 tempCS;
                    areaSizeNoResiCu =
                      sum_list (map (\<lambda>cu. if \<not> cu_rootCbf cu then cu_lumaArea cu else 0) (cs_cus temp));
                    skip = (if cs_cus temp \<noteq> [] \<and> loc_modeTypeParent loc = MODE_TYPE_ALL
                               \<and> loc_modeTypeChild loc = MODE_TYPE_INTER
                               \<and> areaSizeNoResiCu \<ge> cs_lumaArea temp div 2
                            then True else loc_skipInterPass loc)
                in Inr (s4, loc\<lparr> loc_skipInterPass := skip,
                                  loc_splitRdCostBest :=
                                    (loc_splitRdCostBest loc)(etm_split encTestMode := cs_cost temp) \<rparr>)))))"

text \<open>
  Lines 1498-1523: the comparison through the ledger and the restoration of the saved
  state in the structure that \<open>tempCS\<close> points to afterwards.
\<close>

definition xCheckModeSplit_finish ::
  "EncEnv \<Rightarrow> EncCu \<Rightarrow> nat \<times> nat \<Rightarrow> EncTestMode \<Rightarrow> SplitLocals
     \<Rightarrow> error + ((nat \<times> nat) \<times> EncCu \<times> SplitLocals)" where
  "xCheckModeSplit_finish env s ptrs encTestMode loc =
    ebind (splitCost env s ptrs encTestMode loc)
      (\<lambda>(s4, loc').
         ebind (xCheckBestMode env s4 ptrs encTestMode)
           (\<lambda>(bestCSUpdated, ptrs', s5).
              (let s6 = s5\<lparr> trace := trace s5
                                @ (if loc_isAffMVInfoSaved loc' then [AddAffMVInfo] else [])
                                @ (if \<not> loc_sliceIsIntra loc' \<and> loc_isUniMvInfoSaved loc'
                                   then [AddUniMvInfo] else [])
                                @ [ReleaseIntermediateData] \<rparr>;
                   s7 = updStore s6 (fst ptrs')
                          (\<lambda>c. c\<lparr> cs_motionLut := loc_oldMotionLut loc',
                                   cs_prevPLT := loc_oldPLT loc',
                                   cs_prevQP := (cs_prevQP c)(loc_chType loc' := loc_oldPrevQp loc') \<rparr>)
               in Inr (ptrs', s7, loc'))))"

text \<open>
  What the end of \<open>EncCu::xCompressCU\<close> reads of the node.  The last field is what
  happens once the code has run into undefined behaviour: the language puts no
  constraint on it, so it is a parameter about which nothing is known.
\<close>

record NodeEnv =
  ne_chType :: ChannelType
  ne_sliceIsIntra :: bool
  ne_IBCFlag :: bool
  ne_saveCuCostInSCIPU :: bool
  ne_undefinedBehaviour :: "EncCu \<Rightarrow> error + EncCu"

text \<open>
  \<open>EncCu::xCompressCU\<close> from line 969 to its end at line 1049, entered when the mode
  controller has no further mode.  With an empty list of coding units the test of line
  984 is false, so line 992 evaluates \<open>bestCS->cus.back()\<close> on an empty vector, which
  is undefined behaviour; the checks of lines 1046-1048 come after it.  With a list
  that is not empty every later access (\<open>cus.back()\<close>, \<open>cus.front()\<close>, \<open>cus[0]\<close>) is
  defined.  The palette predictor update of lines 1010-1043 copies palette arrays only
  and is recorded in the trace.
\<close>

definition xCompressCU_finish ::
  "NodeEnv \<Rightarrow> EncCu \<Rightarrow> nat \<times> nat \<Rightarrow> error + EncCu" where
  "xCompressCU_finish ne s ptrs =
    (case ptrs of (tempCS, bestCS) \<Rightarrow>
      if cs_cost (store s tempCS) = MAX_DOUBLE \<and> cs_cost (store s bestCS) = MAX_DOUBLE
      then Inr (s\<lparr> trace := trace s @ [FinishCULevel] \<rparr>)
      else
        (let s1 = s\<lparr> m_CABACEstimator_ctx := m_CurrCtx_best s \<rparr>;
             best = store s1 bestCS;
             cus = cs_cus best;
             numCUInThisNode = length cus
         in if cus = [] then ne_undefinedBehaviour ne s1
            else
              ebind
                (if numCUInThisNode > 1 \<and> cu_chType (last cus) = CHROMA \<and> \<not> cs_isDualITree best
                 then (if cu_chType (cus ! (numCUInThisNode - 2)) \<noteq> LUMA
                       then Inl (CheckFailed ''wrong chType'')
                       else Inr (cu_qp (cus ! (numCUInThisNode - 2))))
                 else Inr (cu_qp (last cus)))
                (\<lambda>qp.
                   (let s2 = updStore s1 bestCS
                               (\<lambda>c. c\<lparr> cs_prevQP := (cs_prevQP c)(ne_chType ne := qp) \<rparr>);
                        hmvp = ((\<not> ne_sliceIsIntra ne \<or> ne_IBCFlag ne) \<and> ne_chType ne = LUMA
                                  \<and> length cus = 1
                                  \<and> (cu_predMode (last cus) = MODE_INTER \<or> cu_predMode (last cus) = MODE_IBC)
                                  \<and> cu_coversArea (last cus));
                        s3 = s2\<lparr> trace := trace s2
                                   @ (if hmvp then [SaveMotionForHmvp] else [])
                                   @ [CopyPredAndReco, FinishCULevel]
                                   @ (if ne_saveCuCostInSCIPU ne \<and> length cus = 1
                                      then [SaveCuAreaCostInSCIPU] else []) \<rparr>
                    in if length cus = 1 \<and> cu_tileIdx (cus ! 0) \<noteq> cs_tileIdxOfArea best
                       then Inl (CheckFailed ''Wrong tile index!'')
                       else
                         (let s4 = s3\<lparr> trace := trace s3 @ [UpdatePrevPLT] \<rparr>
                          in if cs_cus (store s4 bestCS) = []
                             then Inl (CheckFailed ''No possible encoding found'')
                             else if cu_predMode (cs_cus (store s4 bestCS) ! 0) = NUMBER_OF_PREDICTION_MODES
                             then Inl (CheckFailed ''No possible encoding found'')
                             else if cs_cost (store s4 bestCS) = MAX_DOUBLE
                             then Inl (CheckFailed ''No possible encoding found'')
                             else Inr s4)))))"

section \<open>Merge candidate list\<close>

text \<open>
  The locals of \<open>PU::getInterMergeCandidates\<close> that are carried from step to step.  A
  neighbour's motion is present exactly when its availability flag is set
  (\<open>isAvailableA1\<close> for \<open>miLeft\<close>, \<open>isAvailableB1\<close> for \<open>miAbove\<close>, \<open>isAvailableB0\<close> for
  \<open>miAboveRight\<close>, \<open>isAvailableA0\<close> for \<open>miBelowLeft\<close>).  \<open>isCandInter\<close> exists only
  without JVET_L0090_PAIR_AVG.
\<close>

record MrgState =
  ms_ctx :: MergeCtx
  ms_cnt :: nat
  ms_miLeft :: "MotionInfo option"
  ms_miAbove :: "MotionInfo option"
  ms_miAboveRight :: "MotionInfo option"
  ms_miBelowLeft :: "MotionInfo option"
  ms_isCandInter :: "bool list"
  ms_isAvailableSubPu :: bool
  ms_subPuMvpPos :: nat

text \<open>A step either leaves the function (\<open>return\<close>) or hands its state to the next one.\<close>

datatype flow = Return MergeCtx | Continue MrgState

definition thenStage :: "error + flow \<Rightarrow> (MrgState \<Rightarrow> error + flow) \<Rightarrow> error + flow" where
  "thenStage r f =
    (case r of
       Inl err \<Rightarrow> Inl err
     | Inr (Return c) \<Rightarrow> Inr (Return c)
     | Inr (Continue st) \<Rightarrow> f st)"

text \<open>\<open>if (cnt == maxNumMergeCand) return;\<close>\<close>

definition earlyTermination :: "nat \<Rightarrow> MrgState \<Rightarrow> error + flow" where
  "earlyTermination maxNumMergeCand st =
    (if ms_cnt st = maxNumMergeCand then Inr (Return (ms_ctx st)) else Inr (Continue st))"

text \<open>\<open>PU::isDiffMER\<close> (UnitTools.cpp 1232-1252); positions are not negative.\<close>

definition isDiffMER :: "PUEnv \<Rightarrow> NeighPU \<Rightarrow> bool" where
  "isDiffMER pu pu2 =
    (let xN = px (pu_lumaPos pu); yN = py (pu_lumaPos pu);
         xP = px (n_lumaPos pu2); yP = py (n_lumaPos pu2);
         plevel = pps_log2ParallelMergeLevelMinus2 pu + 2
     in if xN div 2 ^ plevel \<noteq> xP div 2 ^ plevel then True
        else if yN div 2 ^ plevel \<noteq> yP div 2 ^ plevel then True
        else False)"

text \<open>
  The availability test of a spatial neighbour; the comparison of the coding units
  is made for A1 and B1 only.
\<close>

definition spatialAvailable :: "PUEnv \<Rightarrow> Position \<Rightarrow> bool \<Rightarrow> NeighPU option" where
  "spatialAvailable pu pos sameCuTest =
    (case pu_getPURestricted pu pos of
       None \<Rightarrow> None
     | Some npu \<Rightarrow>
         if isDiffMER pu npu \<and> (if sameCuTest then pu_cu pu \<noteq> n_cu npu else True)
            \<and> n_isInter npu
         then Some npu else None)"

text \<open>\<open>!isAvailableX || (a != miX)\<close> with the operand order of the source kept.\<close>

definition unavailableOr :: "MotionInfo option \<Rightarrow> (MotionInfo \<Rightarrow> bool) \<Rightarrow> bool" where
  "unavailableOr miX differs = (case miX of None \<Rightarrow> True | Some mi \<Rightarrow> differs mi)"

definition setMvField :: "MvField list \<Rightarrow> nat \<Rightarrow> Mv \<Rightarrow> int \<Rightarrow> MvField list" where
  "setMvField fs i v r = fs[i := \<lparr> mf_mv = v, mf_refIdx = r \<rparr>]"

text \<open>
  The block that stores a spatial neighbour at index \<open>cnt\<close> (for A1: lines 556-571),
  repeated in the source for each of the five neighbours.
\<close>

definition putSpatial :: "macros \<Rightarrow> PUEnv \<Rightarrow> MrgState \<Rightarrow> NeighPU \<Rightarrow> MotionInfo \<Rightarrow> MrgState" where
  "putSpatial m pu st npu mi =
    (let cnt = ms_cnt st;
         c = ms_ctx st;
         c1 = c\<lparr> interDirNeighbours := (interDirNeighbours c)[cnt := interDir mi] \<rparr>;
         c2 = (if JVET_L0646_GBI m
               then c1\<lparr> GBiIdx := (GBiIdx c1)[cnt :=
                           (if interDirNeighbours c1 ! cnt = 3 then n_GBiIdx npu else GBI_DEFAULT m)] \<rparr>
               else c1);
         c3 = c2\<lparr> mvFieldNeighbours :=
                    setMvField (mvFieldNeighbours c2) (2 * cnt) (mi_mv0 mi) (mi_refIdx0 mi) \<rparr>;
         c4 = (if sl_isInterB (pu_slice pu)
               then c3\<lparr> mvFieldNeighbours :=
                          setMvField (mvFieldNeighbours c3) (2 * cnt + 1) (mi_mv1 mi) (mi_refIdx1 mi) \<rparr>
               else c3)
     in st\<lparr> ms_ctx := c4,
            ms_isCandInter := (if JVET_L0090_PAIR_AVG m then ms_isCandInter st
                               else (ms_isCandInter st)[cnt := True]) \<rparr>)"

text \<open>\<open>if (mrgCandIdx == cnt && canFastExit) return; cnt++;\<close>\<close>

definition fastExitOrCount :: "PUEnv \<Rightarrow> int \<Rightarrow> MrgState \<Rightarrow> error + flow" where
  "fastExitOrCount pu mrgCandIdx st =
    (if mrgCandIdx = int (ms_cnt st) \<and> pps_log2ParallelMergeLevelMinus2 pu = 0
     then Inr (Return (ms_ctx st))
     else Inr (Continue (st\<lparr> ms_cnt := ms_cnt st + 1 \<rparr>)))"

text \<open>
  Lines 523-537: the initialisation of the first \<open>maxNumMergeCand\<close> entries; first
  the body of the loop for the entry \<open>ui\<close>.
\<close>

definition initEntry :: "macros \<Rightarrow> nat \<Rightarrow> MergeCtx \<Rightarrow> MergeCtx" where
  "initEntry m ui c =
    c\<lparr> GBiIdx := (if JVET_L0646_GBI m then (GBiIdx c)[ui := GBI_DEFAULT m] else GBiIdx c),
       interDirNeighbours := (interDirNeighbours c)[ui := 0],
       mrgTypeNeighbours := (mrgTypeNeighbours c)[ui := MRG_TYPE_DEFAULT_N],
       mvFieldNeighbours :=
         ((mvFieldNeighbours c)
            [2 * ui := (mvFieldNeighbours c ! (2 * ui))\<lparr> mf_refIdx := NOT_VALID \<rparr>])
            [2 * ui + 1 := (mvFieldNeighbours c ! (2 * ui + 1))\<lparr> mf_refIdx := NOT_VALID \<rparr>] \<rparr>"

definition initMergeCtx :: "macros \<Rightarrow> nat \<Rightarrow> MergeCtx \<Rightarrow> MergeCtx" where
  "initMergeCtx m maxNumMergeCand mrgCtx =
    (fold (initEntry m) [0 ..< maxNumMergeCand] mrgCtx)
      \<lparr> numValidMergeCand := maxNumMergeCand \<rparr>"

text \<open>Lines 547-585: the left neighbour A1.\<close>

definition stageA1 :: "macros \<Rightarrow> helpers \<Rightarrow> PUEnv \<Rightarrow> int \<Rightarrow> MrgState \<Rightarrow> error + flow" where
  "stageA1 m h pu mrgCandIdx st =
    (let pos = offset (pu_bottomLeft pu) (-1) 0
     in thenStage
          (case spatialAvailable pu pos True of
             None \<Rightarrow> Inr (Continue st)
           | Some puLeft \<Rightarrow>
               (let miLeft = n_motion puLeft pos
                in fastExitOrCount pu mrgCandIdx
                     (putSpatial m pu (st\<lparr> ms_miLeft := Some miLeft \<rparr>) puLeft miLeft)))
          (earlyTermination (sl_maxNumMergeCand (pu_slice pu))))"

text \<open>Lines 588-629: the above neighbour B1.\<close>

definition stageB1 :: "macros \<Rightarrow> helpers \<Rightarrow> PUEnv \<Rightarrow> int \<Rightarrow> MrgState \<Rightarrow> error + flow" where
  "stageB1 m h pu mrgCandIdx st =
    (let pos = offset (pu_topRight pu) 0 (-1)
     in thenStage
          (case spatialAvailable pu pos True of
             None \<Rightarrow> Inr (Continue st)
           | Some puAbove \<Rightarrow>
               (let miAbove = n_motion puAbove pos;
                    st1 = st\<lparr> ms_miAbove := Some miAbove \<rparr>
                in if unavailableOr (ms_miLeft st) (\<lambda>miLeft. miNotEqual h miAbove miLeft)
                   then fastExitOrCount pu mrgCandIdx (putSpatial m pu st1 puAbove miAbove)
                   else Inr (Continue st1)))
          (earlyTermination (sl_maxNumMergeCand (pu_slice pu))))"

text \<open>Lines 631-675: the above-right neighbour B0.\<close>

definition stageB0 :: "macros \<Rightarrow> helpers \<Rightarrow> PUEnv \<Rightarrow> int \<Rightarrow> MrgState \<Rightarrow> error + flow" where
  "stageB0 m h pu mrgCandIdx st =
    (let pos = offset (pu_topRight pu) 1 (-1)
     in thenStage
          (case spatialAvailable pu pos False of
             None \<Rightarrow> Inr (Continue st)
           | Some puAboveRight \<Rightarrow>
               (let miAboveRight = n_motion puAboveRight pos;
                    st1 = st\<lparr> ms_miAboveRight := Some miAboveRight \<rparr>
                in if unavailableOr (ms_miAbove st) (\<lambda>miAbove. miNotEqual h miAbove miAboveRight)
                      \<and> (if HM_JEM_MERGE_CANDS m
                          then unavailableOr (ms_miLeft st)
                                 (\<lambda>miLeft. miNotEqual h miLeft miAboveRight)
                          else True)
                   then fastExitOrCount pu mrgCandIdx (putSpatial m pu st1 puAboveRight miAboveRight)
                   else Inr (Continue st1)))
          (earlyTermination (sl_maxNumMergeCand (pu_slice pu))))"

text \<open>Lines 677-721: the below-left neighbour A0.\<close>

definition stageA0 :: "macros \<Rightarrow> helpers \<Rightarrow> PUEnv \<Rightarrow> int \<Rightarrow> MrgState \<Rightarrow> error + flow" where
  "stageA0 m h pu mrgCandIdx st =
    (let pos = offset (pu_bottomLeft pu) (-1) 1
     in thenStage
          (case spatialAvailable pu pos False of
             None \<Rightarrow> Inr (Continue st)
           | Some puLeftBottom \<Rightarrow>
               (let miBelowLeft = n_motion puLeftBottom pos;
                    st1 = st\<lparr> ms_miBelowLeft := Some miBelowLeft \<rparr>
                in if unavailableOr (ms_miLeft st) (\<lambda>miLeft. miNotEqual h miBelowLeft miLeft)
                      \<and> (if HM_JEM_MERGE_CANDS m
                          then unavailableOr (ms_miAbove st)
                                 (\<lambda>miAbove. miNotEqual h miBelowLeft miAbove)
                               \<and> unavailableOr (ms_miAboveRight st)
                                   (\<lambda>miAboveRight. miNotEqual h miBelowLeft miAboveRight)
                          else True)
                   then fastExitOrCount pu mrgCandIdx (putSpatial m pu st1 puLeftBottom miBelowLeft)
                   else Inr (Continue st1)))
          (earlyTermination (sl_maxNumMergeCand (pu_slice pu))))"

text \<open>
  Lines 723-763: the sub-block temporal candidate.  The entries that
  \<open>getInterMergeSubPuMvpCand\<close> leaves at index \<open>cnt\<close> are stored whether or not it
  reports a candidate.
\<close>

definition storeSubPu :: "macros \<Rightarrow> MergeCtx \<Rightarrow> nat \<Rightarrow> SubPuResult \<Rightarrow> MergeCtx" where
  "storeSubPu m c cnt res =
    c\<lparr> interDirNeighbours := (interDirNeighbours c)[cnt := sp_interDir res],
       mvFieldNeighbours := ((mvFieldNeighbours c)[2 * cnt := sp_mvField0 res])
                               [2 * cnt + 1 := sp_mvField1 res],
       GBiIdx := (if JVET_L0646_GBI m then (GBiIdx c)[cnt := sp_GBiIdx res] else GBiIdx c) \<rparr>"

definition stageSubPu :: "macros \<Rightarrow> helpers \<Rightarrow> PUEnv \<Rightarrow> int \<Rightarrow> MrgState \<Rightarrow> error + flow" where
  "stageSubPu m h pu mrgCandIdx st =
    (let enableSubPuMvp = sps_useSubPuMvp pu;
         maxNumMergeCand = sl_maxNumMergeCand (pu_slice pu);
         cnt = ms_cnt st
     in if enableSubPuMvp \<and> \<not> subPuMvpMiBuf_allocated (ms_ctx st)
        then Inl (CheckFailed ''Buffer not initialized'')
        else if enableSubPuMvp \<and> sl_enableTMVPFlag (pu_slice pu)
        then
          (let bMrgIdxMatchATMVPCan = (mrgCandIdx = int cnt)
           in if sps_useATMVP pu
              then ebind (pu_getInterMergeSubPuMvpCand pu (ms_ctx st) cnt)
                     (\<lambda>res.
                        (let c1 = storeSubPu m (ms_ctx st) cnt res
                         in if sp_found res
                            then
                              (let c2 = c1\<lparr> mrgTypeNeighbours :=
                                             (mrgTypeNeighbours c1)[cnt := MRG_TYPE_SUBPU_ATMVP] \<rparr>;
                                   st2 = st\<lparr> ms_ctx := c2,
                                             ms_isCandInter :=
                                               (if JVET_L0090_PAIR_AVG m then ms_isCandInter st
                                                else (ms_isCandInter st)[cnt := True]),
                                             ms_isAvailableSubPu := True,
                                             ms_subPuMvpPos := cnt,
                                             ms_cnt := cnt + 1 \<rparr>
                               in if bMrgIdxMatchATMVPCan then Inr (Return c2)
                                  else earlyTermination maxNumMergeCand st2)
                            else Inr (Continue (st\<lparr> ms_ctx := c1 \<rparr>))))
              else Inr (Continue st))
        else Inr (Continue st))"

text \<open>Lines 765-812: the above-left neighbour B2.\<close>

definition stageB2 :: "macros \<Rightarrow> helpers \<Rightarrow> PUEnv \<Rightarrow> int \<Rightarrow> MrgState \<Rightarrow> error + flow" where
  "stageB2 m h pu mrgCandIdx st =
    (let pos = offset (pu_topLeft pu) (-1) (-1)
     in thenStage
          (if ms_cnt st < (if sps_useSubPuMvp pu then 6 else 4)
           then
             (case spatialAvailable pu pos False of
                None \<Rightarrow> Inr (Continue st)
              | Some puAboveLeft \<Rightarrow>
                  (let miAboveLeft = n_motion puAboveLeft pos
                   in if unavailableOr (ms_miLeft st) (\<lambda>miLeft. miNotEqual h miLeft miAboveLeft)
                         \<and> unavailableOr (ms_miAbove st) (\<lambda>miAbove. miNotEqual h miAbove miAboveLeft)
                         \<and> (if HM_JEM_MERGE_CANDS m
                             then unavailableOr (ms_miBelowLeft st)
                                    (\<lambda>miBelowLeft. miNotEqual h miBelowLeft miAboveLeft)
                                  \<and> unavailableOr (ms_miAboveRight st)
                                      (\<lambda>miAboveRight. miNotEqual h miAboveRight miAboveLeft)
                             else True)
                      then fastExitOrCount pu mrgCandIdx (putSpatial m pu st puAboveLeft miAboveLeft)
                      else Inr (Continue st)))
           else Inr (Continue st))
          (earlyTermination (sl_maxNumMergeCand (pu_slice pu))))"

text \<open>
  Lines 814-938: the temporal candidate.  The motion fields at index \<open>cnt\<close> are
  written as soon as a collocated vector is found, before the redundancy tests decide
  whether the candidate counts.
\<close>

definition tmvpRedundantWithSubPu :: "MergeCtx \<Rightarrow> nat \<Rightarrow> nat \<Rightarrow> nat \<Rightarrow> bool" where
  "tmvpRedundantWithSubPu c dir cnt subPuMvpPos =
    (if dir \<noteq> interDirNeighbours c ! subPuMvpPos then False
     else \<not> ((and dir 1 \<noteq> 0
                \<and> mvFieldNeighbours c ! (2 * cnt) \<noteq> mvFieldNeighbours c ! (2 * subPuMvpPos))
             \<or> (and dir 2 \<noteq> 0
                  \<and> mvFieldNeighbours c ! (2 * cnt + 1)
                       \<noteq> mvFieldNeighbours c ! (2 * subPuMvpPos + 1))))"

definition tmvpAmongEarlier :: "MergeCtx \<Rightarrow> nat \<Rightarrow> nat \<Rightarrow> nat \<Rightarrow> bool" where
  "tmvpAmongEarlier c dir uiArrayAddr iSpanCand =
    list_ex (\<lambda>i. interDirNeighbours c ! i = dir
                 \<and> mvFieldNeighbours c ! (2 * i) = mvFieldNeighbours c ! (2 * uiArrayAddr)
                 \<and> mvFieldNeighbours c ! (2 * i + 1) = mvFieldNeighbours c ! (2 * uiArrayAddr + 1))
      [0 ..< iSpanCand]"

definition stageTemporal :: "macros \<Rightarrow> helpers \<Rightarrow> PUEnv \<Rightarrow> int \<Rightarrow> MrgState \<Rightarrow> error + flow" where
  "stageTemporal m h pu mrgCandIdx st =
    thenStage
      (if sl_enableTMVPFlag (pu_slice pu)
       then
         (let cnt = ms_cnt st; uiArrayAddr = cnt; iRefIdx = 0
          in ebind (temporalMVP m h pu REF_PIC_LIST_0 iRefIdx)
               (\<lambda>r0.
                  (let c1 = (case r0 of
                               None \<Rightarrow> ms_ctx st
                             | Some cColMv \<Rightarrow>
                                 (ms_ctx st)\<lparr> mvFieldNeighbours :=
                                    setMvField (mvFieldNeighbours (ms_ctx st)) (2 * uiArrayAddr)
                                      cColMv iRefIdx \<rparr>);
                       dir0 = (case r0 of None \<Rightarrow> 0 | Some cColMv \<Rightarrow> or 0 1)
                   in ebind (if sl_isInterB (pu_slice pu)
                             then temporalMVP m h pu REF_PIC_LIST_1 iRefIdx else Inr None)
                        (\<lambda>r1.
                           (let c2 = (case r1 of
                                        None \<Rightarrow> c1
                                      | Some cColMv \<Rightarrow>
                                          c1\<lparr> mvFieldNeighbours :=
                                             setMvField (mvFieldNeighbours c1) (2 * uiArrayAddr + 1)
                                               cColMv iRefIdx \<rparr>);
                                dir = (case r1 of None \<Rightarrow> dir0 | Some cColMv \<Rightarrow> or dir0 2);
                                st2 = st\<lparr> ms_ctx := c2 \<rparr>
                            in if dir \<noteq> 0
                               then
                                 (let addTMvp1 =
                                        (if sps_useSubPuMvp pu \<and> ms_isAvailableSubPu st
                                         then \<not> tmvpRedundantWithSubPu c2 dir cnt (ms_subPuMvpPos st)
                                         else True);
                                      iSpanCand = (if ms_isAvailableSubPu st then cnt - 1 else cnt);
                                      addTMvp =
                                        (if HM_JEM_MERGE_CANDS m
                                              \<and> tmvpAmongEarlier c2 dir uiArrayAddr iSpanCand
                                         then False else addTMvp1)
                                  in if addTMvp
                                     then
                                       (let c3 = c2\<lparr> interDirNeighbours :=
                                                      (interDirNeighbours c2)[uiArrayAddr := dir] \<rparr>;
                                            c4 = (if JVET_L0646_GBI m
                                                  then c3\<lparr> GBiIdx := (GBiIdx c3)[uiArrayAddr := GBI_DEFAULT m] \<rparr>
                                                  else c3)
                                        in fastExitOrCount pu mrgCandIdx
                                             (st\<lparr> ms_ctx := c4,
                                                  ms_isCandInter :=
                                                    (if JVET_L0090_PAIR_AVG m then ms_isCandInter st
                                                     else (ms_isCandInter st)[uiArrayAddr := True]) \<rparr>))
                                     else Inr (Continue st2))
                               else Inr (Continue st2))))))
       else Inr (Continue st))
      (earlyTermination (sl_maxNumMergeCand (pu_slice pu)))"

text \<open>
  Lines 940-1026 (with JVET_L0090_PAIR_AVG): the pairwise-average candidates.  First
  the work of the inner loop for one reference list; the pair is the merge context and
  the local \<open>interDir\<close> (here \<open>dirAcc\<close>).
\<close>

definition pairAvgList ::
  "macros \<Rightarrow> helpers \<Rightarrow> PUEnv \<Rightarrow> nat \<Rightarrow> nat \<Rightarrow> nat \<Rightarrow> nat \<Rightarrow> MergeCtx \<times> nat \<Rightarrow> MergeCtx \<times> nat" where
  "pairAvgList m h pu i j cnt refListId ci =
    (case ci of (c, dirAcc) \<Rightarrow>
      (let fs = mvFieldNeighbours c;
           refIdxI = mf_refIdx (fs ! (i * 2 + refListId));
           refIdxJ = mf_refIdx (fs ! (j * 2 + refListId));
           prec = (\<lambda>v. if \<not> REMOVE_MV_ADAPT_PREC m \<and> sps_useHighPrecMv pu
                        then setHighPrec h v else v)
       in if refIdxI = NOT_VALID \<and> refIdxJ = NOT_VALID then (c, dirAcc)
          else if refIdxI \<noteq> NOT_VALID \<and> refIdxJ \<noteq> NOT_VALID
          then
            (let MvI = mf_mv (fs ! (i * 2 + refListId));
                 MvJ = mf_mv (fs ! (j * 2 + refListId));
                 sumMv = mvPlus h (prec MvI) MvJ;
                 avgMv = sumMv\<lparr> hor := cdiv (hor sumMv) 2, ver := cdiv (ver sumMv) 2 \<rparr>
             in (c\<lparr> mvFieldNeighbours := setMvField fs (cnt * 2 + refListId) avgMv refIdxI \<rparr>,
                 dirAcc + 2 ^ refListId))
          else if refIdxI \<noteq> NOT_VALID
          then (c\<lparr> mvFieldNeighbours :=
                     setMvField fs (cnt * 2 + refListId)
                       (prec (mf_mv (fs ! (i * 2 + refListId)))) refIdxI \<rparr>,
                dirAcc + 2 ^ refListId)
          else if refIdxJ \<noteq> NOT_VALID
          then (c\<lparr> mvFieldNeighbours :=
                     setMvField fs (cnt * 2 + refListId)
                       (prec (mf_mv (fs ! (j * 2 + refListId)))) refIdxJ \<rparr>,
                dirAcc + 2 ^ refListId)
          else (c, dirAcc + 2 ^ refListId)))"

definition PRIORITY_LIST0 :: "nat list" where
  "PRIORITY_LIST0 = [0, 0, 1, 0, 1, 2]"

definition PRIORITY_LIST1 :: "nat list" where
  "PRIORITY_LIST1 = [1, 2, 2, 3, 3, 3]"

text \<open>The body of the loop over the pairs, for the pair of index \<open>idx\<close>.\<close>

definition pairwiseBody ::
  "macros \<Rightarrow> helpers \<Rightarrow> PUEnv \<Rightarrow> nat \<Rightarrow> MergeCtx \<times> nat \<Rightarrow> MergeCtx \<times> nat" where
  "pairwiseBody m h pu idx ccnt =
    (case ccnt of (c, cnt) \<Rightarrow>
      (let i = PRIORITY_LIST0 ! idx;
           j = PRIORITY_LIST1 ! idx;
           c1 = c\<lparr> mvFieldNeighbours :=
                     setMvField (setMvField (mvFieldNeighbours c) (cnt * 2) Mv0 NOT_VALID)
                       (cnt * 2 + 1) Mv0 NOT_VALID \<rparr>;
           ci = fold (pairAvgList m h pu i j cnt)
                  [0 ..< (if sl_isInterB (pu_slice pu) then 2 else 1)] (c1, 0);
           c2 = (fst ci)\<lparr> interDirNeighbours := (interDirNeighbours (fst ci))[cnt := snd ci] \<rparr>
       in (c2, if snd ci > 0 then cnt + 1 else cnt)))"

text \<open>\<open>for (int idx = 0; idx < end && cnt != maxNumMergeCand; idx++)\<close>\<close>

function pairwiseLoop ::
  "macros \<Rightarrow> helpers \<Rightarrow> PUEnv \<Rightarrow> nat \<Rightarrow> nat \<Rightarrow> nat \<Rightarrow> MergeCtx \<times> nat \<Rightarrow> MergeCtx \<times> nat" where
  "pairwiseLoop m h pu maxNumMergeCand end idx ccnt =
    (if idx < end \<and> snd ccnt \<noteq> maxNumMergeCand
     then pairwiseLoop m h pu maxNumMergeCand end (idx + 1) (pairwiseBody m h pu idx ccnt)
     else ccnt)"
  by pat_completeness auto
termination
  by (relation "measure (\<lambda>(m, h, pu, maxNumMergeCand, end, idx, ccnt). end - idx)") auto

declare pairwiseLoop.simps [simp del]

text \<open>
  Lines 1030-1076 (without JVET_L0090_PAIR_AVG): the combined bi-predictive candidates
  of HEVC, with \<open>CU::deriveGbiIdx\<close> (2816-2844).
\<close>

definition deriveGbiIdx :: "macros \<Rightarrow> helpers \<Rightarrow> nat \<Rightarrow> nat \<Rightarrow> nat" where
  "deriveGbiIdx m h gbiLO gbiL1 =
    (if gbiLO = gbiL1 then gbiLO
     else
       (let w0 = getGbiWeight h gbiLO REF_PIC_LIST_0;
            w1 = getGbiWeight h gbiL1 REF_PIC_LIST_1;
            th = g_GbiWeightBase h div 2;
            off = 1
        in if w0 = w1 \<or> (w0 < th - off \<and> w1 < th - off) \<or> (w0 > th + off \<and> w1 > th + off)
           then GBI_DEFAULT m
           else if w0 > w1 then (if w0 \<ge> th then gbiLO else gbiL1)
           else (if w1 \<ge> th then gbiL1 else gbiLO)))"

definition uiPriorityList0 :: "nat list" where
  "uiPriorityList0 = [0, 1, 0, 2, 1, 2, 0, 3, 1, 3, 2, 3]"

definition uiPriorityList1 :: "nat list" where
  "uiPriorityList1 = [1, 0, 2, 0, 2, 1, 3, 0, 3, 1, 3, 2]"

text \<open>The body of the loop over the ordered pairs, for the pair of index \<open>idx\<close>.\<close>

definition combinedBody ::
  "macros \<Rightarrow> helpers \<Rightarrow> PUEnv \<Rightarrow> nat \<Rightarrow> MergeCtx \<times> bool list \<times> nat
     \<Rightarrow> error + (MergeCtx \<times> bool list \<times> nat)" where
  "combinedBody m h pu idx s =
    (case s of (c, isCandInter, uiArrayAddr) \<Rightarrow>
      if idx \<ge> 12 then Inl (CheckFailed ''Invalid priority list number'')
      else
        (let i = uiPriorityList0 ! idx;
             j = uiPriorityList1 ! idx
         in if isCandInter ! i \<and> isCandInter ! j
               \<and> and (interDirNeighbours c ! i) 1 \<noteq> 0 \<and> and (interDirNeighbours c ! j) 2 \<noteq> 0
            then
              (let c1 = c\<lparr> interDirNeighbours := (interDirNeighbours c)[uiArrayAddr := 3] \<rparr>;
                   c2 = (if JVET_L0646_GBI m
                         then c1\<lparr> GBiIdx := (GBiIdx c1)[uiArrayAddr :=
                                     deriveGbiIdx m h (GBiIdx c1 ! i) (GBiIdx c1 ! j)] \<rparr>
                         else c1);
                   f0 = mvFieldNeighbours c2 ! (2 * i);
                   c3 = c2\<lparr> mvFieldNeighbours :=
                              setMvField (mvFieldNeighbours c2) (2 * uiArrayAddr)
                                (mf_mv f0) (mf_refIdx f0) \<rparr>;
                   f1 = mvFieldNeighbours c3 ! (2 * j + 1);
                   c4 = c3\<lparr> mvFieldNeighbours :=
                              setMvField (mvFieldNeighbours c3) (2 * uiArrayAddr + 1)
                                (mf_mv f1) (mf_refIdx f1) \<rparr>;
                   g0 = mvFieldNeighbours c4 ! (2 * uiArrayAddr);
                   g1 = mvFieldNeighbours c4 ! (2 * uiArrayAddr + 1);
                   iRefPOCL0 = sl_refPOC (pu_slice pu) REF_PIC_LIST_0 (mf_refIdx g0);
                   iRefPOCL1 = sl_refPOC (pu_slice pu) REF_PIC_LIST_1 (mf_refIdx g1)
               in if iRefPOCL0 = iRefPOCL1 \<and> mf_mv g0 = mf_mv g1
                  then Inr (c4, isCandInter[uiArrayAddr := False], uiArrayAddr)
                  else Inr (c4, isCandInter[uiArrayAddr := True], uiArrayAddr + 1))
            else Inr s))"

text \<open>
  \<open>for (idx = 0; idx < uiCutoff * (uiCutoff - 1) && uiArrayAddr != maxNumMergeCand; idx++)\<close>
\<close>

function combinedLoop ::
  "macros \<Rightarrow> helpers \<Rightarrow> PUEnv \<Rightarrow> nat \<Rightarrow> nat \<Rightarrow> nat \<Rightarrow> MergeCtx \<times> bool list \<times> nat
     \<Rightarrow> error + (MergeCtx \<times> bool list \<times> nat)" where
  "combinedLoop m h pu maxNumMergeCand limit idx s =
    (if idx < limit \<and> snd (snd s) \<noteq> maxNumMergeCand
     then (case combinedBody m h pu idx s of
             Inl err \<Rightarrow> Inl err
           | Inr s' \<Rightarrow> combinedLoop m h pu maxNumMergeCand limit (idx + 1) s')
     else Inr s)"
  by pat_completeness auto
termination
  by (relation "measure (\<lambda>(m, h, pu, maxNumMergeCand, limit, idx, s). limit - idx)") auto

declare combinedLoop.simps [simp del]

text \<open>
  Lines 1078-1111: the zero-motion fill.  The state is the merge context, the array
  \<open>isCandInter\<close>, \<open>uiArrayAddr\<close>, \<open>r\<close> and \<open>refcnt\<close>; first the body of the loop.
\<close>

definition zeroFillBody ::
  "macros \<Rightarrow> PUEnv \<Rightarrow> int \<Rightarrow> MergeCtx \<times> bool list \<times> nat \<times> int \<times> int
     \<Rightarrow> MergeCtx \<times> bool list \<times> nat \<times> int \<times> int" where
  "zeroFillBody m pu iNumRefIdx s =
    (case s of (c, isCandInter, uiArrayAddr, r, refcnt) \<Rightarrow>
      (let c1 = c\<lparr> interDirNeighbours := (interDirNeighbours c)[uiArrayAddr := 1] \<rparr>;
           c2 = (if JVET_L0646_GBI m
                 then c1\<lparr> GBiIdx := (GBiIdx c1)[uiArrayAddr := GBI_DEFAULT m] \<rparr> else c1);
           c3 = c2\<lparr> mvFieldNeighbours := setMvField (mvFieldNeighbours c2) (2 * uiArrayAddr) Mv0 r \<rparr>;
           c4 = (if sl_isInterB (pu_slice pu)
                 then c3\<lparr> interDirNeighbours := (interDirNeighbours c3)[uiArrayAddr := 3],
                          mvFieldNeighbours :=
                            setMvField (mvFieldNeighbours c3) (2 * uiArrayAddr + 1) Mv0 r \<rparr>
                 else c3);
           isCandInter' = (if JVET_L0090_PAIR_AVG m then isCandInter
                           else isCandInter[uiArrayAddr := True])
       in if refcnt = iNumRefIdx - 1
          then (c4, isCandInter', uiArrayAddr + 1, 0, refcnt)
          else (c4, isCandInter', uiArrayAddr + 1, r + 1, refcnt + 1)))"

text \<open>\<open>while (uiArrayAddr < maxNumMergeCand)\<close>\<close>

function zeroFill ::
  "macros \<Rightarrow> PUEnv \<Rightarrow> nat \<Rightarrow> int \<Rightarrow> MergeCtx \<times> bool list \<times> nat \<times> int \<times> int
     \<Rightarrow> MergeCtx \<times> bool list \<times> nat \<times> int \<times> int" where
  "zeroFill m pu maxNumMergeCand iNumRefIdx s =
    (if fst (snd (snd s)) < maxNumMergeCand
     then zeroFill m pu maxNumMergeCand iNumRefIdx (zeroFillBody m pu iNumRefIdx s)
     else s)"
  by pat_completeness auto
termination
  by (relation "measure (\<lambda>(m, pu, maxNumMergeCand, iNumRefIdx, s).
                           maxNumMergeCand - fst (snd (snd s)))")
     (auto simp: zeroFillBody_def Let_def split: prod.splits)

declare zeroFill.simps [simp del]

definition zeroFillStage :: "macros \<Rightarrow> PUEnv \<Rightarrow> MergeCtx \<Rightarrow> bool list \<Rightarrow> nat \<Rightarrow> MergeCtx" where
  "zeroFillStage m pu c isCandInter uiArrayAddr =
    (let slice = pu_slice pu;
         iNumRefIdx = (if sl_isInterB slice
                       then min (sl_numRefIdx slice REF_PIC_LIST_0) (sl_numRefIdx slice REF_PIC_LIST_1)
                       else sl_numRefIdx slice REF_PIC_LIST_0);
         s = zeroFill m pu (sl_maxNumMergeCand slice) iNumRefIdx (c, isCandInter, uiArrayAddr, 0, 0)
     in (fst s)\<lparr> numValidMergeCand := fst (snd (snd s)) \<rparr>)"

text \<open>Lines 940-1112: the synthetic candidates and the fill, ending the function.\<close>

definition stageTail :: "macros \<Rightarrow> helpers \<Rightarrow> PUEnv \<Rightarrow> MrgState \<Rightarrow> error + flow" where
  "stageTail m h pu st =
    (let maxNumMergeCand = sl_maxNumMergeCand (pu_slice pu);
         cnt = ms_cnt st
     in if JVET_L0090_PAIR_AVG m
        then
          (let cutoff = min cnt 4;
               end = cutoff * (cutoff - 1) div 2;
               ccnt = pairwiseLoop m h pu maxNumMergeCand end 0 (ms_ctx st, cnt)
           in if snd ccnt = maxNumMergeCand then Inr (Return (fst ccnt))
              else Inr (Return (zeroFillStage m pu (fst ccnt) (ms_isCandInter st) (snd ccnt))))
        else
          (let uiCutoff = min cnt 4
           in ebind (if sl_isInterB (pu_slice pu)
                     then combinedLoop m h pu maxNumMergeCand (uiCutoff * (uiCutoff - 1)) 0
                            (ms_ctx st, ms_isCandInter st, cnt)
                     else Inr (ms_ctx st, ms_isCandInter st, cnt))
                (\<lambda>(c, isCandInter, uiArrayAddr).
                   if uiArrayAddr = maxNumMergeCand then Inr (Return c)
                   else Inr (Return (zeroFillStage m pu c isCandInter uiArrayAddr)))))"

text \<open>
  \<open>PU::getInterMergeCandidates\<close> (UnitTools.cpp 511-1112): the locals after the
  initialisation, the four spatial steps A1, B1, B0, A0 (lines 547-721), and the whole
  sequence of steps.
\<close>

definition startState :: "macros \<Rightarrow> PUEnv \<Rightarrow> MergeCtx \<Rightarrow> MrgState" where
  "startState m pu mrgCtx =
    \<lparr> ms_ctx = initMergeCtx m (sl_maxNumMergeCand (pu_slice pu)) mrgCtx,
      ms_cnt = 0,
      ms_miLeft = None, ms_miAbove = None, ms_miAboveRight = None,
      ms_miBelowLeft = None,
      ms_isCandInter = replicate (MRG_MAX_NUM_CANDS m) False,
      ms_isAvailableSubPu = False,
      ms_subPuMvpPos = 0 \<rparr>"

definition spatialStages :: "macros \<Rightarrow> helpers \<Rightarrow> PUEnv \<Rightarrow> int \<Rightarrow> MrgState \<Rightarrow> error + flow" where
  "spatialStages m h pu mrgCandIdx st0 =
    thenStage
      (thenStage
        (thenStage (stageA1 m h pu mrgCandIdx st0)
           (stageB1 m h pu mrgCandIdx))
        (stageB0 m h pu mrgCandIdx))
      (stageA0 m h pu mrgCandIdx)"

definition mergeStages :: "macros \<Rightarrow> helpers \<Rightarrow> PUEnv \<Rightarrow> MergeCtx \<Rightarrow> int \<Rightarrow> error + flow" where
  "mergeStages m h pu mrgCtx mrgCandIdx =
    thenStage
      (thenStage
        (thenStage
          (thenStage (spatialStages m h pu mrgCandIdx (startState m pu mrgCtx))
             (stageSubPu m h pu mrgCandIdx))
          (stageB2 m h pu mrgCandIdx))
        (stageTemporal m h pu mrgCandIdx))
      (stageTail m h pu)"

definition getInterMergeCandidates ::
  "macros \<Rightarrow> helpers \<Rightarrow> PUEnv \<Rightarrow> MergeCtx \<Rightarrow> int \<Rightarrow> error + MergeCtx" where
  "getInterMergeCandidates m h pu mrgCtx mrgCandIdx =
    (case mergeStages m h pu mrgCtx mrgCandIdx of
       Inl err \<Rightarrow> Inl err
     | Inr (Return c) \<Rightarrow> Inr c
     | Inr (Continue st) \<Rightarrow> Inr (ms_ctx st))"

section \<open>The candidate lists as their users see them\<close>

text \<open>
  An AMVP list is its count and its first \<open>numCand\<close> vectors; entries of the array
  beyond the count are not part of the list.  Likewise for the affine list and its
  three corner arrays.
\<close>

definition amvpList :: "AMVPInfo \<Rightarrow> nat \<times> Mv list" where
  "amvpList info = (numCand info, take (numCand info) (mvCand info))"

definition affList :: "AffineAMVPInfo \<Rightarrow> nat \<times> Mv list \<times> Mv list \<times> Mv list" where
  "affList affi =
    (aff_numCand affi,
     take (aff_numCand affi) (mvCandLT affi),
     take (aff_numCand affi) (mvCandRT affi),
     take (aff_numCand affi) (mvCandLB affi))"

text \<open>
  Two list records of the same capacity \<open>L\<close> that hold the same list.  An entry beyond
  the count is stale; at every such index the two records either hold the same vector
  or vectors related by \<open>S\<close>.  With \<open>S\<close> always true the stale entries are arbitrary.
\<close>

definition amvpAgree :: "(nat \<Rightarrow> Mv \<Rightarrow> Mv \<Rightarrow> bool) \<Rightarrow> nat \<Rightarrow> AMVPInfo \<Rightarrow> AMVPInfo \<Rightarrow> bool" where
  "amvpAgree S L a b =
    (length (mvCand a) = L \<and> length (mvCand b) = L \<and> amvpList a = amvpList b
     \<and> (\<forall>i. numCand a \<le> i \<and> i < L \<longrightarrow>
            mvCand a ! i = mvCand b ! i \<or> S i (mvCand a ! i) (mvCand b ! i)))"

text \<open>
  What the final passes of \<open>PU::fillMvpCand\<close> (lines 1425-1458) do to one entry below
  the count.
\<close>

definition finalEntry :: "macros \<Rightarrow> helpers \<Rightarrow> PUEnv \<Rightarrow> Mv \<Rightarrow> Mv" where
  "finalEntry m h pu v =
    (let v1 = (if REMOVE_MV_ADAPT_PREC m
               then roundStoreMv (VCEG_AZ07_MV_ADD_PRECISION_BIT_FOR_STORE m) v
               else if sps_useHighPrecMv pu then lowPrecIfHigh h v else v);
         v2 = (if pu_imv pu \<noteq> 0 then roundMV h v1 (2 * pu_imv pu) else v1)
     in if \<not> REMOVE_MV_ADAPT_PREC m \<and> sps_useHighPrecMv pu then lowPrecIfHigh h v2 else v2)"

definition affAgree :: "nat \<Rightarrow> AffineAMVPInfo \<Rightarrow> AffineAMVPInfo \<Rightarrow> bool" where
  "affAgree L a b =
    (length (mvCandLT a) = L \<and> length (mvCandLT b) = L
     \<and> length (mvCandRT a) = L \<and> length (mvCandRT b) = L
     \<and> length (mvCandLB a) = L \<and> length (mvCandLB b) = L
     \<and> affList a = affList b)"

text \<open>A merge candidate: inter direction and the two motion fields of index \<open>i\<close>.\<close>

definition mergeCand :: "MergeCtx \<Rightarrow> nat \<Rightarrow> nat \<times> MvField \<times> MvField" where
  "mergeCand c i =
    (interDirNeighbours c ! i, mvFieldNeighbours c ! (2 * i), mvFieldNeighbours c ! (2 * i + 1))"

text \<open>
  The merge context a step leaves behind, and the number of candidates counted so far
  when the derivation goes on.
\<close>

definition flowCtx :: "flow \<Rightarrow> MergeCtx" where
  "flowCtx f = (case f of Return c \<Rightarrow> c | Continue st \<Rightarrow> ms_ctx st)"

definition flowCnt :: "flow \<Rightarrow> nat option" where
  "flowCnt f = (case f of Return c \<Rightarrow> None | Continue st \<Rightarrow> Some (ms_cnt st))"

text \<open>
  The reference index of the \<open>j\<close>-th zero-motion fill (counted from 0) with \<open>N\<close>
  reference pictures, as the loop of lines 1082-1110 produces it: it counts up to
  \<open>N - 1\<close> and is 0 from then on.
\<close>

definition fillRefIdx :: "int \<Rightarrow> nat \<Rightarrow> int" where
  "fillRefIdx N j = (if int j < N then int j else 0)"

text \<open>
  What every step of the merge derivation keeps, relative to the context \<open>c0\<close> after
  the initialisation: the count field, the candidate types at every index outside
  \<open>A\<close>, and, while the derivation goes on, fewer than \<open>mx\<close> candidates counted.
\<close>

definition stageInv :: "nat \<Rightarrow> MergeCtx \<Rightarrow> (nat \<Rightarrow> bool) \<Rightarrow> flow \<Rightarrow> bool" where
  "stageInv mx c0 A f =
    (numValidMergeCand (flowCtx f) = numValidMergeCand c0
     \<and> (\<forall>i. \<not> A i \<longrightarrow> mrgTypeNeighbours (flowCtx f) ! i = mrgTypeNeighbours c0 ! i)
     \<and> (case flowCnt f of None \<Rightarrow> True | Some n \<Rightarrow> n < mx))"

section \<open>Concrete inputs used by the witnesses\<close>

definition ex_mv :: Mv where "ex_mv = \<lparr> hor = 4, ver = 0, highPrec = False \<rparr>"
definition ex_zero_mv :: Mv where "ex_zero_mv = \<lparr> hor = 0, ver = 0, highPrec = False \<rparr>"

definition ex_helpers :: helpers where
  "ex_helpers = \<lparr> scaleMv = (\<lambda>s v. \<lparr> hor = Clip3 (-32768) 32767 ((s * hor v + 127 + (if s * hor v < 0 then 1 else 0)) div 256),
                                       ver = Clip3 (-32768) 32767 ((s * ver v + 127 + (if s * ver v < 0 then 1 else 0)) div 256),
                                       highPrec = highPrec v \<rparr>),
                  mvPlus = (\<lambda>a b. \<lparr> hor = hor a + hor b, ver = ver a + ver b, highPrec = highPrec a \<rparr>),
                  mvMinus = (\<lambda>a b. \<lparr> hor = hor a - hor b, ver = ver a - ver b, highPrec = highPrec a \<rparr>),
                  miNotEqual = (\<lambda>a b. \<not> (interDir a = interDir b \<and> mi_mv0 a = mi_mv0 b
                                     \<and> mi_refIdx0 a = mi_refIdx0 b \<and> mi_mv1 a = mi_mv1 b
                                     \<and> mi_refIdx1 a = mi_refIdx1 b)),
                  setHighPrec = (\<lambda>v. if highPrec v then v else \<lparr> hor = hor v * 4, ver = ver v * 4, highPrec = True \<rparr>),
                  setLowPrec = (\<lambda>v. v\<lparr> highPrec := False \<rparr>),
                  roundMV = (\<lambda>v s. v),
                  roundMV2SignalPrecision = (\<lambda>v. v),
                  roundAffineMv = (\<lambda>a b s. (a, b)),
                  g_aucLog2 = (\<lambda>n. if n < 2 then 0 else if n < 4 then 1 else if n < 8 then 2
                                     else if n < 16 then 3 else if n < 32 then 4
                                     else if n < 64 then 5 else if n < 128 then 6 else 7),
                  getGbiWeight = (\<lambda>i l. 4), g_GbiWeightBase = 8 \<rparr>"

definition ex_macros :: macros where
  "ex_macros = \<lparr> REMOVE_MV_ADAPT_PREC = True, JVET_L0090_PAIR_AVG = True, HM_JEM_MERGE_CANDS = False,
                 JVET_L0646_GBI = True, AMVP_DECIMATION_FACTOR = 2,
                 AMVP_MAX_NUM_CANDS_MEM = 3, MRG_MAX_NUM_CANDS = 7,
                 VCEG_AZ07_MV_ADD_PRECISION_BIT_FOR_STORE = 2,
                 MAX_CU_DEPTH = 7, GBI_DEFAULT = 2 \<rparr>"

definition ex_colMi :: MotionInfo where
  "ex_colMi = \<lparr> isInter = True, interDir = 1, sliceIdx = 0, mi_mv0 = ex_mv, mi_mv1 = ex_zero_mv,
                mi_refIdx0 = 0, mi_refIdx1 = -1 \<rparr>"

definition ex_colSlice :: "bool \<Rightarrow> ColSlice" where
  "ex_colSlice lt = \<lparr> col_independentSliceIdx = 0, col_POC = 8, col_isUsedAsLongTerm = (\<lambda>l i. lt),
                   col_refPOC = (\<lambda>l i. 4) \<rparr>"

definition ex_pic :: "int \<Rightarrow> bool \<Rightarrow> bool \<Rightarrow> Picture" where
  "ex_pic poc lt colLt = \<lparr> pic_poc = poc, pic_longTerm = lt, pic_motion = (\<lambda>p. ex_colMi),
                 pic_slices = [ex_colSlice colLt] \<rparr>"

definition ex_slice :: "int \<Rightarrow> bool \<Rightarrow> bool \<Rightarrow> Slice" where
  "ex_slice refPoc lt colLt = \<lparr> sl_POC = 16, sl_isInterB = False, sl_colFromL0Flag = True, sl_colRefIdx = 0,
                 sl_checkLDC = True, sl_refPic = (\<lambda>l i. if i = 0 then Some (ex_pic refPoc lt colLt) else None),
                 sl_refPOC = (\<lambda>l i. refPoc), sl_enableTMVPFlag = True, sl_numRefIdx = (\<lambda>l. 1),
                 sl_maxNumMergeCand = 5 \<rparr>"

definition ex_colEnv :: "int \<Rightarrow> bool \<Rightarrow> bool \<Rightarrow> ColEnv" where
  "ex_colEnv refPoc lt colLt = \<lparr> ce_slice = ex_slice refPoc lt colLt, ce_noMotComp = False, ce_useHighPrecMv = False \<rparr>"


text \<open>
  A 16x16 prediction unit at (16, 16) in a 64x64 picture with one CTU; its neighbours
  and its slice are arguments.
\<close>

definition ex_pu :: "Slice \<Rightarrow> (Position \<Rightarrow> NeighPU option) \<Rightarrow> PUEnv" where
  "ex_pu slice neighbours =
    \<lparr> pu_slice = slice,
      pu_getPURestricted = neighbours,
      pu_getInterMergeSubPuMvpCand =
        (\<lambda>c cnt. Inr \<lparr> sp_found = True, sp_interDir = 1,
                        sp_mvField0 = \<lparr> mf_mv = \<lparr> hor = 1, ver = 1, highPrec = False \<rparr>, mf_refIdx = 0 \<rparr>,
                        sp_mvField1 = \<lparr> mf_mv = \<lparr> hor = 0, ver = 0, highPrec = False \<rparr>, mf_refIdx = -1 \<rparr>,
                        sp_GBiIdx = 2 \<rparr>),
      pu_cu = 1, pu_imv = 0, pu_affineType = AFFINEMODEL_4PARAM,
      pu_lumaPos = \<lparr> px = 16, py = 16 \<rparr>, pu_pos = \<lparr> px = 16, py = 16 \<rparr>,
      pu_width = 16, pu_height = 16,
      pu_topLeft = \<lparr> px = 16, py = 16 \<rparr>, pu_topRight = \<lparr> px = 31, py = 16 \<rparr>,
      pu_bottomLeft = \<lparr> px = 16, py = 31 \<rparr>, pu_bottomRight = \<lparr> px = 31, py = 31 \<rparr>,
      pu_center = \<lparr> px = 24, py = 24 \<rparr>,
      pcv_minCUWidth = 4, pcv_minCUHeight = 4, pcv_lumaWidth = 64, pcv_lumaHeight = 64,
      pcv_maxCUWidth = 64, pcv_maxCUHeight = 64, pcv_maxCUWidthMask = 63, pcv_maxCUHeightMask = 63,
      pcv_noMotComp = False, sps_useHighPrecMv = False, sps_useSubPuMvp = True,
      sps_useATMVP = True, pps_log2ParallelMergeLevelMinus2 = 0 \<rparr>"

text \<open>An inter-coded neighbour in another coding unit, with the given motion.\<close>

definition ex_nb :: "nat \<Rightarrow> MotionInfo \<Rightarrow> NeighPU" where
  "ex_nb cu mi =
    \<lparr> n_cu = cu, n_isInter = True, n_motion = (\<lambda>p. mi), n_lumaPos = \<lparr> px = 0, py = 0 \<rparr>,
      n_GBiIdx = 2, n_affine = False, n_affineType = AFFINEMODEL_4PARAM,
      n_interDir = interDir mi, n_refIdx = (\<lambda>l. mi_refIdx mi l),
      n_pos = \<lparr> px = 0, py = 0 \<rparr>, n_width = 16, n_height = 16,
      n_topLeft = \<lparr> px = 0, py = 0 \<rparr>, n_topRight = \<lparr> px = 15, py = 0 \<rparr>,
      n_bottomLeft = \<lparr> px = 0, py = 15 \<rparr> \<rparr>"

text \<open>List-0 motion with the given horizontal component, vertical 0, reference index 0.\<close>

definition ex_mi :: "int \<Rightarrow> MotionInfo" where
  "ex_mi x = \<lparr> isInter = True, interDir = 1, sliceIdx = 0,
               mi_mv0 = \<lparr> hor = x, ver = 0, highPrec = False \<rparr>, mi_mv1 = ex_zero_mv,
               mi_refIdx0 = 0, mi_refIdx1 = -1 \<rparr>"

text \<open>Only the left neighbour A1 at (15, 31) exists.\<close>

definition ex_onlyLeft :: "Position \<Rightarrow> NeighPU option" where
  "ex_onlyLeft p = (if p = \<lparr> px = 15, py = 31 \<rparr> then Some (ex_nb 2 (ex_mi 4)) else None)"

text \<open>The four neighbours A1, B1, B0 and A0 exist, each with a different vector.\<close>

definition ex_fourSpatial :: "Position \<Rightarrow> NeighPU option" where
  "ex_fourSpatial p =
    (if p = \<lparr> px = 15, py = 31 \<rparr> then Some (ex_nb 2 (ex_mi 4))
     else if p = \<lparr> px = 31, py = 15 \<rparr> then Some (ex_nb 3 (ex_mi 8))
     else if p = \<lparr> px = 32, py = 15 \<rparr> then Some (ex_nb 4 (ex_mi 12))
     else if p = \<lparr> px = 15, py = 32 \<rparr> then Some (ex_nb 5 (ex_mi 16))
     else None)"

text \<open>
  A P slice with the given list capacity, number of reference indices and temporal
  switch.
\<close>

definition ex_mrgSlice :: "nat \<Rightarrow> int \<Rightarrow> bool \<Rightarrow> Slice" where
  "ex_mrgSlice maxCand nRef tmvp =
    (ex_slice 8 False False)\<lparr> sl_enableTMVPFlag := tmvp, sl_numRefIdx := (\<lambda>l. nRef),
                              sl_maxNumMergeCand := maxCand \<rparr>"

text \<open>
  A P slice with temporal motion prediction enabled whose collocated block refers to a
  long-term picture while the current reference is short-term, so that no collocated
  vector is found; and a prediction unit whose sub-block temporal derivation reports no
  candidate.
\<close>

definition ex_ltSlice :: "nat \<Rightarrow> int \<Rightarrow> Slice" where
  "ex_ltSlice maxCand nRef =
    (ex_slice 8 False True)\<lparr> sl_numRefIdx := (\<lambda>l. nRef), sl_maxNumMergeCand := maxCand \<rparr>"

definition ex_puNoSubPu :: "Slice \<Rightarrow> (Position \<Rightarrow> NeighPU option) \<Rightarrow> PUEnv" where
  "ex_puNoSubPu slice neighbours =
    (ex_pu slice neighbours)
      \<lparr> pu_getInterMergeSubPuMvpCand :=
          (\<lambda>c cnt. Inr \<lparr> sp_found = False, sp_interDir = 0,
                          sp_mvField0 = \<lparr> mf_mv = ex_zero_mv, mf_refIdx = -1 \<rparr>,
                          sp_mvField1 = \<lparr> mf_mv = ex_zero_mv, mf_refIdx = -1 \<rparr>,
                          sp_GBiIdx = 2 \<rparr>) \<rparr>"

definition ex_mrgCtx :: MergeCtx where
  "ex_mrgCtx =
    \<lparr> interDirNeighbours = replicate 7 0,
      mrgTypeNeighbours = replicate 7 MRG_TYPE_DEFAULT_N,
      mvFieldNeighbours = replicate 14 \<lparr> mf_mv = ex_zero_mv, mf_refIdx = 0 \<rparr>,
      GBiIdx = replicate 7 0,
      numValidMergeCand = 0,
      subPuMvpMiBuf_allocated = True \<rparr>"

definition ex_amvpInfo :: AMVPInfo where
  "ex_amvpInfo = \<lparr> mvCand = [ex_mv, ex_mv, ex_mv], numCand = 3 \<rparr>"

text \<open>
  A list record whose stale vectors carry the high-precision flag, the configuration
  without REMOVE_MV_ADAPT_PREC, and a vector class whose \<open>setLowPrec\<close> does not map the
  zero vector to itself.
\<close>

definition ex_amvpInfoHigh :: AMVPInfo where
  "ex_amvpInfoHigh = \<lparr> mvCand = replicate 3 \<lparr> hor = 4, ver = 0, highPrec = True \<rparr>, numCand = 3 \<rparr>"

definition ex_macrosAdapt :: macros where
  "ex_macrosAdapt = ex_macros\<lparr> REMOVE_MV_ADAPT_PREC := False \<rparr>"

definition ex_helpersOdd :: helpers where
  "ex_helpersOdd = ex_helpers\<lparr> setLowPrec := (\<lambda>v. \<lparr> hor = 1, ver = 0, highPrec = False \<rparr>) \<rparr>"

definition ex_affInfo :: AffineAMVPInfo where
  "ex_affInfo = \<lparr> mvCandLT = [ex_mv, ex_mv, ex_mv], mvCandRT = [ex_mv, ex_mv, ex_mv],
                  mvCandLB = [ex_mv, ex_mv, ex_mv], aff_numCand = 3 \<rparr>"

text \<open>
  A coding structure holding one inter-coded unit, with the given cost; an empty one;
  and an encoder whose store holds a provisional structure at address 0 and the best
  one at address 1.
\<close>

definition ex_cu :: CodingUnit where
  "ex_cu = \<lparr> cu_skip = False, cu_mergeFlag = True, cu_chType = LUMA, cu_qp = 32,
             cu_predMode = MODE_INTER, cu_tileIdx = 0, cu_rootCbf = True, cu_lumaArea = 256,
             cu_coversArea = True \<rparr>"

definition ex_cs :: "CodingUnit list \<Rightarrow> real \<Rightarrow> CodingStructure" where
  "ex_cs cus cost =
    \<lparr> cs_cus = cus, cs_cost = cost, cs_costDbOffset = 0, cs_useDbCost = False,
      cs_fracBits = 100, cs_dist = 50, cs_prevQP = (\<lambda>ch. 30), cs_prevPLT = [],
      cs_motionLut = [], cs_isDualITree = False, cs_lumaArea = 256, cs_tileIdxOfArea = 0 \<rparr>"

definition ex_enc :: "CodingStructure \<Rightarrow> CodingStructure \<Rightarrow> EncCu" where
  "ex_enc temp best =
    \<lparr> store = (\<lambda>a. if a = 0 then temp else best),
      m_CABACEstimator_ctx = [3, 1, 4], m_CurrCtx_start = [1, 1, 1], m_CurrCtx_best = [2, 2, 2],
      m_bestModeUpdated = False, trace = [] \<rparr>"

text \<open>
  Collaborators: the controller decides as the specification says, the cost is the
  given number, the delta-QP check leaves structure and context as they are.
\<close>

definition ex_encEnv :: "real \<Rightarrow> EncEnv" where
  "ex_encEnv c = \<lparr> useModeResult = useModeResult_spec, calcRdCost = (\<lambda>bits dist. c),
                   xCheckDQP = (\<lambda>cs ctx. Inr (cs, ctx)), getUseEncDbOpt = False \<rparr>"

definition ex_splitMode :: EncTestMode where
  "ex_splitMode = \<lparr> etm_split = CU_QUAD_SPLIT, etm_qp = 32 \<rparr>"

definition ex_locals :: SplitLocals where
  "ex_locals = \<lparr> loc_oldPrevQp = 30, loc_oldMotionLut = [], loc_oldPLT = [],
                 loc_qgEnableChildren = False, loc_modeTypeParent = MODE_TYPE_ALL,
                 loc_modeTypeChild = MODE_TYPE_ALL, loc_chType = LUMA,
                 loc_isAffMVInfoSaved = False, loc_isUniMvInfoSaved = False,
                 loc_sliceIsIntra = False, loc_skipInterPass = False,
                 loc_splitRdCostBest = (\<lambda>sp. MAX_DOUBLE) \<rparr>"

definition ex_node :: NodeEnv where
  "ex_node = \<lparr> ne_chType = LUMA, ne_sliceIsIntra = False, ne_IBCFlag = False,
               ne_saveCuCostInSCIPU = False, ne_undefinedBehaviour = (\<lambda>s. Inr s) \<rparr>"

section \<open>Basic facts about the sequencing of fallible steps\<close>

lemma ebind_Inl [simp]: "ebind (Inl e) f = Inl e"
  by (simp add: ebind_def)

lemma ebind_Inr [simp]: "ebind (Inr x) f = f x"
  by (simp add: ebind_def)

lemma ebind_eq_InrE:
  assumes "ebind r f = Inr y"
  obtains x where "r = Inr x" and "f x = Inr y"
  using assms by (cases r) simp_all

section \<open>Properties of the temporal candidate\<close>

lemma xGetDistScaleFactor_equal:
  "iCurrPOC - iCurrRefPOC = iColPOC - iColRefPOC \<Longrightarrow>
   xGetDistScaleFactor iCurrPOC iCurrRefPOC iColPOC iColRefPOC = Inr 4096"
  by (simp add: xGetDistScaleFactor_def)

lemma ex_colLocate:
  "colLocate ex_macros (ex_colEnv r a b) REF_PIC_LIST_0 \<lparr> px = 16, py = 16 \<rparr>
     = Inr (Some (ex_colMi, REF_PIC_LIST_0, 0, ex_colSlice b))"
  by (simp add: colLocate_def ex_macros_def ex_colEnv_def ex_slice_def ex_pic_def ex_colMi_def
      colRefSelect_def mi_refIdx_def findColSlice_def ex_colSlice_def cdiv_def Let_def)

text \<open>
  Claim C4.  Once \<open>PU::getColocatedMVP\<close> has located the collocated motion and the
  current reference picture exists: if the POC distance of the current picture to its
  reference equals the POC distance of the collocated picture to its reference, then
  \<open>xGetDistScaleFactor\<close> yields the constant 4096 and every vector the function returns
  is the collocated vector itself, with no call of \<open>scaleMv\<close>.  (The only other outcome
  at equal distance is the rejection on disagreeing long-term status, which returns no
  vector.)
\<close>

theorem getColocatedMVP_equal_distance:
  assumes loc: "colLocate m e eRefPicList pos = Inr (Some (mi, eColRefPicList, iColRefIdx, colSlice))"
      and ref: "sl_refPic (ce_slice e) eRefPicList refIdx = Some currRef"
      and dist: "sl_POC (ce_slice e) - pic_poc currRef
                   = col_POC colSlice - col_refPOC colSlice eColRefPicList iColRefIdx"
  shows "xGetDistScaleFactor (sl_POC (ce_slice e)) (pic_poc currRef) (col_POC colSlice)
            (col_refPOC colSlice eColRefPicList iColRefIdx) = Inr 4096
         \<and> getColocatedMVP m h e eRefPicList pos refIdx
             = (if pic_longTerm currRef = col_isUsedAsLongTerm colSlice eColRefPicList iColRefIdx
                then Inr (Some (mi_mv mi eColRefPicList)) else Inr None)"
proof -
  have sc: "xGetDistScaleFactor (sl_POC (ce_slice e)) (pic_poc currRef) (col_POC colSlice)
            (col_refPOC colSlice eColRefPicList iColRefIdx) = Inr 4096"
    using dist by (rule xGetDistScaleFactor_equal)
  have "colScale m h e eRefPicList refIdx (mi, eColRefPicList, iColRefIdx, colSlice)
          = (if pic_longTerm currRef = col_isUsedAsLongTerm colSlice eColRefPicList iColRefIdx
             then Inr (Some (mi_mv mi eColRefPicList)) else Inr None)"
    using ref sc by (simp add: colScale_def Let_def)
  then show ?thesis using sc loc by (simp add: getColocatedMVP_def)
qed

theorem getColocatedMVP_equal_distance_witness:
  "xGetDistScaleFactor 16 12 8 4 = Inr 4096
   \<and> getColocatedMVP ex_macros ex_helpers (ex_colEnv 12 False False) REF_PIC_LIST_0
        \<lparr> px = 16, py = 16 \<rparr> 0 = Inr (Some ex_mv)"
  using getColocatedMVP_equal_distance [where h = ex_helpers and refIdx = 0
      and currRef = "ex_pic 12 False False", OF ex_colLocate [of 12 False False]]
  by (simp add: ex_colEnv_def ex_slice_def ex_pic_def ex_colSlice_def mi_mv_def ex_colMi_def)

text \<open>
  Claim C5.  With the collocated motion located and the current reference picture
  present, \<open>PU::getColocatedMVP\<close> returns false (no vector) whenever the current
  reference and the collocated reference disagree in long-term status, and returns the
  collocated vector unscaled when both are long-term.
\<close>

theorem getColocatedMVP_long_term:
  assumes loc: "colLocate m e eRefPicList pos = Inr (Some (mi, eColRefPicList, iColRefIdx, colSlice))"
      and ref: "sl_refPic (ce_slice e) eRefPicList refIdx = Some currRef"
  shows "(pic_longTerm currRef \<noteq> col_isUsedAsLongTerm colSlice eColRefPicList iColRefIdx
            \<longrightarrow> getColocatedMVP m h e eRefPicList pos refIdx = Inr None)
       \<and> (pic_longTerm currRef \<and> col_isUsedAsLongTerm colSlice eColRefPicList iColRefIdx
            \<longrightarrow> getColocatedMVP m h e eRefPicList pos refIdx = Inr (Some (mi_mv mi eColRefPicList)))"
  using loc ref by (simp add: getColocatedMVP_def colScale_def Let_def)

theorem getColocatedMVP_long_term_witness:
  "getColocatedMVP ex_macros ex_helpers (ex_colEnv 8 False True) REF_PIC_LIST_0
      \<lparr> px = 16, py = 16 \<rparr> 0 = Inr None
   \<and> getColocatedMVP ex_macros ex_helpers (ex_colEnv 8 True False) REF_PIC_LIST_0
      \<lparr> px = 16, py = 16 \<rparr> 0 = Inr None
   \<and> getColocatedMVP ex_macros ex_helpers (ex_colEnv 8 True True) REF_PIC_LIST_0
      \<lparr> px = 16, py = 16 \<rparr> 0 = Inr (Some ex_mv)"
  using getColocatedMVP_long_term [where h = ex_helpers and refIdx = 0
      and currRef = "ex_pic 8 False True", OF ex_colLocate [of 8 False True]]
    getColocatedMVP_long_term [where h = ex_helpers and refIdx = 0
      and currRef = "ex_pic 8 True False", OF ex_colLocate [of 8 True False]]
    getColocatedMVP_long_term [where h = ex_helpers and refIdx = 0
      and currRef = "ex_pic 8 True True", OF ex_colLocate [of 8 True True]]
  by (simp add: ex_colEnv_def ex_slice_def ex_pic_def ex_colSlice_def mi_mv_def ex_colMi_def)

section \<open>Properties of the AMVP lists\<close>

subsection \<open>The count after derivation\<close>

lemma numCand_padCand: "numCand info \<le> AMVP_MAX_NUM_CANDS \<Longrightarrow> numCand (padCand m info) = AMVP_MAX_NUM_CANDS"
proof (induction m info rule: padCand.induct)
  case (1 m info)
  show ?case
  proof (cases "numCand info < AMVP_MAX_NUM_CANDS")
    case True
    then show ?thesis using "1.IH" by (subst padCand.simps) simp
  next
    case False
    then show ?thesis using "1.prems" by (subst padCand.simps) simp
  qed
qed

lemma numCand_truncateCand: "numCand (truncateCand info) \<le> AMVP_MAX_NUM_CANDS"
  by (simp add: truncateCand_def)

lemma numCand_finalRounding: "numCand (finalRounding m h pu info) = numCand info"
  by (simp add: finalRounding_def Let_def)

lemma numCand_tail:
  "numCand (finalRounding m h pu (padCand m (truncateCand info))) = AMVP_MAX_NUM_CANDS"
  by (simp add: numCand_finalRounding numCand_padCand numCand_truncateCand)

lemma fillMvpCand_found:
  assumes "0 \<le> refIdx" and "fillMvpCand m h pu eRefPicList refIdx amvpInfo = Inr r"
  obtains found where "foundCands m h pu eRefPicList refIdx (amvpInfo\<lparr> numCand := 0 \<rparr>) = Inr found"
    and "r = finalRounding m h pu (padCand m (truncateCand found))"
proof -
  from assms have "ebind (foundCands m h pu eRefPicList refIdx (amvpInfo\<lparr> numCand := 0 \<rparr>))
            (\<lambda>i4. Inr (finalRounding m h pu (padCand m (truncateCand i4)))) = Inr r"
    by (simp add: fillMvpCand_def)
  then show ?thesis by (rule ebind_eq_InrE) (auto intro: that)
qed

lemma fillMvpCand_numCand:
  assumes "0 \<le> refIdx" and "fillMvpCand m h pu eRefPicList refIdx amvpInfo = Inr r"
  shows "numCand r = AMVP_MAX_NUM_CANDS"
proof -
  from assms obtain found where "r = finalRounding m h pu (padCand m (truncateCand found))"
    by (rule fillMvpCand_found)
  then show ?thesis by (simp add: numCand_tail)
qed


lemma aff_numCand_affAppend [simp]: "aff_numCand (affAppend a x y z) = aff_numCand a + 1"
  by (simp add: affAppend_def)

lemma inheritLoop_le:
  "aff_numCand (snd st) \<le> AMVP_MAX_NUM_CANDS \<Longrightarrow>
   aff_numCand (snd (inheritLoop m h pu l t ns st)) \<le> AMVP_MAX_NUM_CANDS"
proof (induction ns arbitrary: st)
  case Nil then show ?case by simp
next
  case (Cons n ns)
  obtain out affi where st: "st = (out, affi)" by (cases st)
  from Cons.prems have le: "aff_numCand affi \<le> AMVP_MAX_NUM_CANDS" by (simp add: st)
  show ?case
  proof (cases "aff_numCand affi < AMVP_MAX_NUM_CANDS")
    case False
    then show ?thesis using le by (simp add: st)
  next
    case True
    then show ?thesis unfolding st
      by (simp add: Let_def Cons.IH le)
  qed
qed

lemma inheritedCands_le:
  "aff_numCand (snd st) \<le> AMVP_MAX_NUM_CANDS \<Longrightarrow>
   aff_numCand (snd (inheritedCands m h pu l t st)) \<le> AMVP_MAX_NUM_CANDS"
  using inheritLoop_le [of st m h pu l t "getAvailableAffineNeighbours pu"]
    inheritLoop_le [of "inheritLoop m h pu l t (getAvailableAffineNeighbours pu) st" m h pu
       "otherList l" t "getAvailableAffineNeighbours pu"]
    inheritLoop_le [of st m h pu "otherList l" t "getAvailableAffineNeighbours pu"]
  by (simp add: inheritedCands_def Let_def)

lemma aff_numCand_affRoundStore [simp]: "aff_numCand (affRoundStore m a) = aff_numCand a"
  by (simp add: affRoundStore_def Let_def)

lemma constructedCand_le:
  "aff_numCand (constructedCand m h pu a0 a1 a2 affi) \<le> aff_numCand affi + 1"
  by (simp add: constructedCand_def Let_def)

lemma constructedStage_le:
  assumes "constructedStage m h pu l refIdx affi = Inr r"
  shows "aff_numCand r \<le> aff_numCand affi + 1"
proof -
  from assms obtain a0 a1 a2 where
    "r = affRoundStore m (constructedCand m h pu a0 a1 a2 affi)"
    unfolding constructedStage_def
    by (elim ebind_eq_InrE) auto
  then show ?thesis using constructedCand_le [of m h pu a0 a1 a2 affi] by simp
qed

lemma aff_numCand_topUp: "aff_numCand (topUp m h info i k affi) = aff_numCand affi + k"
  by (induction k arbitrary: info i affi) (simp_all add: Let_def)

lemma fillAffineMvpCand_numCand:
  assumes "0 \<le> refIdx" and "fillAffineMvpCand m h pu eRefPicList refIdx affi = Inr r"
  shows "aff_numCand r = AMVP_MAX_NUM_CANDS"
proof -
  define affi1 where "affi1 = snd (inheritedCands m h pu eRefPicList
      (sl_refPOC (pu_slice pu) eRefPicList refIdx) ([Mv0, Mv0, Mv0], affi\<lparr> aff_numCand := 0 \<rparr>))"
  have le: "aff_numCand affi1 \<le> AMVP_MAX_NUM_CANDS"
    unfolding affi1_def by (rule inheritedCands_le) simp
  show ?thesis
  proof (cases "aff_numCand affi1 \<ge> AMVP_MAX_NUM_CANDS")
    case True
    then show ?thesis using assms le
      by (auto simp add: fillAffineMvpCand_def Let_def affi1_def [symmetric])
  next
    case False
    with assms have eq: "ebind (constructedStage m h pu eRefPicList refIdx affi1)
                  (\<lambda>affi2.
                     if aff_numCand affi2 < 2
                     then ebind (fillMvpCand m h pu eRefPicList refIdx (localAMVPInfo m))
                            (\<lambda>amvpInfo.
                               Inr (topUp m h amvpInfo 0
                                      (numCand amvpInfo - aff_numCand affi2) affi2))
                     else Inr affi2) = Inr r"
      by (simp add: fillAffineMvpCand_def Let_def affi1_def [symmetric])
    then obtain affi2 where c: "constructedStage m h pu eRefPicList refIdx affi1 = Inr affi2"
      and rest: "(if aff_numCand affi2 < 2
                     then ebind (fillMvpCand m h pu eRefPicList refIdx (localAMVPInfo m))
                            (\<lambda>amvpInfo.
                               Inr (topUp m h amvpInfo 0
                                      (numCand amvpInfo - aff_numCand affi2) affi2))
                     else Inr affi2) = Inr r"
      by (rule ebind_eq_InrE)
    from constructedStage_le [OF c] False have le2: "aff_numCand affi2 \<le> 2"
      by (simp add: AMVP_MAX_NUM_CANDS_def)
    show ?thesis
    proof (cases "aff_numCand affi2 < 2")
      case True
      with rest obtain amvpInfo where f: "fillMvpCand m h pu eRefPicList refIdx (localAMVPInfo m) = Inr amvpInfo"
        and r: "r = topUp m h amvpInfo 0 (numCand amvpInfo - aff_numCand affi2) affi2"
        by (auto elim: ebind_eq_InrE)
      from fillMvpCand_numCand [OF assms(1) f] True show ?thesis
        by (simp add: r aff_numCand_topUp AMVP_MAX_NUM_CANDS_def)
    next
      case False
      with rest le2 show ?thesis by (simp add: AMVP_MAX_NUM_CANDS_def)
    qed
  qed
qed



subsection \<open>Two runs in the same neighbourhood\<close>

text \<open>
  Both derivations receive the list record as an in-out parameter.  Two runs in the
  same neighbourhood, started on records that may differ in their contents, go through
  the same branches and find the same candidates; an entry beyond the count is either
  the same in both records or still what the record held at the start.
\<close>

lemma take_Suc_update_cong:
  assumes "take n xs = take n ys" and "length xs = length ys"
  shows "take (Suc n) (xs[n := v]) = take (Suc n) (ys[n := v])"
proof (cases "n < length xs")
  case True
  with assms show ?thesis
    by (simp add: take_Suc_conv_app_nth)
next
  case False
  with assms show ?thesis by simp
qed

lemma nth_take_cong:
  assumes "take n xs = take n ys" and "length xs = length ys" and "i < n"
  shows "xs ! i = ys ! i"
proof (cases "i < length xs")
  case True
  have "xs ! i = take n xs ! i" using assms(3) by simp
  also have "\<dots> = take n ys ! i" using assms(1) by simp
  also have "\<dots> = ys ! i" using assms(3) by simp
  finally show ?thesis .
next
  case False
  with assms show ?thesis by simp
qed

lemma ebind_rel:
  assumes "rel_sum (=) R x y" and "\<And>u v. R u v \<Longrightarrow> rel_sum (=) S (f u) (g v)"
  shows "rel_sum (=) S (ebind x f) (ebind y g)"
  using assms by (cases x; cases y) auto

lemma ebind_rel_same:
  assumes "\<And>u. rel_sum (=) S (f u) (g u)"
  shows "rel_sum (=) S (ebind x f) (ebind x g)"
  using assms by (cases x) auto

lemma amvpAgreeD:
  assumes "amvpAgree S L a b"
  shows "length (mvCand a) = L" and "length (mvCand b) = L" and "numCand a = numCand b"
    and "take (numCand a) (mvCand a) = take (numCand b) (mvCand b)"
  using assms by (auto simp: amvpAgree_def amvpList_def)

lemma amvpAgree_stale:
  assumes "amvpAgree S L a b" and "numCand a \<le> i" and "i < L"
  shows "mvCand a ! i = mvCand b ! i \<or> S i (mvCand a ! i) (mvCand b ! i)"
  using assms by (simp add: amvpAgree_def)

lemma amvpAgree_nth:
  assumes "amvpAgree S L a b" and "i < numCand a"
  shows "mvCand a ! i = mvCand b ! i"
proof -
  note D = amvpAgreeD [OF assms(1)]
  have "take (numCand a) (mvCand a) = take (numCand a) (mvCand b)" using D by simp
  moreover have "length (mvCand a) = length (mvCand b)" using D by simp
  ultimately show ?thesis using assms(2) by (rule nth_take_cong)
qed

lemma amvpAgreeI:
  assumes "length (mvCand a) = L" and "length (mvCand b) = L" and "numCand a = numCand b"
    and "take (numCand a) (mvCand a) = take (numCand b) (mvCand b)"
    and "\<And>i. numCand a \<le> i \<Longrightarrow> i < L \<Longrightarrow>
           mvCand a ! i = mvCand b ! i \<or> S i (mvCand a ! i) (mvCand b ! i)"
  shows "amvpAgree S L a b"
  using assms by (simp add: amvpAgree_def amvpList_def)

lemma amvpAppend_agree:
  assumes "amvpAgree S L a b"
  shows "amvpAgree S L (amvpAppend a v) (amvpAppend b v)"
proof (rule amvpAgreeI)
  note D = amvpAgreeD [OF assms]
  show "length (mvCand (amvpAppend a v)) = L" using D by (simp add: amvpAppend_def)
  show "length (mvCand (amvpAppend b v)) = L" using D by (simp add: amvpAppend_def)
  show "numCand (amvpAppend a v) = numCand (amvpAppend b v)" using D by (simp add: amvpAppend_def)
  have "take (Suc (numCand a)) ((mvCand a)[numCand a := v])
          = take (Suc (numCand a)) ((mvCand b)[numCand a := v])"
    using D by (intro take_Suc_update_cong) simp_all
  then show "take (numCand (amvpAppend a v)) (mvCand (amvpAppend a v))
          = take (numCand (amvpAppend b v)) (mvCand (amvpAppend b v))"
    using D(3) by (simp add: amvpAppend_def)
  fix i assume i: "numCand (amvpAppend a v) \<le> i" "i < L"
  then have "numCand a \<le> i" "numCand a \<noteq> i" by (simp_all add: amvpAppend_def)
  with amvpAgree_stale [OF assms \<open>numCand a \<le> i\<close> i(2)] D(3)
  show "mvCand (amvpAppend a v) ! i = mvCand (amvpAppend b v) ! i
        \<or> S i (mvCand (amvpAppend a v) ! i) (mvCand (amvpAppend b v) ! i)"
    by (simp add: amvpAppend_def)
qed

lemma mvAmong_agree:
  assumes "amvpAgree S L a b" shows "mvAmong a v = mvAmong b v"
  unfolding mvAmong_def using amvpAgreeD(3,4) [OF assms] by simp

lemma appendCand_agree:
  "amvpAgree S L a b \<Longrightarrow> rel_option (amvpAgree S L) (appendCand aff a v) (appendCand aff b v)"
  by (simp add: appendCand_def amvpAppend_agree mvAmong_agree)

lemma unscaledRound_agree:
  "amvpAgree S L a b \<Longrightarrow>
   rel_option (amvpAgree S L) (unscaledRound pu p mi aff a l) (unscaledRound pu p mi aff b l)"
  by (simp add: unscaledRound_def Let_def appendCand_agree)

lemma addMVPCandUnscaled_agree:
  assumes "amvpAgree S L a b"
  shows "rel_sum (=) (rel_prod (=) (amvpAgree S L))
           (addMVPCandUnscaled pu l r pos d a aff) (addMVPCandUnscaled pu l r pos d b aff)"
proof -
  have u: "rel_option (amvpAgree S L) (unscaledRound pu p mi aff a l') (unscaledRound pu p mi aff b l')"
    for p mi l'
    using assms by (rule unscaledRound_agree)
  show ?thesis
  proof (cases "pu_getPURestricted pu (neibPosOf pos d)")
    case None
    then show ?thesis using assms by (simp add: addMVPCandUnscaled_def)
  next
    case (Some n)
    show ?thesis
    proof (cases "sl_refPic (pu_slice pu) l r")
      case None
      then show ?thesis using assms Some by (simp add: addMVPCandUnscaled_def)
    next
      case (Some cr)
      note u1 = u [of "pic_poc cr" "n_motion n (neibPosOf pos d)" l]
      note u2 = u [of "pic_poc cr" "n_motion n (neibPosOf pos d)" "otherList l"]
      from u1 u2 show ?thesis using assms Some \<open>pu_getPURestricted pu (neibPosOf pos d) = Some n\<close>
        by (auto simp: addMVPCandUnscaled_def Let_def elim!: option.rel_cases)
    qed
  qed
qed

lemma scaledRound_agree:
  assumes "amvpAgree S L a b"
  shows "rel_sum (=) (rel_option (amvpAgree S L))
           (scaledRound m h pu cr mi aff a l) (scaledRound m h pu cr mi aff b l)"
  unfolding scaledRound_def
  by (rule ebind_rel_same) (simp split: option.splits add: appendCand_agree [OF assms])

lemma addMVPCandWithScaling_agree:
  assumes "amvpAgree S L a b"
  shows "rel_sum (=) (rel_prod (=) (amvpAgree S L))
           (addMVPCandWithScaling m h pu l r pos d a aff)
           (addMVPCandWithScaling m h pu l r pos d b aff)"
proof -
  have u: "rel_sum (=) (rel_option (amvpAgree S L))
             (scaledRound m h pu cr mi aff a l') (scaledRound m h pu cr mi aff b l')" for cr mi l'
    using assms by (rule scaledRound_agree)
  show ?thesis
  proof (cases "pu_getPURestricted pu (neibPosOf pos d)")
    case None
    then show ?thesis using assms by (simp add: addMVPCandWithScaling_def)
  next
    case (Some n)
    show ?thesis
    proof (cases "sl_refPic (pu_slice pu) l r")
      case None
      then show ?thesis using assms Some by (simp add: addMVPCandWithScaling_def)
    next
      case (Some cr)
      have "rel_sum (=) (rel_prod (=) (amvpAgree S L))
              (ebind (scaledRound m h pu cr mi aff a l)
                 (\<lambda>r. case r of Some info' \<Rightarrow> Inr (True, info')
                      | None \<Rightarrow> ebind (scaledRound m h pu cr mi aff a (otherList l))
                                 (\<lambda>r2. case r2 of Some info' \<Rightarrow> Inr (True, info')
                                        | None \<Rightarrow> Inr (False, a))))
              (ebind (scaledRound m h pu cr mi aff b l)
                 (\<lambda>r. case r of Some info' \<Rightarrow> Inr (True, info')
                      | None \<Rightarrow> ebind (scaledRound m h pu cr mi aff b (otherList l))
                                 (\<lambda>r2. case r2 of Some info' \<Rightarrow> Inr (True, info')
                                        | None \<Rightarrow> Inr (False, b))))" for mi
        apply (rule ebind_rel [OF u])
        apply (erule option.rel_cases)
         apply simp
         apply (rule ebind_rel [OF u])
         apply (erule option.rel_cases)
          apply (simp add: assms)
         apply simp
        apply simp
        done
      then show ?thesis using Some \<open>pu_getPURestricted pu (neibPosOf pos d) = Some n\<close> assms
        by (simp add: addMVPCandWithScaling_def Let_def)
    qed
  qed
qed

lemma orElse_agree:
  assumes "rel_sum (=) (rel_prod (=) (amvpAgree S L)) x y"
      and "\<And>a b. amvpAgree S L a b \<Longrightarrow> rel_sum (=) (rel_prod (=) (amvpAgree S L)) (f a) (g b)"
  shows "rel_sum (=) (rel_prod (=) (amvpAgree S L)) (orElse x f) (orElse y g)"
  unfolding orElse_def
  by (rule ebind_rel [OF assms(1)]) (auto intro: assms(2))

lemma leftSearch_agree:
  assumes "amvpAgree S L a b"
  shows "rel_sum (=) (rel_prod (=) (amvpAgree S L))
           (leftSearch m h pu l r a) (leftSearch m h pu l r b)"
  unfolding leftSearch_def
  by (intro orElse_agree addMVPCandUnscaled_agree addMVPCandWithScaling_agree assms)

lemma aboveSearch_agree:
  assumes "amvpAgree S L a b"
  shows "rel_sum (=) (rel_prod (=) (amvpAgree S L))
           (aboveSearch pu l r a) (aboveSearch pu l r b)"
  unfolding aboveSearch_def
  by (intro orElse_agree addMVPCandUnscaled_agree assms)

lemma aboveScaledSearch_agree:
  assumes "amvpAgree S L a b"
  shows "rel_sum (=) (rel_prod (=) (amvpAgree S L))
           (aboveScaledSearch m h pu l r a) (aboveScaledSearch m h pu l r b)"
  unfolding aboveScaledSearch_def
  by (intro orElse_agree addMVPCandWithScaling_agree assms)

lemma spatialCands_agree:
  assumes "amvpAgree S L a b"
  shows "rel_sum (=) (amvpAgree S L) (spatialCands m h pu l r a) (spatialCands m h pu l r b)"
proof -
  have left: "rel_sum (=) (rel_prod (=) (amvpAgree S L))
                (if c then leftSearch m h pu l r a else Inr (False, a))
                (if c then leftSearch m h pu l r b else Inr (False, b))" for c
    using assms by (simp add: leftSearch_agree)
  show ?thesis
    unfolding spatialCands_def Let_def
    apply (rule ebind_rel [OF left])
    apply (rule ebind_rel [where R = "rel_prod (=) (amvpAgree S L)"])
     apply (rule aboveSearch_agree)
     apply (auto simp: rel_prod_sel)[1]
    apply (auto simp: rel_prod_sel intro!: ebind_rel [where R = "rel_prod (=) (amvpAgree S L)"]
        aboveScaledSearch_agree)
    done
qed


lemma length_mapFirst [simp]: "length (mapFirst n f xs) = length xs"
  by (simp add: mapFirst_def)

lemma take_mapFirst [simp]: "take n (mapFirst n f xs) = map f (take n xs)"
  by (cases "n \<le> length xs") (simp_all add: mapFirst_def)

lemma nth_mapFirst_ge:
  "n \<le> i \<Longrightarrow> i < length xs \<Longrightarrow> mapFirst n f xs ! i = xs ! i"
  by (simp add: mapFirst_def nth_append min_def)

lemma nth_mapFirst_lt:
  "i < n \<Longrightarrow> i < length xs \<Longrightarrow> mapFirst n f xs ! i = f (xs ! i)"
  by (simp add: mapFirst_def nth_append)

lemma imvRoundFirst_agree:
  assumes "amvpAgree S L a b"
  shows "amvpAgree S L (imvRoundFirst m h pu a) (imvRoundFirst m h pu b)"
proof (cases "pu_imv pu = 0")
  case True
  then show ?thesis using assms by (simp add: imvRoundFirst_def)
next
  case False
  note D = amvpAgreeD [OF assms]
  obtain f where ea: "imvRoundFirst m h pu a = a\<lparr> mvCand := mapFirst (numCand a) f (mvCand a) \<rparr>"
    and eb: "imvRoundFirst m h pu b = b\<lparr> mvCand := mapFirst (numCand b) f (mvCand b) \<rparr>"
    using False by (simp add: imvRoundFirst_def Let_def)
  show ?thesis unfolding ea eb
  proof (rule amvpAgreeI)
    show "length (mvCand (a\<lparr> mvCand := mapFirst (numCand a) f (mvCand a) \<rparr>)) = L" using D by simp
    show "length (mvCand (b\<lparr> mvCand := mapFirst (numCand b) f (mvCand b) \<rparr>)) = L" using D by simp
    show "numCand (a\<lparr> mvCand := mapFirst (numCand a) f (mvCand a) \<rparr>)
            = numCand (b\<lparr> mvCand := mapFirst (numCand b) f (mvCand b) \<rparr>)"
      using D by simp
    show "take (numCand (a\<lparr> mvCand := mapFirst (numCand a) f (mvCand a) \<rparr>))
               (mvCand (a\<lparr> mvCand := mapFirst (numCand a) f (mvCand a) \<rparr>))
          = take (numCand (b\<lparr> mvCand := mapFirst (numCand b) f (mvCand b) \<rparr>))
               (mvCand (b\<lparr> mvCand := mapFirst (numCand b) f (mvCand b) \<rparr>))"
      using D by simp
    fix i assume i: "numCand (a\<lparr> mvCand := mapFirst (numCand a) f (mvCand a) \<rparr>) \<le> i" "i < L"
    then have n: "numCand a \<le> i" by simp
    from amvpAgree_stale [OF assms n i(2)] n i(2) D
    show "mvCand (a\<lparr> mvCand := mapFirst (numCand a) f (mvCand a) \<rparr>) ! i
            = mvCand (b\<lparr> mvCand := mapFirst (numCand b) f (mvCand b) \<rparr>) ! i
          \<or> S i (mvCand (a\<lparr> mvCand := mapFirst (numCand a) f (mvCand a) \<rparr>) ! i)
                 (mvCand (b\<lparr> mvCand := mapFirst (numCand b) f (mvCand b) \<rparr>) ! i)"
      by (simp add: nth_mapFirst_ge)
  qed
qed

lemma dropDuplicate_agree:
  assumes "amvpAgree S L a b"
  shows "amvpAgree S L (dropDuplicate a) (dropDuplicate b)"
proof -
  note D = amvpAgreeD [OF assms]
  show ?thesis
  proof (cases "numCand a = 2")
    case False
    then show ?thesis using D assms by (simp add: dropDuplicate_def)
  next
    case True
    with D have n: "numCand b = 2" by simp
    have e0: "mvCand a ! 0 = mvCand b ! 0" by (rule amvpAgree_nth [OF assms]) (simp add: True)
    have e1: "mvCand a ! 1 = mvCand b ! 1" by (rule amvpAgree_nth [OF assms]) (simp add: True)
    show ?thesis
    proof (cases "mvCand a ! 0 = mvCand a ! 1")
      case False
      then show ?thesis using True n e0 e1 assms by (simp add: dropDuplicate_def)
    next
      case dup: True
      have da: "dropDuplicate a = a\<lparr> numCand := 1 \<rparr>" using True dup by (simp add: dropDuplicate_def)
      have db: "dropDuplicate b = b\<lparr> numCand := 1 \<rparr>" using n dup e0 e1 by (simp add: dropDuplicate_def)
      have t: "take 2 (mvCand a) = take 2 (mvCand b)" using D True by simp
      have t1: "take 1 (mvCand a) = take 1 (mvCand b)"
        using arg_cong [OF t, of "take 1"] by simp
      show ?thesis unfolding da db
      proof (rule amvpAgreeI)
        show "length (mvCand (a\<lparr> numCand := 1 \<rparr>)) = L" using D by simp
        show "length (mvCand (b\<lparr> numCand := 1 \<rparr>)) = L" using D by simp
        show "numCand (a\<lparr> numCand := 1 \<rparr>) = numCand (b\<lparr> numCand := 1 \<rparr>)" by simp
        show "take (numCand (a\<lparr> numCand := 1 \<rparr>)) (mvCand (a\<lparr> numCand := 1 \<rparr>))
              = take (numCand (b\<lparr> numCand := 1 \<rparr>)) (mvCand (b\<lparr> numCand := 1 \<rparr>))"
          using t1 by simp
        fix i assume i: "numCand (a\<lparr> numCand := 1 \<rparr>) \<le> i" "i < L"
        show "mvCand (a\<lparr> numCand := 1 \<rparr>) ! i = mvCand (b\<lparr> numCand := 1 \<rparr>) ! i
              \<or> S i (mvCand (a\<lparr> numCand := 1 \<rparr>) ! i) (mvCand (b\<lparr> numCand := 1 \<rparr>) ! i)"
        proof (cases "i = 1")
          case True
          then show ?thesis using e1 by simp
        next
          case False
          then have "numCand a \<le> i" using i \<open>numCand a = 2\<close> by simp
          from amvpAgree_stale [OF assms this i(2)] show ?thesis by simp
        qed
      qed
    qed
  qed
qed

lemma addTemporal_agree:
  assumes "amvpAgree S L a b"
  shows "rel_sum (=) (amvpAgree S L) (addTemporal m h pu l r a) (addTemporal m h pu l r b)"
  unfolding addTemporal_def
  using assms
  by (auto intro!: ebind_rel_same split: option.splits simp: amvpAppend_agree)

lemma truncateCand_agree:
  assumes "amvpAgree S L a b"
  shows "amvpAgree S L (truncateCand a) (truncateCand b)"
proof -
  note D = amvpAgreeD [OF assms]
  show ?thesis
  proof (cases "numCand a > AMVP_MAX_NUM_CANDS")
    case False
    then show ?thesis using D assms by (simp add: truncateCand_def)
  next
    case True
    have "take AMVP_MAX_NUM_CANDS (take (numCand a) (mvCand a))
            = take AMVP_MAX_NUM_CANDS (take (numCand b) (mvCand b))"
      using D by simp
    then have t: "take AMVP_MAX_NUM_CANDS (mvCand a) = take AMVP_MAX_NUM_CANDS (mvCand b)"
      using True D by (simp add: min_def)
    have ta: "truncateCand a = a\<lparr> numCand := AMVP_MAX_NUM_CANDS \<rparr>"
      using True by (simp add: truncateCand_def)
    have tb: "truncateCand b = b\<lparr> numCand := AMVP_MAX_NUM_CANDS \<rparr>"
      using True D by (simp add: truncateCand_def)
    show ?thesis unfolding ta tb
    proof (rule amvpAgreeI)
      show "length (mvCand (a\<lparr> numCand := AMVP_MAX_NUM_CANDS \<rparr>)) = L" using D by simp
      show "length (mvCand (b\<lparr> numCand := AMVP_MAX_NUM_CANDS \<rparr>)) = L" using D by simp
      show "numCand (a\<lparr> numCand := AMVP_MAX_NUM_CANDS \<rparr>)
              = numCand (b\<lparr> numCand := AMVP_MAX_NUM_CANDS \<rparr>)" by simp
      show "take (numCand (a\<lparr> numCand := AMVP_MAX_NUM_CANDS \<rparr>))
               (mvCand (a\<lparr> numCand := AMVP_MAX_NUM_CANDS \<rparr>))
          = take (numCand (b\<lparr> numCand := AMVP_MAX_NUM_CANDS \<rparr>))
               (mvCand (b\<lparr> numCand := AMVP_MAX_NUM_CANDS \<rparr>))"
        using t by simp
      fix i assume i: "numCand (a\<lparr> numCand := AMVP_MAX_NUM_CANDS \<rparr>) \<le> i" "i < L"
      show "mvCand (a\<lparr> numCand := AMVP_MAX_NUM_CANDS \<rparr>) ! i
              = mvCand (b\<lparr> numCand := AMVP_MAX_NUM_CANDS \<rparr>) ! i
            \<or> S i (mvCand (a\<lparr> numCand := AMVP_MAX_NUM_CANDS \<rparr>) ! i)
                   (mvCand (b\<lparr> numCand := AMVP_MAX_NUM_CANDS \<rparr>) ! i)"
      proof (cases "i < numCand a")
        case True
        then show ?thesis using amvpAgree_nth [OF assms True] by simp
      next
        case False
        then have "numCand a \<le> i" by simp
        from amvpAgree_stale [OF assms this i(2)] show ?thesis by simp
      qed
    qed
  qed
qed

lemma padCand_agree:
  "REMOVE_MV_ADAPT_PREC m \<Longrightarrow> amvpAgree S L a b \<Longrightarrow> amvpAgree S L (padCand m a) (padCand m b)"
proof (induction m a arbitrary: b rule: padCand.induct)
  case (1 m a)
  note rm = "1.prems"(1) and ag = "1.prems"(2)
  note D = amvpAgreeD [OF ag]
  show ?case
  proof (cases "numCand a < AMVP_MAX_NUM_CANDS")
    case False
    then show ?thesis using D ag
      by (subst padCand.simps, subst (2) padCand.simps) simp
  next
    case True
    let ?a' = "a\<lparr> mvCand := (mvCand a)[numCand a :=
                       (if REMOVE_MV_ADAPT_PREC m then Mv0
                        else Mv0\<lparr> highPrec := highPrec (mvCand a ! numCand a) \<rparr>)],
                   numCand := numCand a + 1 \<rparr>"
    let ?b' = "b\<lparr> mvCand := (mvCand b)[numCand b :=
                       (if REMOVE_MV_ADAPT_PREC m then Mv0
                        else Mv0\<lparr> highPrec := highPrec (mvCand b ! numCand b) \<rparr>)],
                   numCand := numCand b + 1 \<rparr>"
    have sa: "?a' = amvpAppend a Mv0" using rm by (simp add: amvpAppend_def)
    have sb: "?b' = amvpAppend b Mv0" using rm by (simp add: amvpAppend_def)
    have "amvpAgree S L ?a' ?b'" unfolding sa sb by (rule amvpAppend_agree) fact
    then have "amvpAgree S L (padCand m ?a') (padCand m ?b')" by (rule "1.IH" [OF True rm])
    moreover have "padCand m a = padCand m ?a'" using True by (subst padCand.simps) simp
    moreover have "padCand m b = padCand m ?b'" using True D by (subst padCand.simps) simp
    ultimately show ?thesis by simp
  qed
qed

lemma finalRounding_agree:
  assumes "amvpAgree S L a b"
  shows "amvpAgree (\<lambda>i u v. True) L (finalRounding m h pu a) (finalRounding m h pu b)"
  using amvpAgreeD [OF assms]
  by (auto simp: finalRounding_def Let_def take_map intro!: amvpAgreeI)

lemma foundCands_agree:
  assumes "amvpAgree S L a b"
  shows "rel_sum (=) (amvpAgree S L) (foundCands m h pu l r a) (foundCands m h pu l r b)"
  unfolding foundCands_def
  apply (rule ebind_rel [OF spatialCands_agree [OF assms]])
  apply (rule addTemporal_agree)
  apply (rule dropDuplicate_agree)
  apply (erule imvRoundFirst_agree)
  done

lemma fillMvpCand_agree:
  assumes rm: "REMOVE_MV_ADAPT_PREC m"
      and la: "length (mvCand a) = L" and lb: "length (mvCand b) = L"
  shows "rel_sum (=) (amvpAgree (\<lambda>i u v. True) L)
           (fillMvpCand m h pu l r a) (fillMvpCand m h pu l r b)"
proof -
  have z: "amvpAgree (\<lambda>i u v. True) L (a\<lparr> numCand := 0 \<rparr>) (b\<lparr> numCand := 0 \<rparr>)"
    using la lb by (simp add: amvpAgree_def amvpList_def)
  show ?thesis
  proof (cases "r < 0")
    case True
    then show ?thesis using z by (simp add: fillMvpCand_def)
  next
    case False
    have "rel_sum (=) (amvpAgree (\<lambda>i u v. True) L)
            (ebind (foundCands m h pu l r (a\<lparr> numCand := 0 \<rparr>))
                 (\<lambda>i4. Inr (finalRounding m h pu (padCand m (truncateCand i4)))))
            (ebind (foundCands m h pu l r (b\<lparr> numCand := 0 \<rparr>))
                 (\<lambda>i4. Inr (finalRounding m h pu (padCand m (truncateCand i4)))))"
      apply (rule ebind_rel [OF foundCands_agree [OF z]])
      apply simp
      apply (rule finalRounding_agree)
      apply (rule padCand_agree [OF rm])
      apply (erule truncateCand_agree)
      done
    then show ?thesis using False by (simp add: fillMvpCand_def)
  qed
qed

lemma fillMvpCand_rerun:
  assumes rm: "REMOVE_MV_ADAPT_PREC m"
      and r: "fillMvpCand m h pu l refIdx amvpInfo = Inr res"
  shows "map_sum id amvpList (fillMvpCand m h pu l refIdx res) = Inr (amvpList res)"
proof -
  define L where "L = length (mvCand amvpInfo)"
  from fillMvpCand_agree [OF rm L_def [symmetric] L_def [symmetric], of h pu l refIdx] r
  have "amvpAgree (\<lambda>i u v. True) L res res" by simp
  then have len: "length (mvCand res) = L" by (rule amvpAgreeD)
  from fillMvpCand_agree [OF rm len L_def [symmetric], of h pu l refIdx] r
  obtain res' where "fillMvpCand m h pu l refIdx res = Inr res'"
    and "amvpAgree (\<lambda>i u v. True) L res' res"
    by (cases "fillMvpCand m h pu l refIdx res") auto
  then show ?thesis by (simp add: amvpAgree_def)
qed

lemma affAgreeD:
  assumes "affAgree L a b"
  shows "length (mvCandLT a) = L" and "length (mvCandLT b) = L"
    and "length (mvCandRT a) = L" and "length (mvCandRT b) = L"
    and "length (mvCandLB a) = L" and "length (mvCandLB b) = L"
    and "aff_numCand a = aff_numCand b"
    and "take (aff_numCand a) (mvCandLT a) = take (aff_numCand b) (mvCandLT b)"
    and "take (aff_numCand a) (mvCandRT a) = take (aff_numCand b) (mvCandRT b)"
    and "take (aff_numCand a) (mvCandLB a) = take (aff_numCand b) (mvCandLB b)"
  using assms by (auto simp: affAgree_def affList_def)

lemma affAgreeI:
  assumes "length (mvCandLT a) = L" and "length (mvCandLT b) = L"
    and "length (mvCandRT a) = L" and "length (mvCandRT b) = L"
    and "length (mvCandLB a) = L" and "length (mvCandLB b) = L"
    and "aff_numCand a = aff_numCand b"
    and "take (aff_numCand a) (mvCandLT a) = take (aff_numCand b) (mvCandLT b)"
    and "take (aff_numCand a) (mvCandRT a) = take (aff_numCand b) (mvCandRT b)"
    and "take (aff_numCand a) (mvCandLB a) = take (aff_numCand b) (mvCandLB b)"
  shows "affAgree L a b"
  using assms by (simp add: affAgree_def affList_def)

lemma affAppend_agree:
  assumes "affAgree L a b"
  shows "affAgree L (affAppend a x y z) (affAppend b x y z)"
proof -
  note D = affAgreeD [OF assms]
  have t: "take (Suc (aff_numCand a)) (xs[aff_numCand a := v])
             = take (Suc (aff_numCand a)) (ys[aff_numCand a := v])"
    if "take (aff_numCand a) xs = take (aff_numCand a) ys" and "length xs = length ys"
    for xs ys :: "Mv list" and v
    using that by (rule take_Suc_update_cong)
  show ?thesis
    using D by (intro affAgreeI) (auto simp: affAppend_def intro!: take_Suc_update_cong)
qed

lemma affIsNew_agree:
  assumes "affAgree L a b"
  shows "affIsNew pu out a = affIsNew pu out b"
proof (cases "aff_numCand a = 0")
  case True
  then show ?thesis using affAgreeD(7) [OF assms] by (simp add: affIsNew_def)
next
  case False
  note D = affAgreeD [OF assms]
  from False have pos: "0 < aff_numCand a" by simp
  have "mvCandLT a ! 0 = mvCandLT b ! 0"
    using D pos by (intro nth_take_cong [where n = "aff_numCand a"]) simp_all
  moreover have "mvCandRT a ! 0 = mvCandRT b ! 0"
    using D pos by (intro nth_take_cong [where n = "aff_numCand a"]) simp_all
  moreover have "mvCandLB a ! 0 = mvCandLB b ! 0"
    using D pos by (intro nth_take_cong [where n = "aff_numCand a"]) simp_all
  ultimately show ?thesis using D(7) by (simp add: affIsNew_def)
qed

lemma inheritLoop_agree:
  "affAgree L a b \<Longrightarrow>
   rel_prod (=) (affAgree L) (inheritLoop m h pu l t ns (out, a)) (inheritLoop m h pu l t ns (out, b))"
proof (induction ns arbitrary: out a b)
  case Nil
  then show ?case by simp
next
  case (Cons n ns)
  note D = affAgreeD [OF Cons.prems]
  show ?case
    using Cons.prems D(7)
    by (simp add: Let_def affIsNew_agree [OF Cons.prems] Cons.IH affAppend_agree)
qed

lemma inheritedCands_agree:
  assumes "affAgree L a b"
  shows "rel_prod (=) (affAgree L)
           (inheritedCands m h pu l t (out, a)) (inheritedCands m h pu l t (out, b))"
proof -
  let ?ns = "getAvailableAffineNeighbours pu"
  have r1: "rel_prod (=) (affAgree L)
             (if aff_numCand a < AMVP_MAX_NUM_CANDS then inheritLoop m h pu l t ?ns (out, a) else (out, a))
             (if aff_numCand b < AMVP_MAX_NUM_CANDS then inheritLoop m h pu l t ?ns (out, b) else (out, b))"
    using assms affAgreeD(7) [OF assms]
    by (cases "aff_numCand b < AMVP_MAX_NUM_CANDS") (simp_all add: inheritLoop_agree)
  obtain o1 a1 where s1: "(if aff_numCand a < AMVP_MAX_NUM_CANDS
      then inheritLoop m h pu l t ?ns (out, a) else (out, a)) = (o1, a1)" by fastforce
  obtain o2 b1 where s2: "(if aff_numCand b < AMVP_MAX_NUM_CANDS
      then inheritLoop m h pu l t ?ns (out, b) else (out, b)) = (o2, b1)" by fastforce
  from r1 s1 s2 have o: "o2 = o1" and ag: "affAgree L a1 b1" by simp_all
  have "rel_prod (=) (affAgree L)
          (if aff_numCand a1 < AMVP_MAX_NUM_CANDS
           then inheritLoop m h pu (otherList l) t ?ns (o1, a1) else (o1, a1))
          (if aff_numCand b1 < AMVP_MAX_NUM_CANDS
           then inheritLoop m h pu (otherList l) t ?ns (o1, b1) else (o1, b1))"
    using ag affAgreeD(7) [OF ag]
    by (cases "aff_numCand b1 < AMVP_MAX_NUM_CANDS") (simp_all add: inheritLoop_agree)
  then show ?thesis
    unfolding o by (simp only: inheritedCands_def Let_def snd_conv s1 s2 [unfolded o])
qed

lemma affRoundStore_agree:
  assumes "affAgree L a b"
  shows "affAgree L (affRoundStore m a) (affRoundStore m b)"
  using affAgreeD [OF assms]
  by (auto simp: affRoundStore_def Let_def intro!: affAgreeI)

lemma constructedCand_agree:
  assumes "affAgree L a b"
  shows "affAgree L (constructedCand m h pu a0 a1 a2 a) (constructedCand m h pu a0 a1 a2 b)"
  using assms
  by (simp add: constructedCand_def Let_def affIsNew_agree [OF assms] affAppend_agree)

lemma constructedStage_agree:
  assumes "affAgree L a b"
  shows "rel_sum (=) (affAgree L)
           (constructedStage m h pu l r a) (constructedStage m h pu l r b)"
  unfolding constructedStage_def
  by (intro ebind_rel_same) (simp add: affRoundStore_agree constructedCand_agree assms)

lemma topUp_agree:
  "affAgree L a b \<Longrightarrow> affAgree L (topUp m h info i k a) (topUp m h info i k b)"
  by (induction k arbitrary: info i a b) (simp_all add: Let_def affAppend_agree)

lemma fillAffineMvpCand_agree:
  assumes "affAgree L (a\<lparr> aff_numCand := 0 \<rparr>) (b\<lparr> aff_numCand := 0 \<rparr>)"
  shows "rel_sum (=) (affAgree L)
           (fillAffineMvpCand m h pu l r a) (fillAffineMvpCand m h pu l r b)"
proof (cases "r < 0")
  case True
  then show ?thesis using assms by (simp add: fillAffineMvpCand_def)
next
  case False
  let ?t = "sl_refPOC (pu_slice pu) l r"
  let ?ia = "inheritedCands m h pu l ?t ([Mv0, Mv0, Mv0], a\<lparr> aff_numCand := 0 \<rparr>)"
  let ?ib = "inheritedCands m h pu l ?t ([Mv0, Mv0, Mv0], b\<lparr> aff_numCand := 0 \<rparr>)"
  have "rel_prod (=) (affAgree L) ?ia ?ib"
    using assms by (rule inheritedCands_agree)
  then have ag: "affAgree L (snd ?ia) (snd ?ib)" by (simp add: rel_prod_sel)
  note n = affAgreeD(7) [OF ag]
  have tail: "rel_sum (=) (affAgree L)
      (ebind (constructedStage m h pu l r (snd ?ia))
         (\<lambda>affi2. if aff_numCand affi2 < 2
                   then ebind (fillMvpCand m h pu l r (localAMVPInfo m))
                          (\<lambda>amvpInfo. Inr (topUp m h amvpInfo 0
                                               (numCand amvpInfo - aff_numCand affi2) affi2))
                   else Inr affi2))
      (ebind (constructedStage m h pu l r (snd ?ib))
         (\<lambda>affi2. if aff_numCand affi2 < 2
                   then ebind (fillMvpCand m h pu l r (localAMVPInfo m))
                          (\<lambda>amvpInfo. Inr (topUp m h amvpInfo 0
                                               (numCand amvpInfo - aff_numCand affi2) affi2))
                   else Inr affi2))"
  proof (rule ebind_rel [OF constructedStage_agree [OF ag]])
    fix u v assume uv: "affAgree L u v"
    note nu = affAgreeD(7) [OF uv]
    show "rel_sum (=) (affAgree L)
            (if aff_numCand u < 2
             then ebind (fillMvpCand m h pu l r (localAMVPInfo m))
                    (\<lambda>amvpInfo. Inr (topUp m h amvpInfo 0 (numCand amvpInfo - aff_numCand u) u))
             else Inr u)
            (if aff_numCand v < 2
             then ebind (fillMvpCand m h pu l r (localAMVPInfo m))
                    (\<lambda>amvpInfo. Inr (topUp m h amvpInfo 0 (numCand amvpInfo - aff_numCand v) v))
             else Inr v)"
      using uv nu by (auto intro!: ebind_rel_same topUp_agree)
  qed
  show ?thesis
    using False n ag tail
    by (simp add: fillAffineMvpCand_def Let_def affRoundStore_agree)
qed

lemma fillAffineMvpCand_rerun:
  assumes len: "length (mvCandRT affi) = length (mvCandLT affi)"
               "length (mvCandLB affi) = length (mvCandLT affi)"
      and r: "fillAffineMvpCand m h pu l refIdx affi = Inr res"
  shows "map_sum id affList (fillAffineMvpCand m h pu l refIdx res) = Inr (affList res)"
proof -
  define L where "L = length (mvCandLT affi)"
  have z: "affAgree L (affi\<lparr> aff_numCand := 0 \<rparr>) (affi\<lparr> aff_numCand := 0 \<rparr>)"
    using len by (simp add: affAgree_def L_def)
  from fillAffineMvpCand_agree [OF z, of m h pu l refIdx] r
  have rr: "affAgree L res res" by simp
  have z': "affAgree L (res\<lparr> aff_numCand := 0 \<rparr>) (affi\<lparr> aff_numCand := 0 \<rparr>)"
    using affAgreeD [OF rr] len by (simp add: affAgree_def affList_def L_def)
  from fillAffineMvpCand_agree [OF z', of m h pu l refIdx] r
  obtain res' where "fillAffineMvpCand m h pu l refIdx res = Inr res'" and "affAgree L res' res"
    by (cases "fillAffineMvpCand m h pu l refIdx res") auto
  then show ?thesis by (simp add: affAgree_def)
qed




subsection \<open>The list after cutting, padding and rounding\<close>

lemma padCand_full: "\<not> numCand info < AMVP_MAX_NUM_CANDS \<Longrightarrow> padCand m info = info"
  by (subst padCand.simps) simp

lemma padCand_char:
  "numCand x \<le> 2 \<Longrightarrow> 2 \<le> length (mvCand x) \<Longrightarrow>
   numCand (padCand m x) = 2 \<and> length (mvCand (padCand m x)) = length (mvCand x)
   \<and> (\<forall>i < length (mvCand x).
        mvCand (padCand m x) ! i
          = (if numCand x \<le> i \<and> i < 2
             then \<lparr> hor = 0, ver = 0,
                    highPrec = (\<not> REMOVE_MV_ADAPT_PREC m \<and> highPrec (mvCand x ! i)) \<rparr>
             else mvCand x ! i))"
proof (induction m x rule: padCand.induct)
  case (1 m x)
  show ?case
  proof (cases "numCand x < AMVP_MAX_NUM_CANDS")
    case False
    then have e: "padCand m x = x" by (rule padCand_full)
    show ?thesis unfolding e using False "1.prems" by (auto simp: AMVP_MAX_NUM_CANDS_def)
  next
    case True
    let ?x' = "x\<lparr> mvCand := (mvCand x)[numCand x :=
                       (if REMOVE_MV_ADAPT_PREC m then Mv0
                        else Mv0\<lparr> highPrec := highPrec (mvCand x ! numCand x) \<rparr>)],
                   numCand := numCand x + 1 \<rparr>"
    have e: "padCand m x = padCand m ?x'" using True by (subst padCand.simps) simp
    have p: "numCand ?x' \<le> 2" "2 \<le> length (mvCand ?x')"
      using True "1.prems" by (simp_all add: AMVP_MAX_NUM_CANDS_def)
    note IH = "1.IH" [OF True p]
    show ?thesis unfolding e
    proof (intro conjI allI impI)
      show "numCand (padCand m ?x') = 2" using IH by simp
      show "length (mvCand (padCand m ?x')) = length (mvCand x)" using IH by simp
      fix i assume i: "i < length (mvCand x)"
      then have "mvCand (padCand m ?x') ! i
          = (if numCand ?x' \<le> i \<and> i < 2
             then \<lparr> hor = 0, ver = 0,
                    highPrec = (\<not> REMOVE_MV_ADAPT_PREC m \<and> highPrec (mvCand ?x' ! i)) \<rparr>
             else mvCand ?x' ! i)"
        using IH by simp
      also have "\<dots> = (if numCand x \<le> i \<and> i < 2
             then \<lparr> hor = 0, ver = 0,
                    highPrec = (\<not> REMOVE_MV_ADAPT_PREC m \<and> highPrec (mvCand x ! i)) \<rparr>
             else mvCand x ! i)"
        using i True
        by (cases "i = numCand x") (auto simp: nth_list_update Mv0_def AMVP_MAX_NUM_CANDS_def)
      finally show "mvCand (padCand m ?x') ! i
          = (if numCand x \<le> i \<and> i < 2
             then \<lparr> hor = 0, ver = 0,
                    highPrec = (\<not> REMOVE_MV_ADAPT_PREC m \<and> highPrec (mvCand x ! i)) \<rparr>
             else mvCand x ! i)" .
    qed
  qed
qed

lemma finalRounding_nth:
  "i < numCand info \<Longrightarrow> i < length (mvCand info) \<Longrightarrow>
   mvCand (finalRounding m h pu info) ! i = finalEntry m h pu (mvCand info ! i)"
  by (simp add: finalRounding_def finalEntry_def Let_def nth_mapFirst_lt)

lemma length_finalRounding [simp]:
  "length (mvCand (finalRounding m h pu info)) = length (mvCand info)"
  by (simp add: finalRounding_def Let_def)

lemma take_two: "2 \<le> length xs \<Longrightarrow> take 2 xs = [xs ! 0, xs ! 1]"
  by (cases xs; cases "tl xs") (auto simp: numeral_2_eq_2)

lemma truncateCand_char:
  "numCand (truncateCand x) = min (numCand x) 2 \<and> mvCand (truncateCand x) = mvCand x"
  by (simp add: truncateCand_def AMVP_MAX_NUM_CANDS_def)

lemma foundCands_length:
  assumes "foundCands m h pu l r (a\<lparr> numCand := 0 \<rparr>) = Inr found"
  shows "length (mvCand found) = length (mvCand a)"
proof -
  have "amvpAgree (\<lambda>i u v. True) (length (mvCand a)) (a\<lparr> numCand := 0 \<rparr>) (a\<lparr> numCand := 0 \<rparr>)"
    by (simp add: amvpAgree_def)
  from foundCands_agree [OF this, of m h pu l r] assms
  have "amvpAgree (\<lambda>i u v. True) (length (mvCand a)) found found" by simp
  then show ?thesis by (rule amvpAgreeD)
qed

text \<open>The list after cutting or padding and the final passes, entry by entry.\<close>

lemma tail_nth:
  assumes "2 \<le> length (mvCand x)" and "i < 2"
  shows "mvCand (finalRounding m h pu (padCand m (truncateCand x))) ! i
           = finalEntry m h pu
               (if i < numCand x then mvCand x ! i
                else \<lparr> hor = 0, ver = 0,
                       highPrec = (\<not> REMOVE_MV_ADAPT_PREC m \<and> highPrec (mvCand x ! i)) \<rparr>)"
proof -
  note T = truncateCand_char [of x]
  have c: "numCand (truncateCand x) \<le> 2" "2 \<le> length (mvCand (truncateCand x))"
    using T assms by simp_all
  note P = padCand_char [OF c, of m]
  have "mvCand (finalRounding m h pu (padCand m (truncateCand x))) ! i
          = finalEntry m h pu (mvCand (padCand m (truncateCand x)) ! i)"
    using P assms T by (intro finalRounding_nth) simp_all
  also have "mvCand (padCand m (truncateCand x)) ! i
          = (if i < numCand x then mvCand x ! i
             else \<lparr> hor = 0, ver = 0,
                    highPrec = (\<not> REMOVE_MV_ADAPT_PREC m \<and> highPrec (mvCand x ! i)) \<rparr>)"
    using P assms T by auto
  finally show ?thesis .
qed

lemma tail_list:
  assumes "2 \<le> length (mvCand x)"
  shows "amvpList (finalRounding m h pu (padCand m (truncateCand x)))
           = (2, [mvCand (finalRounding m h pu (padCand m (truncateCand x))) ! 0,
                  mvCand (finalRounding m h pu (padCand m (truncateCand x))) ! 1])"
proof -
  note T = truncateCand_char [of x]
  have c: "numCand (truncateCand x) \<le> 2" "2 \<le> length (mvCand (truncateCand x))"
    using T assms by simp_all
  note P = padCand_char [OF c, of m]
  show ?thesis using P T assms
    by (simp add: amvpList_def numCand_finalRounding take_two)
qed

lemma fillMvpCand_content:
  assumes "0 \<le> refIdx" and "2 \<le> length (mvCand amvpInfo)"
      and "fillMvpCand m h pu l refIdx amvpInfo = Inr res"
  shows "\<exists>found. foundCands m h pu l refIdx (amvpInfo\<lparr> numCand := 0 \<rparr>) = Inr found
           \<and> amvpList res
               = (2, map (\<lambda>i. finalEntry m h pu
                                (if i < numCand found then mvCand found ! i
                                 else \<lparr> hor = 0, ver = 0,
                                        highPrec = (\<not> REMOVE_MV_ADAPT_PREC m
                                                    \<and> highPrec (mvCand found ! i)) \<rparr>))
                         [0, 1])"
proof -
  from assms(1,3) obtain found
    where f: "foundCands m h pu l refIdx (amvpInfo\<lparr> numCand := 0 \<rparr>) = Inr found"
      and r: "res = finalRounding m h pu (padCand m (truncateCand found))"
    by (rule fillMvpCand_found)
  have len: "2 \<le> length (mvCand found)" using foundCands_length [OF f] assms(2) by simp
  show ?thesis
    using f tail_list [OF len, of m h pu] tail_nth [OF len, of 0 m h pu] tail_nth [OF len, of 1 m h pu]
    by (auto simp: r)
qed

text \<open>
  Padding from the flag of an entry that is itself the result of padding and the
  final passes gives that entry again.
\<close>

lemma finalEntry_pad_again:
  assumes "REMOVE_MV_ADAPT_PREC m
           \<or> ((pu_imv pu \<noteq> 0 \<longrightarrow> (\<forall>v s. highPrec (roundMV h v s) = highPrec v))
              \<and> (sps_useHighPrecMv pu \<longrightarrow> setLowPrec h (Mv0\<lparr> highPrec := True \<rparr>) = Mv0))"
  shows "finalEntry m h pu
           \<lparr> hor = 0, ver = 0,
             highPrec = (\<not> REMOVE_MV_ADAPT_PREC m
                         \<and> highPrec (finalEntry m h pu
                               \<lparr> hor = 0, ver = 0,
                                 highPrec = (\<not> REMOVE_MV_ADAPT_PREC m \<and> q) \<rparr>)) \<rparr>
         = finalEntry m h pu \<lparr> hor = 0, ver = 0, highPrec = (\<not> REMOVE_MV_ADAPT_PREC m \<and> q) \<rparr>"
proof (cases "REMOVE_MV_ADAPT_PREC m")
  case True
  then show ?thesis by simp
next
  case False
  have L1: "highPrec (roundMV h v s) = highPrec v" if "pu_imv pu \<noteq> 0" for v s
    using assms False that by simp
  have L3: "setLowPrec h \<lparr> hor = 0, ver = 0, highPrec = True \<rparr> = Mv0" if "sps_useHighPrecMv pu"
    using assms False that by (simp add: Mv0_def)
  show ?thesis
    using False L1 L3
    by (cases q; cases "sps_useHighPrecMv pu"; cases "pu_imv pu = 0")
       (simp_all add: finalEntry_def lowPrecIfHigh_def Mv0_def Let_def)
qed

lemma fillMvpCand_rerun_padded:
  assumes laws: "REMOVE_MV_ADAPT_PREC m
           \<or> ((pu_imv pu \<noteq> 0 \<longrightarrow> (\<forall>v s. highPrec (roundMV h v s) = highPrec v))
              \<and> (sps_useHighPrecMv pu \<longrightarrow> setLowPrec h (Mv0\<lparr> highPrec := True \<rparr>) = Mv0))"
      and ref: "0 \<le> refIdx" and cap: "2 \<le> length (mvCand amvpInfo)"
      and r: "fillMvpCand m h pu l refIdx amvpInfo = Inr res"
  shows "map_sum id amvpList (fillMvpCand m h pu l refIdx res) = Inr (amvpList res)"
proof -
  define L where "L = length (mvCand amvpInfo)"
  define S where "S = (\<lambda>i u v. u = mvCand res ! i \<and> v = mvCand amvpInfo ! i)"
  let ?Z = "\<lambda>v. \<lparr> hor = 0, ver = 0, highPrec = (\<not> REMOVE_MV_ADAPT_PREC m \<and> highPrec v) \<rparr>"
  from ref r obtain fa
    where fa: "foundCands m h pu l refIdx (amvpInfo\<lparr> numCand := 0 \<rparr>) = Inr fa"
      and res: "res = finalRounding m h pu (padCand m (truncateCand fa))"
    by (rule fillMvpCand_found)
  have lfa: "length (mvCand fa) = L" using foundCands_length [OF fa] by (simp add: L_def)
  have cfa: "2 \<le> length (mvCand fa)" using lfa cap by (simp add: L_def)
  have lres: "length (mvCand res) = L"
    using padCand_char [of "truncateCand fa" m] truncateCand_char [of fa] cfa lfa
    by (simp add: res)
  have z: "amvpAgree S L (res\<lparr> numCand := 0 \<rparr>) (amvpInfo\<lparr> numCand := 0 \<rparr>)"
    using lres by (simp add: amvpAgree_def amvpList_def S_def L_def)
  from foundCands_agree [OF z, of m h pu l refIdx] fa
  obtain fr where fr: "foundCands m h pu l refIdx (res\<lparr> numCand := 0 \<rparr>) = Inr fr"
    and ag: "amvpAgree S L fr fa"
    by (cases "foundCands m h pu l refIdx (res\<lparr> numCand := 0 \<rparr>)") auto
  note D = amvpAgreeD [OF ag]
  have cfr: "2 \<le> length (mvCand fr)" using D cap by (simp add: L_def)
  have run2: "fillMvpCand m h pu l refIdx res
                = Inr (finalRounding m h pu (padCand m (truncateCand fr)))"
    using ref fr by (simp add: fillMvpCand_def)
  have eq: "mvCand (finalRounding m h pu (padCand m (truncateCand fr))) ! i = mvCand res ! i"
    if i: "i < 2" for i
  proof (cases "i < numCand fr")
    case True
    then show ?thesis
      using tail_nth [OF cfr i, of m h pu] tail_nth [OF cfa i, of m h pu]
        amvpAgree_nth [OF ag True] D
      by (simp add: res)
  next
    case False
    then have n: "numCand fr \<le> i" by simp
    have iL: "i < L" using i cap by (simp add: L_def)
    have a: "mvCand res ! i = finalEntry m h pu (?Z (mvCand fa ! i))"
      using tail_nth [OF cfa i, of m h pu] False D by (simp add: res)
    have b: "mvCand (finalRounding m h pu (padCand m (truncateCand fr))) ! i
               = finalEntry m h pu (?Z (mvCand fr ! i))"
      using tail_nth [OF cfr i, of m h pu] False by simp
    from amvpAgree_stale [OF ag n iL] show ?thesis
    proof
      assume "mvCand fr ! i = mvCand fa ! i"
      then show ?thesis using a b by simp
    next
      assume "S i (mvCand fr ! i) (mvCand fa ! i)"
      then have "mvCand fr ! i = mvCand res ! i" by (simp add: S_def)
      then have "mvCand fr ! i = finalEntry m h pu (?Z (mvCand fa ! i))" using a by simp
      then show ?thesis
        using a b finalEntry_pad_again [OF laws, of "highPrec (mvCand fa ! i)"] by simp
    qed
  qed
  have "amvpList (finalRounding m h pu (padCand m (truncateCand fr))) = amvpList res"
    using tail_list [OF cfr, of m h pu] tail_list [OF cfa, of m h pu] eq [of 0] eq [of 1]
    by (simp add: res)
  then show ?thesis by (simp add: run2)
qed


text \<open>The affine list when the ordinary list tops it up.\<close>

lemma topUp_char:
  "aff_numCand affi + k \<le> L \<Longrightarrow>
   length (mvCandLT affi) = L \<Longrightarrow> length (mvCandRT affi) = L \<Longrightarrow> length (mvCandLB affi) = L \<Longrightarrow>
   i + k \<le> length (mvCand amvpInfo) \<Longrightarrow>
   affList (topUp m h amvpInfo i k affi)
     = (aff_numCand affi + k,
        take (aff_numCand affi) (mvCandLT affi)
          @ map (\<lambda>v. if REMOVE_MV_ADAPT_PREC m then v else setHighPrec h v)
              (take k (drop i (mvCand amvpInfo))),
        take (aff_numCand affi) (mvCandRT affi)
          @ map (\<lambda>v. if REMOVE_MV_ADAPT_PREC m then v else setHighPrec h v)
              (take k (drop i (mvCand amvpInfo))),
        take (aff_numCand affi) (mvCandLB affi)
          @ map (\<lambda>v. if REMOVE_MV_ADAPT_PREC m then v else setHighPrec h v)
              (take k (drop i (mvCand amvpInfo))))"
proof (induction k arbitrary: amvpInfo i affi)
  case 0
  then show ?case by (simp add: affList_def)
next
  case (Suc k)
  let ?v = "if REMOVE_MV_ADAPT_PREC m then mvCand amvpInfo ! i else setHighPrec h (mvCand amvpInfo ! i)"
  let ?amvp = "amvpInfo\<lparr> mvCand := (mvCand amvpInfo)[i := ?v] \<rparr>"
  let ?affi = "affAppend affi ?v ?v ?v"
  have e: "topUp m h amvpInfo i (Suc k) affi = topUp m h ?amvp (i + 1) k ?affi"
    by (simp add: Let_def)
  have n: "aff_numCand affi < L" using Suc.prems by simp
  have d: "take (Suc k) (drop i (mvCand amvpInfo))
             = mvCand amvpInfo ! i # take k (drop (Suc i) (mvCand amvpInfo))"
    using Suc.prems(5) by (simp add: take_Suc_conv_app_nth Cons_nth_drop_Suc [symmetric])
  have IH: "affList (topUp m h ?amvp (i + 1) k ?affi)
     = (aff_numCand ?affi + k,
        take (aff_numCand ?affi) (mvCandLT ?affi)
          @ map (\<lambda>v. if REMOVE_MV_ADAPT_PREC m then v else setHighPrec h v)
              (take k (drop (i + 1) (mvCand ?amvp))),
        take (aff_numCand ?affi) (mvCandRT ?affi)
          @ map (\<lambda>v. if REMOVE_MV_ADAPT_PREC m then v else setHighPrec h v)
              (take k (drop (i + 1) (mvCand ?amvp))),
        take (aff_numCand ?affi) (mvCandLB ?affi)
          @ map (\<lambda>v. if REMOVE_MV_ADAPT_PREC m then v else setHighPrec h v)
              (take k (drop (i + 1) (mvCand ?amvp))))"
    using Suc.prems by (intro Suc.IH) (simp_all add: affAppend_def)
  show ?case
    unfolding e IH d using n Suc.prems
    by (simp add: affAppend_def take_Suc_conv_app_nth)
qed


lemma fillAffineMvpCand_topped_up:
  assumes ref: "0 \<le> refIdx"
      and r: "fillAffineMvpCand m h pu l refIdx affi = Inr res"
      and cap: "length (mvCandRT affi) = length (mvCandLT affi)"
               "length (mvCandLB affi) = length (mvCandLT affi)"
               "2 \<le> length (mvCandLT affi)" "2 \<le> AMVP_MAX_NUM_CANDS_MEM m"
      and i1: "aff_numCand (snd (inheritedCands m h pu l (sl_refPOC (pu_slice pu) l refIdx)
                 ([Mv0, Mv0, Mv0], affi\<lparr> aff_numCand := 0 \<rparr>))) < AMVP_MAX_NUM_CANDS"
      and c: "constructedStage m h pu l refIdx
                (snd (inheritedCands m h pu l (sl_refPOC (pu_slice pu) l refIdx)
                   ([Mv0, Mv0, Mv0], affi\<lparr> aff_numCand := 0 \<rparr>))) = Inr affi2"
      and n2: "aff_numCand affi2 < 2"
  shows "\<exists>amvp. fillMvpCand m h pu l refIdx (localAMVPInfo m) = Inr amvp
           \<and> affList res
               = (2,
                  take (aff_numCand affi2) (mvCandLT affi2)
                    @ map (\<lambda>v. if REMOVE_MV_ADAPT_PREC m then v else setHighPrec h v)
                        (take (2 - aff_numCand affi2) (mvCand amvp)),
                  take (aff_numCand affi2) (mvCandRT affi2)
                    @ map (\<lambda>v. if REMOVE_MV_ADAPT_PREC m then v else setHighPrec h v)
                        (take (2 - aff_numCand affi2) (mvCand amvp)),
                  take (aff_numCand affi2) (mvCandLB affi2)
                    @ map (\<lambda>v. if REMOVE_MV_ADAPT_PREC m then v else setHighPrec h v)
                        (take (2 - aff_numCand affi2) (mvCand amvp)))"
proof -
  define L where "L = length (mvCandLT affi)"
  let ?t = "sl_refPOC (pu_slice pu) l refIdx"
  let ?i = "inheritedCands m h pu l ?t ([Mv0, Mv0, Mv0], affi\<lparr> aff_numCand := 0 \<rparr>)"
  have z: "affAgree L (affi\<lparr> aff_numCand := 0 \<rparr>) (affi\<lparr> aff_numCand := 0 \<rparr>)"
    using cap by (simp add: affAgree_def L_def)
  from inheritedCands_agree [OF z, of m h pu l ?t "[Mv0, Mv0, Mv0]"]
  have a1: "affAgree L (snd ?i) (snd ?i)" by (simp add: rel_prod_sel)
  from constructedStage_agree [OF a1, of m h pu l refIdx] c
  have a2: "affAgree L affi2 affi2" by simp
  note D = affAgreeD [OF a2]
  from r ref i1 c n2 obtain amvp
    where f: "fillMvpCand m h pu l refIdx (localAMVPInfo m) = Inr amvp"
      and res: "res = topUp m h amvp 0 (numCand amvp - aff_numCand affi2) affi2"
    by (auto simp: fillAffineMvpCand_def Let_def elim!: ebind_eq_InrE)
  have nc: "numCand amvp = 2"
    using fillMvpCand_numCand [OF ref f] by (simp add: AMVP_MAX_NUM_CANDS_def)
  from ref f obtain found
    where fo: "foundCands m h pu l refIdx (localAMVPInfo m\<lparr> numCand := 0 \<rparr>) = Inr found"
      and am: "amvp = finalRounding m h pu (padCand m (truncateCand found))"
    by (rule fillMvpCand_found)
  have "length (mvCand found) = AMVP_MAX_NUM_CANDS_MEM m"
    using foundCands_length [OF fo] by (simp add: localAMVPInfo_def)
  then have la: "2 \<le> length (mvCand amvp)"
    using cap(4) padCand_char [of "truncateCand found" m] truncateCand_char [of found]
    by (simp add: am)
  have "affList (topUp m h amvp 0 (2 - aff_numCand affi2) affi2)
     = (aff_numCand affi2 + (2 - aff_numCand affi2),
        take (aff_numCand affi2) (mvCandLT affi2)
          @ map (\<lambda>v. if REMOVE_MV_ADAPT_PREC m then v else setHighPrec h v)
              (take (2 - aff_numCand affi2) (drop 0 (mvCand amvp))),
        take (aff_numCand affi2) (mvCandRT affi2)
          @ map (\<lambda>v. if REMOVE_MV_ADAPT_PREC m then v else setHighPrec h v)
              (take (2 - aff_numCand affi2) (drop 0 (mvCand amvp))),
        take (aff_numCand affi2) (mvCandLB affi2)
          @ map (\<lambda>v. if REMOVE_MV_ADAPT_PREC m then v else setHighPrec h v)
              (take (2 - aff_numCand affi2) (drop 0 (mvCand amvp))))"
    using D cap(3) n2 la by (intro topUp_char [where L = L]) (simp_all add: L_def)
  then show ?thesis using f n2 by (auto simp: res nc)
qed

subsection \<open>The claims\<close>

text \<open>
  Claim C10.  Called with a negative reference index, \<open>PU::fillMvpCand\<close> returns at
  once: the count is 0 and no entry of the candidate array has been written.  The list
  therefore does not hold \<open>AMVP_MAX_NUM_CANDS\<close> entries in this case.
\<close>

theorem fillMvpCand_negative_refIdx:
  assumes "refIdx < 0"
  shows "fillMvpCand m h pu eRefPicList refIdx amvpInfo = Inr (amvpInfo\<lparr> numCand := 0 \<rparr>)
       \<and> numCand (amvpInfo\<lparr> numCand := 0 \<rparr>) \<noteq> AMVP_MAX_NUM_CANDS"
  using assms by (simp add: fillMvpCand_def AMVP_MAX_NUM_CANDS_def)

theorem fillMvpCand_negative_refIdx_witness:
  "(-1 :: int) < 0
   \<and> fillMvpCand ex_macros ex_helpers (ex_pu (ex_mrgSlice 6 2 True) ex_fourSpatial)
         REF_PIC_LIST_0 (-1) ex_amvpInfo
       = Inr \<lparr> mvCand = [ex_mv, ex_mv, ex_mv], numCand = 0 \<rparr>"
  using fillMvpCand_negative_refIdx [of "-1" ex_macros ex_helpers
          "ex_pu (ex_mrgSlice 6 2 True) ex_fourSpatial" REF_PIC_LIST_0 ex_amvpInfo]
  by (simp add: ex_amvpInfo_def)

text \<open>
  Claim C6, as stated, at a negative reference index: the ordinary derivation returns
  with a count of 0, not 2, and so does the affine one.
\<close>

theorem amvp_count_counterexample:
  "map_sum id numCand
     (fillMvpCand ex_macros ex_helpers (ex_pu (ex_mrgSlice 6 2 True) ex_fourSpatial)
        REF_PIC_LIST_0 (-1) ex_amvpInfo) = Inr 0
   \<and> map_sum id aff_numCand
       (fillAffineMvpCand ex_macros ex_helpers (ex_pu (ex_mrgSlice 6 2 True) ex_fourSpatial)
          REF_PIC_LIST_0 (-1) ex_affInfo) = Inr 0"
  by code_simp

text \<open>
  The law on \<open>setLowPrec\<close> that the second run needs outside \<open>REMOVE_MV_ADAPT_PREC\<close> is
  not redundant in this model, where the vector class is a parameter: with a
  \<open>setLowPrec\<close> that sends the zero vector elsewhere, a stale entry flagged high
  precision makes the padding of the first run differ from that of the second.
\<close>

lemma fillMvpCand_rerun_needs_setLowPrec_law:
  "map_sum id amvpList
     (fillMvpCand ex_macrosAdapt ex_helpersOdd
        ((ex_pu (ex_mrgSlice 6 2 False) (\<lambda>p. None))\<lparr> sps_useHighPrecMv := True \<rparr>)
        REF_PIC_LIST_0 0 ex_amvpInfoHigh)
     = Inr (2, [\<lparr> hor = 1, ver = 0, highPrec = False \<rparr>,
                \<lparr> hor = 1, ver = 0, highPrec = False \<rparr>])
   \<and> map_sum id amvpList
       (fillMvpCand ex_macrosAdapt ex_helpersOdd
          ((ex_pu (ex_mrgSlice 6 2 False) (\<lambda>p. None))\<lparr> sps_useHighPrecMv := True \<rparr>)
          REF_PIC_LIST_0 0
          \<lparr> mvCand = [\<lparr> hor = 1, ver = 0, highPrec = False \<rparr>,
                      \<lparr> hor = 1, ver = 0, highPrec = False \<rparr>,
                      \<lparr> hor = 1, ver = 0, highPrec = False \<rparr>], numCand = 2 \<rparr>)
     = Inr (2, [\<lparr> hor = 0, ver = 0, highPrec = False \<rparr>,
                \<lparr> hor = 0, ver = 0, highPrec = False \<rparr>])"
  by code_simp

text \<open>
  Claim C6, amended.  For a reference index that is not negative, whenever
  \<open>PU::fillMvpCand\<close> or \<open>PU::fillAffineMvpCand\<close> returns, the count is exactly
  \<open>AMVP_MAX_NUM_CANDS = 2\<close>.

  The ordinary list, when the record holds at least two vectors, is the list of the
  candidates found (spatial, rounded, without the duplicate, temporal), cut to two if
  more were found and padded if fewer, each entry then taken through the final rounding
  passes: a padded entry is the zero vector, which carries the precision flag of the
  entry it overwrites only outside \<open>REMOVE_MV_ADAPT_PREC\<close>.

  Running the ordinary derivation again on the record it has just filled, in the same
  neighbourhood, returns the same list (the count and the vectors up to the count): in
  the configuration \<open>REMOVE_MV_ADAPT_PREC\<close> always; in the other configuration when
  the record holds at least two vectors and the operations of the vector class, which
  are parameters here, are such that \<open>roundMV\<close> keeps the precision flag and
  \<open>setLowPrec\<close> maps the flagged zero vector to the zero vector.

  Running the affine derivation again on the record it has just filled returns the
  same list when its three arrays have one capacity.  When fewer than two affine
  candidates were found (inherited and constructed), the list is those candidates
  followed, in each of the three arrays, by the first entries of the ordinary list
  derived for the same block, up to two in all.
\<close>

theorem amvp_lists_full_and_repeatable:
  assumes "0 \<le> refIdx"
  shows "(\<forall>res. fillMvpCand m h pu eRefPicList refIdx amvpInfo = Inr res \<longrightarrow>
            numCand res = AMVP_MAX_NUM_CANDS
            \<and> (2 \<le> length (mvCand amvpInfo) \<longrightarrow>
                 (\<exists>found.
                    foundCands m h pu eRefPicList refIdx (amvpInfo\<lparr> numCand := 0 \<rparr>)
                      = Inr found
                    \<and> amvpList res
                        = (2, map (\<lambda>i. finalEntry m h pu
                                     (if i < numCand found then mvCand found ! i
                                      else \<lparr> hor = 0, ver = 0,
                                             highPrec = (\<not> REMOVE_MV_ADAPT_PREC m
                                                \<and> highPrec (mvCand found ! i)) \<rparr>))
                                [0, 1])))
            \<and> (REMOVE_MV_ADAPT_PREC m
                  \<or> (2 \<le> length (mvCand amvpInfo)
                      \<and> (pu_imv pu \<noteq> 0 \<longrightarrow>
                            (\<forall>v s. highPrec (roundMV h v s) = highPrec v))
                      \<and> (sps_useHighPrecMv pu \<longrightarrow>
                            setLowPrec h (Mv0\<lparr> highPrec := True \<rparr>) = Mv0)) \<longrightarrow>
                 map_sum id amvpList (fillMvpCand m h pu eRefPicList refIdx res)
                   = Inr (amvpList res)))
       \<and> (\<forall>res. fillAffineMvpCand m h pu eRefPicList refIdx affi = Inr res \<longrightarrow>
            aff_numCand res = AMVP_MAX_NUM_CANDS
            \<and> (length (mvCandRT affi) = length (mvCandLT affi)
                   \<and> length (mvCandLB affi) = length (mvCandLT affi) \<longrightarrow>
                 map_sum id affList (fillAffineMvpCand m h pu eRefPicList refIdx res)
                   = Inr (affList res))
            \<and> (\<forall>affi1 affi2.
                 length (mvCandRT affi) = length (mvCandLT affi)
                 \<and> length (mvCandLB affi) = length (mvCandLT affi)
                 \<and> 2 \<le> length (mvCandLT affi) \<and> 2 \<le> AMVP_MAX_NUM_CANDS_MEM m
                 \<and> affi1 = snd (inheritedCands m h pu eRefPicList
                                  (sl_refPOC (pu_slice pu) eRefPicList refIdx)
                                  ([Mv0, Mv0, Mv0], affi\<lparr> aff_numCand := 0 \<rparr>))
                 \<and> aff_numCand affi1 < AMVP_MAX_NUM_CANDS
                 \<and> constructedStage m h pu eRefPicList refIdx affi1 = Inr affi2
                 \<and> aff_numCand affi2 < 2 \<longrightarrow>
                 (\<exists>amvp.
                    fillMvpCand m h pu eRefPicList refIdx (localAMVPInfo m) = Inr amvp
                    \<and> affList res
                        = (2,
                           take (aff_numCand affi2) (mvCandLT affi2)
                             @ map (\<lambda>v. if REMOVE_MV_ADAPT_PREC m then v
                                         else setHighPrec h v)
                                 (take (2 - aff_numCand affi2) (mvCand amvp)),
                           take (aff_numCand affi2) (mvCandRT affi2)
                             @ map (\<lambda>v. if REMOVE_MV_ADAPT_PREC m then v
                                         else setHighPrec h v)
                                 (take (2 - aff_numCand affi2) (mvCand amvp)),
                           take (aff_numCand affi2) (mvCandLB affi2)
                             @ map (\<lambda>v. if REMOVE_MV_ADAPT_PREC m then v
                                         else setHighPrec h v)
                                 (take (2 - aff_numCand affi2) (mvCand amvp))))))"
proof (intro conjI allI impI)
  fix res assume r: "fillMvpCand m h pu eRefPicList refIdx amvpInfo = Inr res"
  show "numCand res = AMVP_MAX_NUM_CANDS" using assms r by (rule fillMvpCand_numCand)
next
  fix res assume r: "fillMvpCand m h pu eRefPicList refIdx amvpInfo = Inr res"
    and l: "2 \<le> length (mvCand amvpInfo)"
  show "\<exists>found.
          foundCands m h pu eRefPicList refIdx (amvpInfo\<lparr> numCand := 0 \<rparr>) = Inr found
          \<and> amvpList res
              = (2, map (\<lambda>i. finalEntry m h pu
                           (if i < numCand found then mvCand found ! i
                            else \<lparr> hor = 0, ver = 0,
                                   highPrec = (\<not> REMOVE_MV_ADAPT_PREC m
                                      \<and> highPrec (mvCand found ! i)) \<rparr>))
                      [0, 1])"
    using assms l r by (rule fillMvpCand_content)
next
  fix res assume r: "fillMvpCand m h pu eRefPicList refIdx amvpInfo = Inr res"
    and c: "REMOVE_MV_ADAPT_PREC m
            \<or> (2 \<le> length (mvCand amvpInfo)
                \<and> (pu_imv pu \<noteq> 0 \<longrightarrow> (\<forall>v s. highPrec (roundMV h v s) = highPrec v))
                \<and> (sps_useHighPrecMv pu \<longrightarrow> setLowPrec h (Mv0\<lparr> highPrec := True \<rparr>) = Mv0))"
  show "map_sum id amvpList (fillMvpCand m h pu eRefPicList refIdx res)
          = Inr (amvpList res)"
  proof (cases "REMOVE_MV_ADAPT_PREC m")
    case True
    then show ?thesis using r by (rule fillMvpCand_rerun)
  next
    case False
    with c have l: "2 \<le> length (mvCand amvpInfo)"
      and laws: "REMOVE_MV_ADAPT_PREC m
                 \<or> ((pu_imv pu \<noteq> 0 \<longrightarrow> (\<forall>v s. highPrec (roundMV h v s) = highPrec v))
                     \<and> (sps_useHighPrecMv pu \<longrightarrow>
                           setLowPrec h (Mv0\<lparr> highPrec := True \<rparr>) = Mv0))"
      by auto
    from laws assms l r show ?thesis by (rule fillMvpCand_rerun_padded)
  qed
next
  fix res assume r: "fillAffineMvpCand m h pu eRefPicList refIdx affi = Inr res"
  show "aff_numCand res = AMVP_MAX_NUM_CANDS"
    using assms r by (rule fillAffineMvpCand_numCand)
next
  fix res assume r: "fillAffineMvpCand m h pu eRefPicList refIdx affi = Inr res"
    and l: "length (mvCandRT affi) = length (mvCandLT affi)
            \<and> length (mvCandLB affi) = length (mvCandLT affi)"
  show "map_sum id affList (fillAffineMvpCand m h pu eRefPicList refIdx res)
          = Inr (affList res)"
    using r l by (auto intro: fillAffineMvpCand_rerun)
next
  fix res affi1 affi2
  assume r: "fillAffineMvpCand m h pu eRefPicList refIdx affi = Inr res"
    and c: "length (mvCandRT affi) = length (mvCandLT affi)
            \<and> length (mvCandLB affi) = length (mvCandLT affi)
            \<and> 2 \<le> length (mvCandLT affi) \<and> 2 \<le> AMVP_MAX_NUM_CANDS_MEM m
            \<and> affi1 = snd (inheritedCands m h pu eRefPicList
                             (sl_refPOC (pu_slice pu) eRefPicList refIdx)
                             ([Mv0, Mv0, Mv0], affi\<lparr> aff_numCand := 0 \<rparr>))
            \<and> aff_numCand affi1 < AMVP_MAX_NUM_CANDS
            \<and> constructedStage m h pu eRefPicList refIdx affi1 = Inr affi2
            \<and> aff_numCand affi2 < 2"
  show "\<exists>amvp.
          fillMvpCand m h pu eRefPicList refIdx (localAMVPInfo m) = Inr amvp
          \<and> affList res
              = (2,
                 take (aff_numCand affi2) (mvCandLT affi2)
                   @ map (\<lambda>v. if REMOVE_MV_ADAPT_PREC m then v else setHighPrec h v)
                       (take (2 - aff_numCand affi2) (mvCand amvp)),
                 take (aff_numCand affi2) (mvCandRT affi2)
                   @ map (\<lambda>v. if REMOVE_MV_ADAPT_PREC m then v else setHighPrec h v)
                       (take (2 - aff_numCand affi2) (mvCand amvp)),
                 take (aff_numCand affi2) (mvCandLB affi2)
                   @ map (\<lambda>v. if REMOVE_MV_ADAPT_PREC m then v else setHighPrec h v)
                       (take (2 - aff_numCand affi2) (mvCand amvp)))"
    using assms r c by (intro fillAffineMvpCand_topped_up) auto
qed

theorem amvp_lists_full_and_repeatable_witness:
  "(0 :: int) \<le> 0
   \<and> fillMvpCand ex_macros ex_helpers (ex_pu (ex_mrgSlice 6 2 True) (\<lambda>p. None))
         REF_PIC_LIST_0 0 ex_amvpInfo
       = Inr \<lparr> mvCand = [\<lparr> hor = 2, ver = 0, highPrec = False \<rparr>,
                  \<lparr> hor = 0, ver = 0, highPrec = False \<rparr>,
                  \<lparr> hor = 1, ver = 0, highPrec = False \<rparr>], numCand = 2 \<rparr>
   \<and> foundCands ex_macros ex_helpers (ex_pu (ex_mrgSlice 6 2 True) (\<lambda>p. None))
         REF_PIC_LIST_0 0 (ex_amvpInfo\<lparr> numCand := 0 \<rparr>)
       = Inr \<lparr> mvCand = [\<lparr> hor = 8, ver = 0, highPrec = False \<rparr>,
                  \<lparr> hor = 4, ver = 0, highPrec = False \<rparr>,
                  \<lparr> hor = 4, ver = 0, highPrec = False \<rparr>], numCand = 1 \<rparr>
   \<and> amvpList \<lparr> mvCand = [\<lparr> hor = 2, ver = 0, highPrec = False \<rparr>,
                  \<lparr> hor = 0, ver = 0, highPrec = False \<rparr>,
                  \<lparr> hor = 1, ver = 0, highPrec = False \<rparr>], numCand = 2 \<rparr>
       = (2, [finalEntry ex_macros ex_helpers (ex_pu (ex_mrgSlice 6 2 True) (\<lambda>p. None))
                \<lparr> hor = 8, ver = 0, highPrec = False \<rparr>,
              finalEntry ex_macros ex_helpers (ex_pu (ex_mrgSlice 6 2 True) (\<lambda>p. None))
                \<lparr> hor = 0, ver = 0, highPrec = False \<rparr>])
   \<and> map_sum id amvpList
        (fillMvpCand ex_macros ex_helpers (ex_pu (ex_mrgSlice 6 2 True) (\<lambda>p. None))
           REF_PIC_LIST_0 0 \<lparr> mvCand = [\<lparr> hor = 2, ver = 0, highPrec = False \<rparr>,
                  \<lparr> hor = 0, ver = 0, highPrec = False \<rparr>,
                  \<lparr> hor = 1, ver = 0, highPrec = False \<rparr>], numCand = 2 \<rparr>)
       = Inr (2, [\<lparr> hor = 2, ver = 0, highPrec = False \<rparr>,
                  \<lparr> hor = 0, ver = 0, highPrec = False \<rparr>])
   \<and> fillMvpCand ex_macrosAdapt ex_helpers
         ((ex_pu (ex_mrgSlice 6 2 True) (\<lambda>p. None))\<lparr> sps_useHighPrecMv := True \<rparr>)
         REF_PIC_LIST_0 0 ex_amvpInfoHigh
       = Inr \<lparr> mvCand = [\<lparr> hor = 32, ver = 0, highPrec = False \<rparr>,
                  \<lparr> hor = 0, ver = 0, highPrec = False \<rparr>,
                  \<lparr> hor = 4, ver = 0, highPrec = False \<rparr>], numCand = 2 \<rparr>
   \<and> map_sum id amvpList
        (fillMvpCand ex_macrosAdapt ex_helpers
           ((ex_pu (ex_mrgSlice 6 2 True) (\<lambda>p. None))\<lparr> sps_useHighPrecMv := True \<rparr>)
           REF_PIC_LIST_0 0 \<lparr> mvCand = [\<lparr> hor = 32, ver = 0, highPrec = False \<rparr>,
                  \<lparr> hor = 0, ver = 0, highPrec = False \<rparr>,
                  \<lparr> hor = 4, ver = 0, highPrec = False \<rparr>], numCand = 2 \<rparr>)
       = Inr (2, [\<lparr> hor = 32, ver = 0, highPrec = False \<rparr>,
                  \<lparr> hor = 0, ver = 0, highPrec = False \<rparr>])
   \<and> fillAffineMvpCand ex_macros ex_helpers (ex_pu (ex_mrgSlice 6 2 True) ex_fourSpatial)
         REF_PIC_LIST_0 0 ex_affInfo
       = Inr \<lparr> mvCandLT = [\<lparr> hor = 4, ver = 0, highPrec = False \<rparr>,
               \<lparr> hor = 3, ver = 0, highPrec = False \<rparr>,
               \<lparr> hor = 4, ver = 0, highPrec = False \<rparr>],
        mvCandRT = [\<lparr> hor = 4, ver = 0, highPrec = False \<rparr>,
               \<lparr> hor = 3, ver = 0, highPrec = False \<rparr>,
               \<lparr> hor = 4, ver = 0, highPrec = False \<rparr>],
        mvCandLB = [\<lparr> hor = 4, ver = 0, highPrec = False \<rparr>,
               \<lparr> hor = 3, ver = 0, highPrec = False \<rparr>,
               \<lparr> hor = 4, ver = 0, highPrec = False \<rparr>],
        aff_numCand = 2 \<rparr>
   \<and> map_sum id affList
        (fillAffineMvpCand ex_macros ex_helpers (ex_pu (ex_mrgSlice 6 2 True) ex_fourSpatial)
           REF_PIC_LIST_0 0 \<lparr> mvCandLT = [\<lparr> hor = 4, ver = 0, highPrec = False \<rparr>,
               \<lparr> hor = 3, ver = 0, highPrec = False \<rparr>,
               \<lparr> hor = 4, ver = 0, highPrec = False \<rparr>],
        mvCandRT = [\<lparr> hor = 4, ver = 0, highPrec = False \<rparr>,
               \<lparr> hor = 3, ver = 0, highPrec = False \<rparr>,
               \<lparr> hor = 4, ver = 0, highPrec = False \<rparr>],
        mvCandLB = [\<lparr> hor = 4, ver = 0, highPrec = False \<rparr>,
               \<lparr> hor = 3, ver = 0, highPrec = False \<rparr>,
               \<lparr> hor = 4, ver = 0, highPrec = False \<rparr>],
        aff_numCand = 2 \<rparr>)
       = Inr (2, [\<lparr> hor = 4, ver = 0, highPrec = False \<rparr>,
                  \<lparr> hor = 3, ver = 0, highPrec = False \<rparr>],
                 [\<lparr> hor = 4, ver = 0, highPrec = False \<rparr>,
                  \<lparr> hor = 3, ver = 0, highPrec = False \<rparr>],
                 [\<lparr> hor = 4, ver = 0, highPrec = False \<rparr>,
                  \<lparr> hor = 3, ver = 0, highPrec = False \<rparr>])
   \<and> constructedStage ex_macros ex_helpers (ex_pu (ex_mrgSlice 6 2 True) (\<lambda>p. None))
         REF_PIC_LIST_0 0
         (snd (inheritedCands ex_macros ex_helpers (ex_pu (ex_mrgSlice 6 2 True) (\<lambda>p. None))
                 REF_PIC_LIST_0
                 (sl_refPOC (pu_slice (ex_pu (ex_mrgSlice 6 2 True) (\<lambda>p. None)))
                    REF_PIC_LIST_0 0)
                 ([Mv0, Mv0, Mv0], ex_affInfo\<lparr> aff_numCand := 0 \<rparr>)))
       = Inr (ex_affInfo\<lparr> aff_numCand := 0 \<rparr>)
   \<and> fillMvpCand ex_macros ex_helpers (ex_pu (ex_mrgSlice 6 2 True) (\<lambda>p. None))
         REF_PIC_LIST_0 0 (localAMVPInfo ex_macros)
       = Inr \<lparr> mvCand = [\<lparr> hor = 2, ver = 0, highPrec = False \<rparr>,
                  \<lparr> hor = 0, ver = 0, highPrec = False \<rparr>,
                  \<lparr> hor = 0, ver = 0, highPrec = False \<rparr>], numCand = 2 \<rparr>
   \<and> map_sum id affList
        (fillAffineMvpCand ex_macros ex_helpers (ex_pu (ex_mrgSlice 6 2 True) (\<lambda>p. None))
           REF_PIC_LIST_0 0 ex_affInfo)
       = Inr (2, [\<lparr> hor = 2, ver = 0, highPrec = False \<rparr>,
                  \<lparr> hor = 0, ver = 0, highPrec = False \<rparr>],
                 [\<lparr> hor = 2, ver = 0, highPrec = False \<rparr>,
                  \<lparr> hor = 0, ver = 0, highPrec = False \<rparr>],
                 [\<lparr> hor = 2, ver = 0, highPrec = False \<rparr>,
                  \<lparr> hor = 0, ver = 0, highPrec = False \<rparr>])"
proof -
  let ?pu = "ex_pu (ex_mrgSlice 6 2 True) (\<lambda>p. None)"
  let ?puH = "(ex_pu (ex_mrgSlice 6 2 True) (\<lambda>p. None))\<lparr> sps_useHighPrecMv := True \<rparr>"
  let ?pu4 = "ex_pu (ex_mrgSlice 6 2 True) ex_fourSpatial"
  let ?R = "\<lparr> mvCand = [\<lparr> hor = 2, ver = 0, highPrec = False \<rparr>,
                  \<lparr> hor = 0, ver = 0, highPrec = False \<rparr>,
                  \<lparr> hor = 1, ver = 0, highPrec = False \<rparr>], numCand = 2 \<rparr>"
  let ?F = "\<lparr> mvCand = [\<lparr> hor = 8, ver = 0, highPrec = False \<rparr>,
                  \<lparr> hor = 4, ver = 0, highPrec = False \<rparr>,
                  \<lparr> hor = 4, ver = 0, highPrec = False \<rparr>], numCand = 1 \<rparr>"
  let ?RH = "\<lparr> mvCand = [\<lparr> hor = 32, ver = 0, highPrec = False \<rparr>,
                  \<lparr> hor = 0, ver = 0, highPrec = False \<rparr>,
                  \<lparr> hor = 4, ver = 0, highPrec = False \<rparr>], numCand = 2 \<rparr>"
  let ?A = "\<lparr> mvCand = [\<lparr> hor = 2, ver = 0, highPrec = False \<rparr>,
                  \<lparr> hor = 0, ver = 0, highPrec = False \<rparr>,
                  \<lparr> hor = 0, ver = 0, highPrec = False \<rparr>], numCand = 2 \<rparr>"
  let ?Q = "\<lparr> mvCandLT = [\<lparr> hor = 4, ver = 0, highPrec = False \<rparr>,
               \<lparr> hor = 3, ver = 0, highPrec = False \<rparr>,
               \<lparr> hor = 4, ver = 0, highPrec = False \<rparr>],
        mvCandRT = [\<lparr> hor = 4, ver = 0, highPrec = False \<rparr>,
               \<lparr> hor = 3, ver = 0, highPrec = False \<rparr>,
               \<lparr> hor = 4, ver = 0, highPrec = False \<rparr>],
        mvCandLB = [\<lparr> hor = 4, ver = 0, highPrec = False \<rparr>,
               \<lparr> hor = 3, ver = 0, highPrec = False \<rparr>,
               \<lparr> hor = 4, ver = 0, highPrec = False \<rparr>],
        aff_numCand = 2 \<rparr>"
  let ?P = "\<lparr> mvCandLT = [\<lparr> hor = 2, ver = 0, highPrec = False \<rparr>,
               \<lparr> hor = 0, ver = 0, highPrec = False \<rparr>,
               \<lparr> hor = 4, ver = 0, highPrec = False \<rparr>],
        mvCandRT = [\<lparr> hor = 2, ver = 0, highPrec = False \<rparr>,
               \<lparr> hor = 0, ver = 0, highPrec = False \<rparr>,
               \<lparr> hor = 4, ver = 0, highPrec = False \<rparr>],
        mvCandLB = [\<lparr> hor = 2, ver = 0, highPrec = False \<rparr>,
               \<lparr> hor = 0, ver = 0, highPrec = False \<rparr>,
               \<lparr> hor = 4, ver = 0, highPrec = False \<rparr>],
        aff_numCand = 2 \<rparr>"
  let ?inh = "snd (inheritedCands ex_macros ex_helpers ?pu REF_PIC_LIST_0
                 (sl_refPOC (pu_slice ?pu) REF_PIC_LIST_0 0)
                 ([Mv0, Mv0, Mv0], ex_affInfo\<lparr> aff_numCand := 0 \<rparr>))"
  have rm: "REMOVE_MV_ADAPT_PREC ex_macros" by (simp add: ex_macros_def)
  have nrm: "\<not> REMOVE_MV_ADAPT_PREC ex_macrosAdapt"
    by (simp add: ex_macrosAdapt_def ex_macros_def)
  have mem: "2 \<le> AMVP_MAX_NUM_CANDS_MEM ex_macros" by (simp add: ex_macros_def)
  have cap: "2 \<le> length (mvCand ex_amvpInfo)" by (simp add: ex_amvpInfo_def)
  have capH: "2 \<le> length (mvCand ex_amvpInfoHigh)" by (simp add: ex_amvpInfoHigh_def)
  have laws: "(pu_imv ?puH \<noteq> 0 \<longrightarrow> (\<forall>v s. highPrec (roundMV ex_helpers v s) = highPrec v))
              \<and> (sps_useHighPrecMv ?puH \<longrightarrow>
                    setLowPrec ex_helpers (Mv0\<lparr> highPrec := True \<rparr>) = Mv0)"
    by (simp add: ex_helpers_def Mv0_def)
  have len: "length (mvCandRT ex_affInfo) = length (mvCandLT ex_affInfo)
             \<and> length (mvCandLB ex_affInfo) = length (mvCandLT ex_affInfo)
             \<and> 2 \<le> length (mvCandLT ex_affInfo)"
    by (simp add: ex_affInfo_def)
  have run: "fillMvpCand ex_macros ex_helpers ?pu REF_PIC_LIST_0 0 ex_amvpInfo = Inr ?R"
    by code_simp
  have fnd: "foundCands ex_macros ex_helpers ?pu REF_PIC_LIST_0 0
               (ex_amvpInfo\<lparr> numCand := 0 \<rparr>) = Inr ?F"
    by code_simp
  have runH: "fillMvpCand ex_macrosAdapt ex_helpers ?puH REF_PIC_LIST_0 0 ex_amvpInfoHigh
                = Inr ?RH"
    by code_simp
  have aff: "fillAffineMvpCand ex_macros ex_helpers ?pu4 REF_PIC_LIST_0 0 ex_affInfo = Inr ?Q"
    by code_simp
  have affP: "fillAffineMvpCand ex_macros ex_helpers ?pu REF_PIC_LIST_0 0 ex_affInfo = Inr ?P"
    by code_simp
  have inh: "aff_numCand ?inh < AMVP_MAX_NUM_CANDS" by code_simp
  have con: "constructedStage ex_macros ex_helpers ?pu REF_PIC_LIST_0 0 ?inh
               = Inr (ex_affInfo\<lparr> aff_numCand := 0 \<rparr>)"
    by code_simp
  have loc: "fillMvpCand ex_macros ex_helpers ?pu REF_PIC_LIST_0 0 (localAMVPInfo ex_macros)
               = Inr ?A"
    by code_simp
  have lstH: "amvpList ?RH = (2, [\<lparr> hor = 32, ver = 0, highPrec = False \<rparr>,
                                  \<lparr> hor = 0, ver = 0, highPrec = False \<rparr>])"
    by (simp add: amvpList_def)
  have lstQ: "affList ?Q = (2, [\<lparr> hor = 4, ver = 0, highPrec = False \<rparr>,
                                \<lparr> hor = 3, ver = 0, highPrec = False \<rparr>],
                               [\<lparr> hor = 4, ver = 0, highPrec = False \<rparr>,
                                \<lparr> hor = 3, ver = 0, highPrec = False \<rparr>],
                               [\<lparr> hor = 4, ver = 0, highPrec = False \<rparr>,
                                \<lparr> hor = 3, ver = 0, highPrec = False \<rparr>])"
    by (simp add: affList_def)
  note T = amvp_lists_full_and_repeatable [of 0 ex_macros ex_helpers ?pu REF_PIC_LIST_0
             ex_amvpInfo ex_affInfo]
  have a1: "\<exists>found. foundCands ex_macros ex_helpers ?pu REF_PIC_LIST_0 0
                      (ex_amvpInfo\<lparr> numCand := 0 \<rparr>) = Inr found
              \<and> amvpList ?R
                  = (2, map (\<lambda>i. finalEntry ex_macros ex_helpers ?pu
                               (if i < numCand found then mvCand found ! i
                                else \<lparr> hor = 0, ver = 0,
                                       highPrec = (\<not> REMOVE_MV_ADAPT_PREC ex_macros
                                          \<and> highPrec (mvCand found ! i)) \<rparr>))
                          [0, 1])"
    using T run cap by blast
  have a2: "amvpList ?R
              = (2, [finalEntry ex_macros ex_helpers ?pu \<lparr> hor = 8, ver = 0, highPrec = False \<rparr>,
                     finalEntry ex_macros ex_helpers ?pu \<lparr> hor = 0, ver = 0, highPrec = False \<rparr>])"
    using a1 rm by (simp add: fnd)
  have a3: "map_sum id amvpList (fillMvpCand ex_macros ex_helpers ?pu REF_PIC_LIST_0 0 ?R)
              = Inr (amvpList ?R)"
    using T run rm by blast
  have a4: "amvpList ?R = (2, [\<lparr> hor = 2, ver = 0, highPrec = False \<rparr>,
                                \<lparr> hor = 0, ver = 0, highPrec = False \<rparr>])"
    by (simp add: amvpList_def)
  have b: "map_sum id amvpList
             (fillMvpCand ex_macrosAdapt ex_helpers ?puH REF_PIC_LIST_0 0 ?RH)
             = Inr (amvpList ?RH)"
    using amvp_lists_full_and_repeatable [of 0 ex_macrosAdapt ex_helpers ?puH REF_PIC_LIST_0
        ex_amvpInfoHigh ex_affInfo] runH capH laws
    by blast
  have c: "map_sum id affList (fillAffineMvpCand ex_macros ex_helpers ?pu4 REF_PIC_LIST_0 0 ?Q)
               = Inr (affList ?Q)"
    using amvp_lists_full_and_repeatable [of 0 ex_macros ex_helpers ?pu4 REF_PIC_LIST_0
        ex_amvpInfo ex_affInfo] aff len
    by blast
  have d0: "length (mvCandRT ex_affInfo) = length (mvCandLT ex_affInfo)
            \<and> length (mvCandLB ex_affInfo) = length (mvCandLT ex_affInfo)
            \<and> 2 \<le> length (mvCandLT ex_affInfo) \<and> 2 \<le> AMVP_MAX_NUM_CANDS_MEM ex_macros
            \<and> ?inh = snd (inheritedCands ex_macros ex_helpers ?pu REF_PIC_LIST_0
                             (sl_refPOC (pu_slice ?pu) REF_PIC_LIST_0 0)
                             ([Mv0, Mv0, Mv0], ex_affInfo\<lparr> aff_numCand := 0 \<rparr>))
            \<and> aff_numCand ?inh < AMVP_MAX_NUM_CANDS
            \<and> constructedStage ex_macros ex_helpers ?pu REF_PIC_LIST_0 0 ?inh
                  = Inr (ex_affInfo\<lparr> aff_numCand := 0 \<rparr>)
            \<and> aff_numCand (ex_affInfo\<lparr> aff_numCand := 0 \<rparr>) < 2"
    using len mem inh con by simp
  have d1: "\<exists>amvp.
          fillMvpCand ex_macros ex_helpers ?pu REF_PIC_LIST_0 0 (localAMVPInfo ex_macros)
            = Inr amvp
          \<and> affList ?P
              = (2,
                 take (aff_numCand (ex_affInfo\<lparr> aff_numCand := 0 \<rparr>))
                      (mvCandLT (ex_affInfo\<lparr> aff_numCand := 0 \<rparr>))
                   @ map (\<lambda>v. if REMOVE_MV_ADAPT_PREC ex_macros then v
                               else setHighPrec ex_helpers v)
                       (take (2 - aff_numCand (ex_affInfo\<lparr> aff_numCand := 0 \<rparr>)) (mvCand amvp)),
                 take (aff_numCand (ex_affInfo\<lparr> aff_numCand := 0 \<rparr>))
                      (mvCandRT (ex_affInfo\<lparr> aff_numCand := 0 \<rparr>))
                   @ map (\<lambda>v. if REMOVE_MV_ADAPT_PREC ex_macros then v
                               else setHighPrec ex_helpers v)
                       (take (2 - aff_numCand (ex_affInfo\<lparr> aff_numCand := 0 \<rparr>)) (mvCand amvp)),
                 take (aff_numCand (ex_affInfo\<lparr> aff_numCand := 0 \<rparr>))
                      (mvCandLB (ex_affInfo\<lparr> aff_numCand := 0 \<rparr>))
                   @ map (\<lambda>v. if REMOVE_MV_ADAPT_PREC ex_macros then v
                               else setHighPrec ex_helpers v)
                       (take (2 - aff_numCand (ex_affInfo\<lparr> aff_numCand := 0 \<rparr>)) (mvCand amvp)))"
    using T affP d0 by blast
  have d: "affList ?P = (2, [\<lparr> hor = 2, ver = 0, highPrec = False \<rparr>,
                             \<lparr> hor = 0, ver = 0, highPrec = False \<rparr>],
                            [\<lparr> hor = 2, ver = 0, highPrec = False \<rparr>,
                             \<lparr> hor = 0, ver = 0, highPrec = False \<rparr>],
                            [\<lparr> hor = 2, ver = 0, highPrec = False \<rparr>,
                             \<lparr> hor = 0, ver = 0, highPrec = False \<rparr>])"
    using d1 rm by (simp add: loc)
  show ?thesis
    unfolding run fnd runH aff affP con loc
    using a2 a3 a4 b c d lstH lstQ by simp
qed

section \<open>Properties of the best-mode ledger and of the end of a node\<close>

text \<open>
  Claim C3.  Whenever \<open>EncCu::xCheckBestMode\<close> returns, the entropy-coder context
  equals the node's start checkpoint \<open>m_CurrCtx->start\<close>, accepted or not, and no
  coding structure has been copied or changed.  The trial is accepted exactly when
  the provisional structure holds a coding unit and the mode controller says so; then
  the two pointers are exchanged, the context as it was on entry is the new best
  checkpoint and the best-updated flag is set; otherwise pointers, best checkpoint and
  flag are as before.
\<close>

theorem xCheckBestMode_ledger:
  assumes "xCheckBestMode env s (tempCS, bestCS) encTestMode
             = Inr (bestCSUpdated, (tempCS', bestCS'), s')"
  shows "m_CABACEstimator_ctx s' = m_CurrCtx_start s
       \<and> m_CurrCtx_start s' = m_CurrCtx_start s
       \<and> store s' = store s
       \<and> (bestCSUpdated \<longleftrightarrow>
            cs_cus (store s tempCS) \<noteq> []
            \<and> useModeResult env encTestMode (store s tempCS) (store s bestCS))
       \<and> (if bestCSUpdated
          then tempCS' = bestCS \<and> bestCS' = tempCS
               \<and> m_CurrCtx_best s' = m_CABACEstimator_ctx s \<and> m_bestModeUpdated s'
          else tempCS' = tempCS \<and> bestCS' = bestCS
               \<and> m_CurrCtx_best s' = m_CurrCtx_best s
               \<and> m_bestModeUpdated s' = m_bestModeUpdated s)"
  using assms
  by (auto simp: xCheckBestMode_def Let_def split: if_splits)

theorem xCheckBestMode_ledger_witness:
  "xCheckBestMode (ex_encEnv 0) (ex_enc (ex_cs [ex_cu] 5) (ex_cs [ex_cu] 7)) (0, 1) ex_splitMode
     = Inr (True, (1, 0),
            (ex_enc (ex_cs [ex_cu] 5) (ex_cs [ex_cu] 7))
              \<lparr> m_CABACEstimator_ctx := [1, 1, 1], m_CurrCtx_best := [3, 1, 4],
                 m_bestModeUpdated := True \<rparr>)
   \<and> xCheckBestMode (ex_encEnv 0) (ex_enc (ex_cs [ex_cu] 9) (ex_cs [ex_cu] 7)) (0, 1) ex_splitMode
     = Inr (False, (0, 1),
            (ex_enc (ex_cs [ex_cu] 9) (ex_cs [ex_cu] 7)) \<lparr> m_CABACEstimator_ctx := [1, 1, 1] \<rparr>)"
proof -
  have a: "xCheckBestMode (ex_encEnv 0) (ex_enc (ex_cs [ex_cu] 5) (ex_cs [ex_cu] 7)) (0, 1) ex_splitMode
     = Inr (True, (1, 0),
            (ex_enc (ex_cs [ex_cu] 5) (ex_cs [ex_cu] 7))
              \<lparr> m_CABACEstimator_ctx := [1, 1, 1], m_CurrCtx_best := [3, 1, 4],
                 m_bestModeUpdated := True \<rparr>)"
    by (simp add: xCheckBestMode_def ex_encEnv_def ex_enc_def ex_cs_def ex_cu_def
        useModeResult_spec_def)
  have b: "xCheckBestMode (ex_encEnv 0) (ex_enc (ex_cs [ex_cu] 9) (ex_cs [ex_cu] 7)) (0, 1) ex_splitMode
     = Inr (False, (0, 1),
            (ex_enc (ex_cs [ex_cu] 9) (ex_cs [ex_cu] 7)) \<lparr> m_CABACEstimator_ctx := [1, 1, 1] \<rparr>)"
    by (simp add: xCheckBestMode_def ex_encEnv_def ex_enc_def ex_cs_def ex_cu_def
        useModeResult_spec_def)
  from xCheckBestMode_ledger [OF a] xCheckBestMode_ledger [OF b] a b show ?thesis by simp
qed

text \<open>
  The ledger under the controller of the specification: the pointers are exchanged
  exactly when the provisional structure is not empty and strictly cheaper.
\<close>

lemma xCheckBestMode_spec:
  assumes "useModeResult env = useModeResult_spec"
      and "xCheckBestMode env s (tempCS, bestCS) encTestMode = Inr (upd, (tempCS', bestCS'), s')"
  shows "store s' = store s
       \<and> (if cs_cus (store s tempCS) \<noteq> [] \<and> cs_cost (store s tempCS) < cs_cost (store s bestCS)
          then tempCS' = bestCS \<and> bestCS' = tempCS
          else tempCS' = tempCS \<and> bestCS' = bestCS)"
  using assms
  by (auto simp: xCheckBestMode_def Let_def useModeResult_spec_def split: if_splits)

text \<open>
  Claim C2.  With the mode controller's decision as the specification gives it (the
  controller itself is not among the sources), the final ledger call of
  \<open>EncCu::xCheckModeSplit\<close> replaces the node's best structure by the split structure
  only if the split cost, as it stands at the comparison, is strictly lower than the
  best cost; at equal cost the pointers stay as they are and the best structure found
  earlier is kept unchanged.  Here \<open>s4\<close> is the encoder at the moment of the
  comparison, after the split cost and the delta-QP bits have been computed.
\<close>

theorem xCheckModeSplit_strictly_lower:
  assumes spec: "useModeResult env = useModeResult_spec"
      and cost: "splitCost env s (tempCS, bestCS) encTestMode loc = Inr (s4, loc4)"
      and fin: "xCheckModeSplit_finish env s (tempCS, bestCS) encTestMode loc
                  = Inr ((tempCS', bestCS'), s7, loc7)"
      and neq: "tempCS \<noteq> bestCS"
  shows "(bestCS' \<noteq> bestCS \<longrightarrow>
            bestCS' = tempCS \<and> cs_cost (store s4 tempCS) < cs_cost (store s4 bestCS))
       \<and> (cs_cost (store s4 tempCS) = cs_cost (store s4 bestCS) \<longrightarrow>
            tempCS' = tempCS \<and> bestCS' = bestCS \<and> store s7 bestCS = store s4 bestCS)
       \<and> store s7 bestCS' = store s4 bestCS'"
proof -
  from fin cost obtain upd s5 where
    chk: "xCheckBestMode env s4 (tempCS, bestCS) encTestMode = Inr (upd, (tempCS', bestCS'), s5)"
    and s7: "s7 = updStore (s5\<lparr> trace := trace s5
                                @ (if loc_isAffMVInfoSaved loc4 then [AddAffMVInfo] else [])
                                @ (if \<not> loc_sliceIsIntra loc4 \<and> loc_isUniMvInfoSaved loc4
                                   then [AddUniMvInfo] else [])
                                @ [ReleaseIntermediateData] \<rparr>) tempCS'
                          (\<lambda>c. c\<lparr> cs_motionLut := loc_oldMotionLut loc4,
                                   cs_prevPLT := loc_oldPLT loc4,
                                   cs_prevQP := (cs_prevQP c)(loc_chType loc4 := loc_oldPrevQp loc4) \<rparr>)"
    by (auto simp: xCheckModeSplit_finish_def Let_def elim!: ebind_eq_InrE)
  note L = xCheckBestMode_spec [OF spec chk]
  from L have st: "store s5 = store s4" by simp
  from L have ptr: "(if cs_cus (store s4 tempCS) \<noteq> []
             \<and> cs_cost (store s4 tempCS) < cs_cost (store s4 bestCS)
          then tempCS' = bestCS \<and> bestCS' = tempCS
          else tempCS' = tempCS \<and> bestCS' = bestCS)"
    by simp
  from ptr neq have "tempCS' \<noteq> bestCS'" by (auto split: if_splits)
  then have keep: "store s7 bestCS' = store s4 bestCS'"
    by (simp add: s7 updStore_def st)
  from ptr neq keep show ?thesis by (auto split: if_splits)
qed

lemma ex_splitCost:
  "\<exists>s4 loc4. splitCost (ex_encEnv c) (ex_enc (ex_cs [ex_cu] 9) (ex_cs [ex_cu] 7)) (0, 1)
                   ex_splitMode ex_locals = Inr (s4, loc4)
               \<and> cs_cost (store s4 0) = c \<and> cs_cost (store s4 1) = 7"
  by (simp add: splitCost_def ex_encEnv_def ex_enc_def ex_cs_def ex_cu_def ex_locals_def
      ex_splitMode_def updStore_def Let_def MAX_DOUBLE_def)

lemma ex_split_tie:
  "\<exists>s7 loc7. xCheckModeSplit_finish (ex_encEnv 7) (ex_enc (ex_cs [ex_cu] 9) (ex_cs [ex_cu] 7))
                   (0, 1) ex_splitMode ex_locals = Inr ((0, 1), s7, loc7)"
  by (simp add: xCheckModeSplit_finish_def splitCost_def xCheckBestMode_def ex_encEnv_def
      ex_enc_def ex_cs_def ex_cu_def ex_locals_def ex_splitMode_def updStore_def Let_def
      MAX_DOUBLE_def useModeResult_spec_def)

lemma ex_split_lower:
  "\<exists>s7 loc7. xCheckModeSplit_finish (ex_encEnv 6) (ex_enc (ex_cs [ex_cu] 9) (ex_cs [ex_cu] 7))
                   (0, 1) ex_splitMode ex_locals = Inr ((1, 0), s7, loc7)"
  by (simp add: xCheckModeSplit_finish_def splitCost_def xCheckBestMode_def ex_encEnv_def
      ex_enc_def ex_cs_def ex_cu_def ex_locals_def ex_splitMode_def updStore_def Let_def
      MAX_DOUBLE_def useModeResult_spec_def)

theorem xCheckModeSplit_strictly_lower_witness:
  "map_sum id fst (xCheckModeSplit_finish (ex_encEnv 7) (ex_enc (ex_cs [ex_cu] 9) (ex_cs [ex_cu] 7))
                     (0, 1) ex_splitMode ex_locals) = Inr (0, 1)
   \<and> map_sum id fst (xCheckModeSplit_finish (ex_encEnv 6) (ex_enc (ex_cs [ex_cu] 9) (ex_cs [ex_cu] 7))
                     (0, 1) ex_splitMode ex_locals) = Inr (1, 0)"
proof -
  have spec: "useModeResult (ex_encEnv c) = useModeResult_spec" for c
    by (simp add: ex_encEnv_def)
  have neq: "(0::nat) \<noteq> 1" by simp
  obtain s4 loc4 where c7: "splitCost (ex_encEnv 7) (ex_enc (ex_cs [ex_cu] 9) (ex_cs [ex_cu] 7))
        (0, 1) ex_splitMode ex_locals = Inr (s4, loc4)"
    and t7: "cs_cost (store s4 0) = 7" "cs_cost (store s4 1) = 7"
    using ex_splitCost [of 7] by blast
  obtain s4' loc4' where c6: "splitCost (ex_encEnv 6) (ex_enc (ex_cs [ex_cu] 9) (ex_cs [ex_cu] 7))
        (0, 1) ex_splitMode ex_locals = Inr (s4', loc4')"
    and t6: "cs_cost (store s4' 0) = 6" "cs_cost (store s4' 1) = 7"
    using ex_splitCost [of 6] by blast
  obtain s7 loc7 where f7: "xCheckModeSplit_finish (ex_encEnv 7)
        (ex_enc (ex_cs [ex_cu] 9) (ex_cs [ex_cu] 7)) (0, 1) ex_splitMode ex_locals
          = Inr ((0, 1), s7, loc7)"
    using ex_split_tie by blast
  obtain s7' loc7' where f6: "xCheckModeSplit_finish (ex_encEnv 6)
        (ex_enc (ex_cs [ex_cu] 9) (ex_cs [ex_cu] 7)) (0, 1) ex_splitMode ex_locals
          = Inr ((1, 0), s7', loc7')"
    using ex_split_lower by blast
  from xCheckModeSplit_strictly_lower [OF spec c7 f7 neq]
       xCheckModeSplit_strictly_lower [OF spec c6 f6 neq] t7 t6 f7 f6
  show ?thesis by simp
qed

text \<open>
  Claim C9, as stated, at a node where no trial finished: both regions carry the
  sentinel cost, the best region is empty, and \<open>EncCu::xCompressCU\<close> returns normally,
  handing that region to its caller, with no assertion raised.
\<close>

theorem xCompressCU_finish_sentinel_counterexample:
  "cs_cus (store (ex_enc (ex_cs [] MAX_DOUBLE) (ex_cs [] MAX_DOUBLE)) 1) = []
   \<and> cs_cost (store (ex_enc (ex_cs [] MAX_DOUBLE) (ex_cs [] MAX_DOUBLE)) 1) = MAX_DOUBLE
   \<and> xCompressCU_finish ex_node (ex_enc (ex_cs [] MAX_DOUBLE) (ex_cs [] MAX_DOUBLE)) (0, 1)
       = Inr ((ex_enc (ex_cs [] MAX_DOUBLE) (ex_cs [] MAX_DOUBLE))\<lparr> trace := [FinishCULevel] \<rparr>)"
  by (simp add: xCompressCU_finish_def ex_enc_def ex_cs_def)

text \<open>
  Claim C9, amended.  When both the provisional and the best region still carry the
  sentinel cost after the mode loop, \<open>EncCu::xCompressCU\<close> only notifies the mode
  controller and returns normally: nothing is finalised, and the best region, still at
  the sentinel cost, is what the caller finds.  In every other case a best region that
  holds a coding unit and still carries the sentinel cost ends in a failed check and
  never in a normal return: the check is ``No possible encoding found'' unless one of
  the two earlier checks of the finishing code (``wrong chType'', ``Wrong tile
  index!'') fails first.  For an empty best region outside the first case nothing is
  guaranteed: line 992 reads the last unit of the empty list before the checks of
  lines 1046-1048 are reached.
\<close>

theorem xCompressCU_finish_no_encoding:
  "(cs_cost (store s tempCS) = MAX_DOUBLE \<and> cs_cost (store s bestCS) = MAX_DOUBLE
      \<longrightarrow> xCompressCU_finish ne s (tempCS, bestCS) = Inr (s\<lparr> trace := trace s @ [FinishCULevel] \<rparr>))
   \<and> (\<not> (cs_cost (store s tempCS) = MAX_DOUBLE \<and> cs_cost (store s bestCS) = MAX_DOUBLE)
        \<and> cs_cus (store s bestCS) \<noteq> [] \<and> cs_cost (store s bestCS) = MAX_DOUBLE
      \<longrightarrow> xCompressCU_finish ne s (tempCS, bestCS)
            = Inl (CheckFailed
                (if length (cs_cus (store s bestCS)) > 1
                      \<and> cu_chType (last (cs_cus (store s bestCS))) = CHROMA
                      \<and> \<not> cs_isDualITree (store s bestCS)
                      \<and> cu_chType (cs_cus (store s bestCS) ! (length (cs_cus (store s bestCS)) - 2))
                            \<noteq> LUMA
                 then ''wrong chType''
                 else if length (cs_cus (store s bestCS)) = 1
                      \<and> cu_tileIdx (cs_cus (store s bestCS) ! 0) \<noteq> cs_tileIdxOfArea (store s bestCS)
                 then ''Wrong tile index!''
                 else ''No possible encoding found'')))
   \<and> (\<not> (cs_cost (store s tempCS) = MAX_DOUBLE \<and> cs_cost (store s bestCS) = MAX_DOUBLE)
        \<and> cs_cus (store s bestCS) = []
      \<longrightarrow> xCompressCU_finish ne s (tempCS, bestCS)
            = ne_undefinedBehaviour ne (s\<lparr> m_CABACEstimator_ctx := m_CurrCtx_best s \<rparr>))"
proof (intro conjI impI)
  assume "cs_cost (store s tempCS) = MAX_DOUBLE \<and> cs_cost (store s bestCS) = MAX_DOUBLE"
  then show "xCompressCU_finish ne s (tempCS, bestCS) = Inr (s\<lparr> trace := trace s @ [FinishCULevel] \<rparr>)"
    by (simp add: xCompressCU_finish_def)
next
  assume a: "\<not> (cs_cost (store s tempCS) = MAX_DOUBLE \<and> cs_cost (store s bestCS) = MAX_DOUBLE)
        \<and> cs_cus (store s bestCS) \<noteq> [] \<and> cs_cost (store s bestCS) = MAX_DOUBLE"
  then have t: "cs_cost (store s tempCS) \<noteq> MAX_DOUBLE" and c: "cs_cost (store s bestCS) = MAX_DOUBLE"
    and n: "cs_cus (store s bestCS) \<noteq> []"
    by auto
  show "xCompressCU_finish ne s (tempCS, bestCS)
            = Inl (CheckFailed
                (if length (cs_cus (store s bestCS)) > 1
                      \<and> cu_chType (last (cs_cus (store s bestCS))) = CHROMA
                      \<and> \<not> cs_isDualITree (store s bestCS)
                      \<and> cu_chType (cs_cus (store s bestCS) ! (length (cs_cus (store s bestCS)) - 2))
                            \<noteq> LUMA
                 then ''wrong chType''
                 else if length (cs_cus (store s bestCS)) = 1
                      \<and> cu_tileIdx (cs_cus (store s bestCS) ! 0) \<noteq> cs_tileIdxOfArea (store s bestCS)
                 then ''Wrong tile index!''
                 else ''No possible encoding found''))"
    using t c n
    by (auto simp: xCompressCU_finish_def Let_def updStore_def)
next
  assume "\<not> (cs_cost (store s tempCS) = MAX_DOUBLE \<and> cs_cost (store s bestCS) = MAX_DOUBLE)
        \<and> cs_cus (store s bestCS) = []"
  then show "xCompressCU_finish ne s (tempCS, bestCS)
            = ne_undefinedBehaviour ne (s\<lparr> m_CABACEstimator_ctx := m_CurrCtx_best s \<rparr>)"
    by (auto simp: xCompressCU_finish_def Let_def)
qed

theorem xCompressCU_finish_no_encoding_witness:
  "xCompressCU_finish ex_node (ex_enc (ex_cs [] MAX_DOUBLE) (ex_cs [ex_cu] MAX_DOUBLE)) (0, 1)
       = Inr ((ex_enc (ex_cs [] MAX_DOUBLE) (ex_cs [ex_cu] MAX_DOUBLE))\<lparr> trace := [FinishCULevel] \<rparr>)
   \<and> xCompressCU_finish ex_node (ex_enc (ex_cs [ex_cu] 5) (ex_cs [ex_cu] MAX_DOUBLE)) (0, 1)
       = Inl (CheckFailed ''No possible encoding found'')
   \<and> xCompressCU_finish ex_node (ex_enc (ex_cs [ex_cu] 5) (ex_cs [] 3)) (0, 1)
       = ne_undefinedBehaviour ex_node
           ((ex_enc (ex_cs [ex_cu] 5) (ex_cs [] 3))\<lparr> m_CABACEstimator_ctx := [2, 2, 2] \<rparr>)"
  using xCompressCU_finish_no_encoding
         [of "ex_enc (ex_cs [] MAX_DOUBLE) (ex_cs [ex_cu] MAX_DOUBLE)" 0 1 ex_node]
       xCompressCU_finish_no_encoding
         [of "ex_enc (ex_cs [ex_cu] 5) (ex_cs [ex_cu] MAX_DOUBLE)" 0 1 ex_node]
       xCompressCU_finish_no_encoding [of "ex_enc (ex_cs [ex_cu] 5) (ex_cs [] 3)" 0 1 ex_node]
  by (simp add: ex_enc_def ex_cs_def ex_cu_def MAX_DOUBLE_def)

section \<open>Properties of the merge candidate list\<close>

subsection \<open>What the steps keep\<close>

lemma stageInv_ContinueI:
  "numValidMergeCand (ms_ctx st) = numValidMergeCand c0 \<Longrightarrow>
   (\<And>i. \<not> A i \<Longrightarrow> mrgTypeNeighbours (ms_ctx st) ! i = mrgTypeNeighbours c0 ! i) \<Longrightarrow>
   ms_cnt st < mx \<Longrightarrow> stageInv mx c0 A (Continue st)"
  by (simp add: stageInv_def flowCtx_def flowCnt_def)

lemma stageInv_ReturnI:
  "numValidMergeCand c = numValidMergeCand c0 \<Longrightarrow>
   (\<And>i. \<not> A i \<Longrightarrow> mrgTypeNeighbours c ! i = mrgTypeNeighbours c0 ! i) \<Longrightarrow>
   stageInv mx c0 A (Return c)"
  by (simp add: stageInv_def flowCtx_def flowCnt_def)

lemma stageInv_ContinueD:
  "stageInv mx c0 A (Continue st) \<Longrightarrow>
   numValidMergeCand (ms_ctx st) = numValidMergeCand c0
   \<and> (\<forall>i. \<not> A i \<longrightarrow> mrgTypeNeighbours (ms_ctx st) ! i = mrgTypeNeighbours c0 ! i)
   \<and> ms_cnt st < mx"
  by (simp add: stageInv_def flowCtx_def flowCnt_def)

lemma stageInv_same_ctx:
  "stageInv mx c0 A (Continue st) \<Longrightarrow> ms_ctx st' = ms_ctx st \<Longrightarrow> ms_cnt st' = ms_cnt st
   \<Longrightarrow> stageInv mx c0 A (Continue st')"
  by (simp add: stageInv_def flowCtx_def flowCnt_def)

lemma thenStage_inv:
  assumes "thenStage r S = Inr f"
      and "\<And>f0. r = Inr f0 \<Longrightarrow> stageInv mx c0 A f0"
      and "\<And>st. stageInv mx c0 A (Continue st) \<Longrightarrow> S st = Inr f \<Longrightarrow> stageInv mx c0 A f"
  shows "stageInv mx c0 A f"
  using assms by (auto simp: thenStage_def split: sum.splits flow.splits)

text \<open>A step that stores at most one candidate and then tests for a full list.\<close>

lemma counted_inv:
  assumes r: "thenStage r (earlyTermination mx) = Inr f"
      and inv: "stageInv mx c0 A (Continue st)"
      and r0: "\<And>f0. r = Inr f0 \<Longrightarrow>
                 numValidMergeCand (flowCtx f0) = numValidMergeCand (ms_ctx st)
                 \<and> mrgTypeNeighbours (flowCtx f0) = mrgTypeNeighbours (ms_ctx st)
                 \<and> (case flowCnt f0 of None \<Rightarrow> True | Some n \<Rightarrow> n \<le> ms_cnt st + 1)"
  shows "stageInv mx c0 A f"
proof (cases r)
  case (Inl e)
  with r show ?thesis by (simp add: thenStage_def)
next
  case (Inr f0)
  note k = r0 [OF Inr] and D = stageInv_ContinueD [OF inv]
  show ?thesis
  proof (cases f0)
    case (Return c)
    with r Inr k D show ?thesis
      by (auto simp: thenStage_def stageInv_def flowCtx_def flowCnt_def)
  next
    case (Continue st')
    with r Inr k D show ?thesis
      by (auto simp: thenStage_def earlyTermination_def stageInv_def flowCtx_def flowCnt_def
          split: if_splits)
  qed
qed

lemma putSpatial_keeps [simp]:
  "numValidMergeCand (ms_ctx (putSpatial m pu st npu mi)) = numValidMergeCand (ms_ctx st)"
  "mrgTypeNeighbours (ms_ctx (putSpatial m pu st npu mi)) = mrgTypeNeighbours (ms_ctx st)"
  "ms_cnt (putSpatial m pu st npu mi) = ms_cnt st"
  by (simp_all add: putSpatial_def Let_def)

lemma fastExitOrCount_keeps:
  assumes "fastExitOrCount pu idx st = Inr f0"
  shows "flowCtx f0 = ms_ctx st
         \<and> (case flowCnt f0 of None \<Rightarrow> True | Some n \<Rightarrow> n \<le> ms_cnt st + 1)"
  using assms by (auto simp: fastExitOrCount_def flowCtx_def flowCnt_def split: if_splits)

lemma stageA1_inv:
  assumes "stageInv (sl_maxNumMergeCand (pu_slice pu)) c0 A (Continue st)"
      and "stageA1 m h pu idx st = Inr f"
  shows "stageInv (sl_maxNumMergeCand (pu_slice pu)) c0 A f"
  using assms(2) unfolding stageA1_def Let_def
  by (rule counted_inv [OF _ assms(1)])
     (auto simp: flowCtx_def flowCnt_def dest!: fastExitOrCount_keeps split: option.splits if_splits)

lemma stageB1_inv:
  assumes "stageInv (sl_maxNumMergeCand (pu_slice pu)) c0 A (Continue st)"
      and "stageB1 m h pu idx st = Inr f"
  shows "stageInv (sl_maxNumMergeCand (pu_slice pu)) c0 A f"
  using assms(2) unfolding stageB1_def Let_def
  by (rule counted_inv [OF _ assms(1)])
     (auto simp: flowCtx_def flowCnt_def dest!: fastExitOrCount_keeps split: option.splits if_splits)

lemma stageB0_inv:
  assumes "stageInv (sl_maxNumMergeCand (pu_slice pu)) c0 A (Continue st)"
      and "stageB0 m h pu idx st = Inr f"
  shows "stageInv (sl_maxNumMergeCand (pu_slice pu)) c0 A f"
  using assms(2) unfolding stageB0_def Let_def
  by (rule counted_inv [OF _ assms(1)])
     (auto simp: flowCtx_def flowCnt_def dest!: fastExitOrCount_keeps split: option.splits if_splits)

lemma stageA0_inv:
  assumes "stageInv (sl_maxNumMergeCand (pu_slice pu)) c0 A (Continue st)"
      and "stageA0 m h pu idx st = Inr f"
  shows "stageInv (sl_maxNumMergeCand (pu_slice pu)) c0 A f"
  using assms(2) unfolding stageA0_def Let_def
  by (rule counted_inv [OF _ assms(1)])
     (auto simp: flowCtx_def flowCnt_def dest!: fastExitOrCount_keeps split: option.splits if_splits)

lemma stageB2_inv:
  assumes "stageInv (sl_maxNumMergeCand (pu_slice pu)) c0 A (Continue st)"
      and "stageB2 m h pu idx st = Inr f"
  shows "stageInv (sl_maxNumMergeCand (pu_slice pu)) c0 A f"
  using assms(2) unfolding stageB2_def Let_def
  by (rule counted_inv [OF _ assms(1)])
     (auto simp: flowCtx_def flowCnt_def dest!: fastExitOrCount_keeps split: option.splits if_splits)

lemma spatialStages_inv:
  assumes "stageInv (sl_maxNumMergeCand (pu_slice pu)) c0 A (Continue st)"
      and "spatialStages m h pu idx st = Inr f"
  shows "stageInv (sl_maxNumMergeCand (pu_slice pu)) c0 A f"
  using assms(2) unfolding spatialStages_def
  by (elim thenStage_inv stageA0_inv stageB0_inv stageB1_inv stageA1_inv [OF assms(1)])


lemma storeSubPu_keeps [simp]:
  "numValidMergeCand (storeSubPu m c cnt res) = numValidMergeCand c"
  "mrgTypeNeighbours (storeSubPu m c cnt res) = mrgTypeNeighbours c"
  by (simp_all add: storeSubPu_def)

text \<open>
  The sub-block temporal step changes the candidate types only by marking the index
  \<open>cnt\<close>, and only when the three switches are on and the derivation called on the
  list built so far reports a candidate.
\<close>

lemma stageSubPu_types:
  assumes r: "stageSubPu m h pu idx st = Inr f"
  shows "mrgTypeNeighbours (flowCtx f) = mrgTypeNeighbours (ms_ctx st)
       \<or> (sps_useSubPuMvp pu \<and> sps_useATMVP pu \<and> sl_enableTMVPFlag (pu_slice pu)
          \<and> (\<exists>res. pu_getInterMergeSubPuMvpCand pu (ms_ctx st) (ms_cnt st) = Inr res \<and> sp_found res)
          \<and> mrgTypeNeighbours (flowCtx f)
              = (mrgTypeNeighbours (ms_ctx st))[ms_cnt st := MRG_TYPE_SUBPU_ATMVP])"
proof (cases "sps_useSubPuMvp pu \<and> sl_enableTMVPFlag (pu_slice pu) \<and> sps_useATMVP pu")
  case False
  then have "f = Continue st" using r
    by (auto simp: stageSubPu_def Let_def split: if_splits)
  then show ?thesis by (simp add: flowCtx_def)
next
  case True
  then obtain res where o: "pu_getInterMergeSubPuMvpCand pu (ms_ctx st) (ms_cnt st) = Inr res"
    using r by (auto simp: stageSubPu_def Let_def split: if_splits elim!: ebind_eq_InrE)
  show ?thesis
  proof (cases "sp_found res")
    case False
    then have "f = Continue (st\<lparr> ms_ctx := storeSubPu m (ms_ctx st) (ms_cnt st) res \<rparr>)"
      using r True o by (auto simp: stageSubPu_def Let_def split: if_splits)
    then show ?thesis by (simp add: flowCtx_def)
  next
    case found: True
    have "mrgTypeNeighbours (flowCtx f)
            = (mrgTypeNeighbours (ms_ctx st))[ms_cnt st := MRG_TYPE_SUBPU_ATMVP]"
      using r True o found
      by (auto simp: stageSubPu_def Let_def earlyTermination_def flowCtx_def split: if_splits)
    then show ?thesis using True o found by auto
  qed
qed

lemma stageSubPu_inv:
  assumes inv: "stageInv (sl_maxNumMergeCand (pu_slice pu)) c0 (\<lambda>i. True) (Continue st)"
      and r: "stageSubPu m h pu idx st = Inr f"
  shows "stageInv (sl_maxNumMergeCand (pu_slice pu)) c0 (\<lambda>i. True) f"
proof -
  note D = stageInv_ContinueD [OF inv]
  show ?thesis
  proof (cases "sps_useSubPuMvp pu \<and> sl_enableTMVPFlag (pu_slice pu) \<and> sps_useATMVP pu")
    case False
    then have "f = Continue st" using r
      by (auto simp: stageSubPu_def Let_def split: if_splits)
    then show ?thesis using inv by simp
  next
    case True
    then obtain res where o: "pu_getInterMergeSubPuMvpCand pu (ms_ctx st) (ms_cnt st) = Inr res"
      using r by (auto simp: stageSubPu_def Let_def split: if_splits elim!: ebind_eq_InrE)
    show ?thesis using r True o D
      by (auto simp: stageSubPu_def Let_def earlyTermination_def stageInv_def flowCtx_def
          flowCnt_def split: if_splits)
  qed
qed

lemma stageTemporal_inv:
  assumes "stageInv (sl_maxNumMergeCand (pu_slice pu)) c0 A (Continue st)"
      and "stageTemporal m h pu idx st = Inr f"
  shows "stageInv (sl_maxNumMergeCand (pu_slice pu)) c0 A f"
  using assms(2) unfolding stageTemporal_def Let_def
  by (rule counted_inv [OF _ assms(1)])
     (auto simp: flowCtx_def flowCnt_def dest!: fastExitOrCount_keeps
        split: option.splits if_splits elim!: ebind_eq_InrE)


lemma pairAvgList_keeps [simp]:
  "numValidMergeCand (fst (pairAvgList m h pu i j cnt l ci)) = numValidMergeCand (fst ci)"
  "mrgTypeNeighbours (fst (pairAvgList m h pu i j cnt l ci)) = mrgTypeNeighbours (fst ci)"
  by (cases ci; simp add: pairAvgList_def Let_def)+

lemma fold_pairAvgList_keeps [simp]:
  "numValidMergeCand (fst (fold (pairAvgList m h pu i j cnt) ls ci)) = numValidMergeCand (fst ci)"
  "mrgTypeNeighbours (fst (fold (pairAvgList m h pu i j cnt) ls ci)) = mrgTypeNeighbours (fst ci)"
  by (induction ls arbitrary: ci) simp_all

lemma pairwiseBody_keeps:
  "numValidMergeCand (fst (pairwiseBody m h pu idx ccnt)) = numValidMergeCand (fst ccnt)
   \<and> mrgTypeNeighbours (fst (pairwiseBody m h pu idx ccnt)) = mrgTypeNeighbours (fst ccnt)
   \<and> snd ccnt \<le> snd (pairwiseBody m h pu idx ccnt)
   \<and> snd (pairwiseBody m h pu idx ccnt) \<le> snd ccnt + 1"
  by (cases ccnt) (simp add: pairwiseBody_def Let_def)

lemma pairwiseLoop_keeps:
  "snd ccnt \<le> mx \<Longrightarrow>
   numValidMergeCand (fst (pairwiseLoop m h pu mx e idx ccnt)) = numValidMergeCand (fst ccnt)
   \<and> mrgTypeNeighbours (fst (pairwiseLoop m h pu mx e idx ccnt)) = mrgTypeNeighbours (fst ccnt)
   \<and> snd ccnt \<le> snd (pairwiseLoop m h pu mx e idx ccnt)
   \<and> snd (pairwiseLoop m h pu mx e idx ccnt) \<le> mx"
proof (induction m h pu mx e idx ccnt rule: pairwiseLoop.induct)
  case (1 m h pu mx e idx ccnt)
  show ?case
  proof (cases "idx < e \<and> snd ccnt \<noteq> mx")
    case False
    then have "pairwiseLoop m h pu mx e idx ccnt = ccnt"
      by (subst pairwiseLoop.simps) auto
    then show ?thesis using "1.prems" by simp
  next
    case True
    note B = pairwiseBody_keeps [of m h pu idx ccnt]
    have le: "snd (pairwiseBody m h pu idx ccnt) \<le> mx" using True "1.prems" B by simp
    note IH = "1.IH" [OF True le]
    have u: "pairwiseLoop m h pu mx e idx ccnt
               = pairwiseLoop m h pu mx e (idx + 1) (pairwiseBody m h pu idx ccnt)"
      using True by (subst pairwiseLoop.simps) simp
    show ?thesis unfolding u using IH B by simp
  qed
qed

lemma combinedBody_keeps:
  assumes "combinedBody m h pu idx s = Inr s'"
  shows "numValidMergeCand (fst s') = numValidMergeCand (fst s)
       \<and> mrgTypeNeighbours (fst s') = mrgTypeNeighbours (fst s)
       \<and> snd (snd s) \<le> snd (snd s') \<and> snd (snd s') \<le> snd (snd s) + 1"
  using assms
  by (cases s) (auto simp: combinedBody_def Let_def setMvField_def split: if_splits)

lemma combinedLoop_keeps:
  "combinedLoop m h pu mx limit idx s = Inr s' \<Longrightarrow> snd (snd s) \<le> mx \<Longrightarrow>
   numValidMergeCand (fst s') = numValidMergeCand (fst s)
   \<and> mrgTypeNeighbours (fst s') = mrgTypeNeighbours (fst s)
   \<and> snd (snd s) \<le> snd (snd s') \<and> snd (snd s') \<le> mx"
proof (induction m h pu mx limit idx s rule: combinedLoop.induct)
  case (1 m h pu mx limit idx s)
  show ?case
  proof (cases "idx < limit \<and> snd (snd s) \<noteq> mx")
    case False
    then have "combinedLoop m h pu mx limit idx s = Inr s"
      by (subst combinedLoop.simps) auto
    then have "s' = s" using "1.prems"(1) by simp
    then show ?thesis using "1.prems"(2) by simp
  next
    case True
    then obtain s1 where b: "combinedBody m h pu idx s = Inr s1"
      and l: "combinedLoop m h pu mx limit (idx + 1) s1 = Inr s'"
      using "1.prems"(1) by (subst (asm) combinedLoop.simps) (auto split: sum.splits)
    note B = combinedBody_keeps [OF b]
    have le: "snd (snd s1) \<le> mx" using True "1.prems"(2) B by simp
    from "1.IH" [OF True b l le] B show ?thesis by simp
  qed
qed

lemma zeroFillBody_keeps:
  "numValidMergeCand (fst (zeroFillBody m pu N s)) = numValidMergeCand (fst s)
   \<and> mrgTypeNeighbours (fst (zeroFillBody m pu N s)) = mrgTypeNeighbours (fst s)
   \<and> fst (snd (snd (zeroFillBody m pu N s))) = fst (snd (snd s)) + 1"
  by (cases s) (simp add: zeroFillBody_def Let_def)

lemma zeroFill_keeps:
  "fst (snd (snd s)) \<le> mx \<Longrightarrow>
   numValidMergeCand (fst (zeroFill m pu mx N s)) = numValidMergeCand (fst s)
   \<and> mrgTypeNeighbours (fst (zeroFill m pu mx N s)) = mrgTypeNeighbours (fst s)
   \<and> fst (snd (snd (zeroFill m pu mx N s))) = mx"
proof (induction m pu mx N s rule: zeroFill.induct)
  case (1 m pu mx N s)
  show ?case
  proof (cases "fst (snd (snd s)) < mx")
    case False
    then have "zeroFill m pu mx N s = s"
      by (subst zeroFill.simps) auto
    then show ?thesis using False "1.prems" by simp
  next
    case True
    note B = zeroFillBody_keeps [of m pu N s]
    have le: "fst (snd (snd (zeroFillBody m pu N s))) \<le> mx" using True B by simp
    have u: "zeroFill m pu mx N s = zeroFill m pu mx N (zeroFillBody m pu N s)"
      using True by (subst zeroFill.simps) simp
    show ?thesis unfolding u using "1.IH" [OF True le] B by simp
  qed
qed

lemma zeroFillStage_keeps:
  assumes "a \<le> sl_maxNumMergeCand (pu_slice pu)"
  shows "numValidMergeCand (zeroFillStage m pu c ici a) = sl_maxNumMergeCand (pu_slice pu)
       \<and> mrgTypeNeighbours (zeroFillStage m pu c ici a) = mrgTypeNeighbours c"
  using zeroFill_keeps [of "(c, ici, a, 0, 0)" "sl_maxNumMergeCand (pu_slice pu)" m pu] assms
  by (simp add: zeroFillStage_def Let_def)

lemma stageTail_inv:
  assumes inv: "stageInv (sl_maxNumMergeCand (pu_slice pu)) c0 A (Continue st)"
      and c0: "numValidMergeCand c0 = sl_maxNumMergeCand (pu_slice pu)"
      and r: "stageTail m h pu st = Inr f"
  shows "stageInv (sl_maxNumMergeCand (pu_slice pu)) c0 A f"
proof -
  let ?mx = "sl_maxNumMergeCand (pu_slice pu)"
  note D = stageInv_ContinueD [OF inv]
  show ?thesis
  proof (cases "JVET_L0090_PAIR_AVG m")
    case True
    define ccnt where "ccnt = pairwiseLoop m h pu ?mx (min (ms_cnt st) 4 * (min (ms_cnt st) 4 - 1) div 2)
                                0 (ms_ctx st, ms_cnt st)"
    have P: "numValidMergeCand (fst ccnt) = numValidMergeCand (ms_ctx st)
             \<and> mrgTypeNeighbours (fst ccnt) = mrgTypeNeighbours (ms_ctx st)
             \<and> snd ccnt \<le> ?mx"
      unfolding ccnt_def
      using pairwiseLoop_keeps [of "(ms_ctx st, ms_cnt st)" ?mx m h pu] D by simp
    have f: "f = (if snd ccnt = ?mx then Return (fst ccnt)
                  else Return (zeroFillStage m pu (fst ccnt) (ms_isCandInter st) (snd ccnt)))"
      using r True by (simp add: stageTail_def Let_def ccnt_def split: if_splits)
    show ?thesis
      using P D c0 zeroFillStage_keeps [of "snd ccnt" pu m "fst ccnt" "ms_isCandInter st"]
      by (simp add: f stageInv_def flowCtx_def flowCnt_def)
  next
    case False
    obtain c ici a where
      l: "(if sl_isInterB (pu_slice pu)
           then combinedLoop m h pu ?mx (min (ms_cnt st) 4 * (min (ms_cnt st) 4 - 1)) 0
                  (ms_ctx st, ms_isCandInter st, ms_cnt st)
           else Inr (ms_ctx st, ms_isCandInter st, ms_cnt st)) = Inr (c, ici, a)"
      and f: "f = (if a = ?mx then Return c else Return (zeroFillStage m pu c ici a))"
      using r False
      by (auto simp: stageTail_def Let_def split: if_splits elim!: ebind_eq_InrE)
    have P: "numValidMergeCand c = numValidMergeCand (ms_ctx st)
             \<and> mrgTypeNeighbours c = mrgTypeNeighbours (ms_ctx st) \<and> a \<le> ?mx"
    proof (cases "sl_isInterB (pu_slice pu)")
      case True
      with l combinedLoop_keeps [of m h pu ?mx _ 0 "(ms_ctx st, ms_isCandInter st, ms_cnt st)"
          "(c, ici, a)"] D
      show ?thesis by simp
    next
      case False
      with l D show ?thesis by auto
    qed
    show ?thesis
      using P D c0 zeroFillStage_keeps [of a pu m c ici]
      by (simp add: f stageInv_def flowCtx_def flowCnt_def)
  qed
qed


lemma initMergeCtx_numValid [simp]: "numValidMergeCand (initMergeCtx m n c) = n"
  by (simp add: initMergeCtx_def)

lemma initMergeCtx_fold:
  "length (mrgTypeNeighbours (fold (initEntry m) [0 ..< n] c)) = length (mrgTypeNeighbours c)
   \<and> length (interDirNeighbours (fold (initEntry m) [0 ..< n] c)) = length (interDirNeighbours c)
   \<and> length (mvFieldNeighbours (fold (initEntry m) [0 ..< n] c)) = length (mvFieldNeighbours c)
   \<and> subPuMvpMiBuf_allocated (fold (initEntry m) [0 ..< n] c) = subPuMvpMiBuf_allocated c
   \<and> (\<forall>i. i < n \<longrightarrow> i < length (mrgTypeNeighbours c) \<longrightarrow>
         mrgTypeNeighbours (fold (initEntry m) [0 ..< n] c) ! i = MRG_TYPE_DEFAULT_N)
   \<and> (\<forall>i. n \<le> i \<longrightarrow>
         mrgTypeNeighbours (fold (initEntry m) [0 ..< n] c) ! i = mrgTypeNeighbours c ! i)"
  by (induction n) (auto simp: initEntry_def nth_list_update less_Suc_eq)

lemma initMergeCtx_lengths [simp]:
  "length (mrgTypeNeighbours (initMergeCtx m n c)) = length (mrgTypeNeighbours c)"
  "length (interDirNeighbours (initMergeCtx m n c)) = length (interDirNeighbours c)"
  "length (mvFieldNeighbours (initMergeCtx m n c)) = length (mvFieldNeighbours c)"
  "subPuMvpMiBuf_allocated (initMergeCtx m n c) = subPuMvpMiBuf_allocated c"
  using initMergeCtx_fold [of m n c] by (simp_all add: initMergeCtx_def)

lemma initMergeCtx_types:
  "i < n \<Longrightarrow> i < length (mrgTypeNeighbours c) \<Longrightarrow>
   mrgTypeNeighbours (initMergeCtx m n c) ! i = MRG_TYPE_DEFAULT_N"
  using initMergeCtx_fold [of m n c] by (simp add: initMergeCtx_def)

lemma initMergeCtx_types_above:
  "n \<le> i \<Longrightarrow> mrgTypeNeighbours (initMergeCtx m n c) ! i = mrgTypeNeighbours c ! i"
  using initMergeCtx_fold [of m n c] by (simp add: initMergeCtx_def)

lemma mergeStages_inv:
  assumes mx: "1 \<le> sl_maxNumMergeCand (pu_slice pu)"
      and r: "mergeStages m h pu mrgCtx idx = Inr f"
  shows "stageInv (sl_maxNumMergeCand (pu_slice pu))
           (initMergeCtx m (sl_maxNumMergeCand (pu_slice pu)) mrgCtx) (\<lambda>i. True) f"
proof -
  let ?mx = "sl_maxNumMergeCand (pu_slice pu)"
  let ?init = "initMergeCtx m ?mx mrgCtx"
  have s0: "stageInv ?mx ?init (\<lambda>i. True) (Continue (startState m pu mrgCtx))"
    using mx by (simp add: stageInv_def flowCtx_def flowCnt_def startState_def)
  have c0: "numValidMergeCand ?init = ?mx" by simp
  show ?thesis
    using r unfolding mergeStages_def
    by (elim thenStage_inv stageTail_inv [OF _ c0] stageTemporal_inv stageB2_inv
        stageSubPu_inv spatialStages_inv [OF s0])
qed

text \<open>The steps after the sub-block temporal one leave the candidate types alone.\<close>

lemma laterStages_types:
  assumes inv: "stageInv (sl_maxNumMergeCand (pu_slice pu)) c0 (\<lambda>i. True) f2"
      and c0: "numValidMergeCand c0 = sl_maxNumMergeCand (pu_slice pu)"
      and r: "thenStage (thenStage (thenStage (Inr f2) (stageB2 m h pu idx))
                 (stageTemporal m h pu idx)) (stageTail m h pu) = Inr f"
  shows "mrgTypeNeighbours (flowCtx f) ! i = mrgTypeNeighbours (flowCtx f2) ! i"
proof -
  let ?mx = "sl_maxNumMergeCand (pu_slice pu)"
  have s2: "stageInv ?mx (flowCtx f2) (\<lambda>i. False) f2"
    using inv by (simp add: stageInv_def)
  have n2: "numValidMergeCand (flowCtx f2) = ?mx"
    using inv c0 by (simp add: stageInv_def)
  have "stageInv ?mx (flowCtx f2) (\<lambda>i. False) f"
    using r
    by (elim thenStage_inv stageTail_inv [OF _ n2] stageTemporal_inv stageB2_inv)
       (simp add: s2)
  then show ?thesis by (simp add: stageInv_def)
qed

lemma getInterMergeCandidates_flow:
  assumes "getInterMergeCandidates m h pu mrgCtx idx = Inr c"
  obtains f where "mergeStages m h pu mrgCtx idx = Inr f" and "c = flowCtx f"
  using assms
  by (auto simp: getInterMergeCandidates_def flowCtx_def split: sum.splits flow.splits)


subsection \<open>The claims on the count and on the sub-block temporal candidate\<close>

text \<open>
  Claim C1, as stated, for a P slice with one reference picture, a signalled maximum
  of two candidates, no available neighbour and no temporal candidate: the list is
  completed by two zero-motion fills, so the candidates 0 and 1, both below
  \<open>numValidMergeCand = 2\<close>, are the same tuple.
\<close>

theorem getInterMergeCandidates_duplicates_counterexample:
  "map_sum id (\<lambda>c. (numValidMergeCand c, mergeCand c 0, mergeCand c 1))
     (getInterMergeCandidates ex_macros ex_helpers
        (ex_pu (ex_mrgSlice 2 1 False) (\<lambda>p. None)) ex_mrgCtx (-1))
   = Inr (2, (1, \<lparr> mf_mv = Mv0, mf_refIdx = 0 \<rparr>, \<lparr> mf_mv = Mv0, mf_refIdx = -1 \<rparr>),
             (1, \<lparr> mf_mv = Mv0, mf_refIdx = 0 \<rparr>, \<lparr> mf_mv = Mv0, mf_refIdx = -1 \<rparr>))"
  by code_simp

text \<open>
  Claim C1, amended.  When the signalled maximum is at least 1, every list that
  \<open>PU::getInterMergeCandidates\<close> returns has \<open>numValidMergeCand\<close> equal to the signalled
  maximum, hence within \<open>0 \<le> numValidMergeCand \<le> getMaxNumMergeCand()\<close>.  (Nothing is
  said about the candidates being distinct: the zero-motion fills may repeat.)
\<close>

theorem getInterMergeCandidates_count:
  assumes "1 \<le> sl_maxNumMergeCand (pu_slice pu)"
      and "getInterMergeCandidates m h pu mrgCtx mrgCandIdx = Inr c"
  shows "numValidMergeCand c = sl_maxNumMergeCand (pu_slice pu)
         \<and> numValidMergeCand c \<le> sl_maxNumMergeCand (pu_slice pu)"
proof -
  from assms(2) obtain f where f: "mergeStages m h pu mrgCtx mrgCandIdx = Inr f"
    and c: "c = flowCtx f" by (rule getInterMergeCandidates_flow)
  from mergeStages_inv [OF assms(1) f] show ?thesis
    by (simp add: stageInv_def c)
qed

theorem getInterMergeCandidates_count_witness:
  "(1 :: nat) \<le> 6
   \<and> map_sum id numValidMergeCand
       (getInterMergeCandidates ex_macros ex_helpers (ex_pu (ex_mrgSlice 6 2 True) ex_fourSpatial) ex_mrgCtx (-1)) = Inr 6"
proof -
  have "case getInterMergeCandidates ex_macros ex_helpers (ex_pu (ex_mrgSlice 6 2 True) ex_fourSpatial) ex_mrgCtx (-1) of
          Inl e \<Rightarrow> False | Inr c \<Rightarrow> True"
    by code_simp
  then obtain c where c: "getInterMergeCandidates ex_macros ex_helpers (ex_pu (ex_mrgSlice 6 2 True) ex_fourSpatial) ex_mrgCtx (-1) = Inr c"
    by (auto split: sum.splits)
  have mx: "sl_maxNumMergeCand (pu_slice (ex_pu (ex_mrgSlice 6 2 True) ex_fourSpatial)) = 6"
    by (simp add: ex_pu_def ex_mrgSlice_def)
  from getInterMergeCandidates_count [OF _ c] mx c show ?thesis by simp
qed

text \<open>
  Claim C7, as stated, for a block whose four spatial neighbours A1, B1, B0 and A0 all
  give a candidate, with a signalled maximum of six and the feature enabled: after the
  four spatial steps the list holds four candidates, not fewer, and the sub-block
  temporal candidate is inserted all the same, at index 4.
\<close>

theorem getInterMergeCandidates_atmvp_counterexample:
  "map_sum id flowCnt
     (spatialStages ex_macros ex_helpers (ex_pu (ex_mrgSlice 6 2 True) ex_fourSpatial) (-1) (startState ex_macros (ex_pu (ex_mrgSlice 6 2 True) ex_fourSpatial) ex_mrgCtx))
     = Inr (Some 4)
   \<and> map_sum id (\<lambda>c. mrgTypeNeighbours c ! 4)
       (getInterMergeCandidates ex_macros ex_helpers (ex_pu (ex_mrgSlice 6 2 True) ex_fourSpatial) ex_mrgCtx (-1))
     = Inr MRG_TYPE_SUBPU_ATMVP"
  by code_simp

text \<open>
  Claim C7, amended.  Let the signalled maximum be at least 1 and \<open>i\<close> an index of the
  type array that is below the maximum, or at which the caller's context did not hold
  the sub-block type already.  If candidate \<open>i\<close> of the list that
  \<open>PU::getInterMergeCandidates\<close> returns is of the sub-block temporal type, then
  sub-block motion prediction and ATMVP are enabled for the sequence, temporal motion
  prediction is enabled for the slice, the four spatial steps ended with exactly \<open>i\<close>
  candidates counted and the list not yet full, and \<open>getInterMergeSubPuMvpCand\<close>,
  called on the list built by those steps, reported a candidate.  The number of
  spatial candidates is tested against the maximum only, not against 4.
\<close>

theorem getInterMergeCandidates_atmvp_only_if:
  assumes r: "getInterMergeCandidates m h pu mrgCtx mrgCandIdx = Inr c"
      and mx: "1 \<le> sl_maxNumMergeCand (pu_slice pu)"
      and i: "i < length (mrgTypeNeighbours mrgCtx)"
      and fresh: "i < sl_maxNumMergeCand (pu_slice pu)
                  \<or> mrgTypeNeighbours mrgCtx ! i \<noteq> MRG_TYPE_SUBPU_ATMVP"
      and t: "mrgTypeNeighbours c ! i = MRG_TYPE_SUBPU_ATMVP"
  shows "sps_useSubPuMvp pu \<and> sps_useATMVP pu \<and> sl_enableTMVPFlag (pu_slice pu)
         \<and> (\<exists>st res. spatialStages m h pu mrgCandIdx (startState m pu mrgCtx) = Inr (Continue st)
                \<and> ms_cnt st = i
                \<and> ms_cnt st < sl_maxNumMergeCand (pu_slice pu)
                \<and> pu_getInterMergeSubPuMvpCand pu (ms_ctx st) (ms_cnt st) = Inr res
                \<and> sp_found res)"
proof -
  let ?mx = "sl_maxNumMergeCand (pu_slice pu)"
  let ?init = "initMergeCtx m ?mx mrgCtx"
  let ?start = "startState m pu mrgCtx"
  from r obtain f where f: "mergeStages m h pu mrgCtx mrgCandIdx = Inr f"
    and c: "c = flowCtx f" by (rule getInterMergeCandidates_flow)
  have init: "mrgTypeNeighbours ?init ! i \<noteq> MRG_TYPE_SUBPU_ATMVP"
  proof (cases "i < ?mx")
    case True
    then show ?thesis using i by (simp add: initMergeCtx_types)
  next
    case False
    then show ?thesis using fresh by (simp add: initMergeCtx_types_above)
  qed
  have c0: "numValidMergeCand ?init = ?mx" by simp
  have sF: "stageInv ?mx ?init (\<lambda>i. False) (Continue ?start)"
    using mx by (simp add: stageInv_def flowCtx_def flowCnt_def startState_def)
  have sT: "stageInv ?mx ?init (\<lambda>i. True) (Continue ?start)"
    using mx by (simp add: stageInv_def flowCtx_def flowCnt_def startState_def)
  obtain f1 where f1: "spatialStages m h pu mrgCandIdx ?start = Inr f1"
    using f by (cases "spatialStages m h pu mrgCandIdx ?start")
               (simp_all add: mergeStages_def thenStage_def)
  note i1F = spatialStages_inv [OF sF f1] and i1T = spatialStages_inv [OF sT f1]
  have ty1: "mrgTypeNeighbours (flowCtx f1) ! i = mrgTypeNeighbours ?init ! i"
    using i1F by (simp add: stageInv_def)
  show ?thesis
  proof (cases f1)
    case (Return c')
    then have "f = Return c'" using f f1 by (simp add: mergeStages_def thenStage_def)
    then have "mrgTypeNeighbours c ! i = mrgTypeNeighbours ?init ! i"
      using ty1 Return by (simp add: c)
    then show ?thesis using t init by simp
  next
    case (Continue st)
    have cnt: "ms_cnt st < ?mx" using i1F Continue by (simp add: stageInv_def flowCnt_def)
    obtain f2 where f2: "stageSubPu m h pu mrgCandIdx st = Inr f2"
      using f f1 Continue by (cases "stageSubPu m h pu mrgCandIdx st")
                             (simp_all add: mergeStages_def thenStage_def)
    have rest: "thenStage (thenStage (thenStage (Inr f2) (stageB2 m h pu mrgCandIdx))
                 (stageTemporal m h pu mrgCandIdx)) (stageTail m h pu) = Inr f"
      using f f1 Continue f2 by (simp add: mergeStages_def thenStage_def)
    have i2: "stageInv ?mx ?init (\<lambda>i. True) f2"
      using i1T Continue f2 by (auto intro: stageSubPu_inv)
    have "mrgTypeNeighbours c ! i = mrgTypeNeighbours (flowCtx f2) ! i"
      unfolding c by (rule laterStages_types [OF i2 c0 rest])
    then have ty2: "mrgTypeNeighbours (flowCtx f2) ! i = MRG_TYPE_SUBPU_ATMVP" using t by simp
    have ty1': "mrgTypeNeighbours (ms_ctx st) ! i \<noteq> MRG_TYPE_SUBPU_ATMVP"
      using ty1 init Continue by (simp add: flowCtx_def)
    from stageSubPu_types [OF f2] show ?thesis
    proof
      assume "mrgTypeNeighbours (flowCtx f2) = mrgTypeNeighbours (ms_ctx st)"
      then show ?thesis using ty2 ty1' by simp
    next
      assume a: "sps_useSubPuMvp pu \<and> sps_useATMVP pu \<and> sl_enableTMVPFlag (pu_slice pu)
          \<and> (\<exists>res. pu_getInterMergeSubPuMvpCand pu (ms_ctx st) (ms_cnt st) = Inr res \<and> sp_found res)
          \<and> mrgTypeNeighbours (flowCtx f2)
              = (mrgTypeNeighbours (ms_ctx st))[ms_cnt st := MRG_TYPE_SUBPU_ATMVP]"
      have "ms_cnt st = i"
      proof (rule ccontr)
        assume "ms_cnt st \<noteq> i"
        then have "mrgTypeNeighbours (flowCtx f2) ! i = mrgTypeNeighbours (ms_ctx st) ! i"
          using a by simp
        then show False using ty2 ty1' by simp
      qed
      then show ?thesis using a cnt f1 Continue by auto
    qed
  qed
qed

theorem getInterMergeCandidates_atmvp_only_if_witness:
  "(1 :: nat) \<le> 6
   \<and> map_sum id (\<lambda>c. mrgTypeNeighbours c ! 1)
       (getInterMergeCandidates ex_macros ex_helpers
          (ex_pu (ex_mrgSlice 6 2 True) ex_onlyLeft) ex_mrgCtx (-1))
     = Inr MRG_TYPE_SUBPU_ATMVP
   \<and> sps_useSubPuMvp (ex_pu (ex_mrgSlice 6 2 True) ex_onlyLeft)
   \<and> sps_useATMVP (ex_pu (ex_mrgSlice 6 2 True) ex_onlyLeft)
   \<and> sl_enableTMVPFlag (pu_slice (ex_pu (ex_mrgSlice 6 2 True) ex_onlyLeft))
   \<and> (\<exists>st res. spatialStages ex_macros ex_helpers (ex_pu (ex_mrgSlice 6 2 True) ex_onlyLeft) (-1)
                  (startState ex_macros (ex_pu (ex_mrgSlice 6 2 True) ex_onlyLeft) ex_mrgCtx)
                = Inr (Continue st)
              \<and> ms_cnt st = 1 \<and> ms_cnt st < 6
              \<and> pu_getInterMergeSubPuMvpCand (ex_pu (ex_mrgSlice 6 2 True) ex_onlyLeft)
                   (ms_ctx st) (ms_cnt st) = Inr res
              \<and> sp_found res)"
proof -
  let ?pu = "ex_pu (ex_mrgSlice 6 2 True) ex_onlyLeft"
  have t: "map_sum id (\<lambda>c. mrgTypeNeighbours c ! 1)
       (getInterMergeCandidates ex_macros ex_helpers ?pu ex_mrgCtx (-1))
     = Inr MRG_TYPE_SUBPU_ATMVP"
    by code_simp
  then obtain c where c: "getInterMergeCandidates ex_macros ex_helpers ?pu ex_mrgCtx (-1) = Inr c"
    and ty: "mrgTypeNeighbours c ! 1 = MRG_TYPE_SUBPU_ATMVP"
    by (cases "getInterMergeCandidates ex_macros ex_helpers ?pu ex_mrgCtx (-1)") auto
  have mx: "sl_maxNumMergeCand (pu_slice ?pu) = 6"
    by (simp add: ex_pu_def ex_mrgSlice_def)
  have len: "1 < length (mrgTypeNeighbours ex_mrgCtx)"
    by (simp add: ex_mrgCtx_def)
  from getInterMergeCandidates_atmvp_only_if [OF c _ len _ ty] mx t show ?thesis by simp
qed

subsection \<open>The zero-motion fill\<close>

lemma zeroFillBody_other:
  "k \<noteq> a \<Longrightarrow> mergeCand (fst (zeroFillBody m pu N (c, ici, a, r, rc))) k = mergeCand c k"
  by (auto simp: zeroFillBody_def Let_def mergeCand_def setMvField_def nth_list_update)

lemma zeroFillBody_lengths:
  "length (interDirNeighbours (fst (zeroFillBody m pu N s))) = length (interDirNeighbours (fst s))
   \<and> length (mvFieldNeighbours (fst (zeroFillBody m pu N s))) = length (mvFieldNeighbours (fst s))"
  by (cases s) (simp add: zeroFillBody_def Let_def setMvField_def)

lemma zeroFillBody_slot:
  "a < length (interDirNeighbours c) \<Longrightarrow> 2 * a + 1 < length (mvFieldNeighbours c) \<Longrightarrow>
   mergeCand (fst (zeroFillBody m pu N (c, ici, a, r, rc))) a
     = (if sl_isInterB (pu_slice pu) then 3 else 1,
        \<lparr> mf_mv = Mv0, mf_refIdx = r \<rparr>,
        if sl_isInterB (pu_slice pu) then \<lparr> mf_mv = Mv0, mf_refIdx = r \<rparr>
        else mvFieldNeighbours c ! (2 * a + 1))"
  by (auto simp: zeroFillBody_def Let_def mergeCand_def setMvField_def nth_list_update)

lemma zeroFillBody_next:
  "snd (zeroFillBody m pu N (c, ici, a, r, rc))
     = (if JVET_L0090_PAIR_AVG m then ici else ici[a := True], a + 1,
        if rc = N - 1 then 0 else r + 1, if rc = N - 1 then rc else rc + 1)"
  by (simp add: zeroFillBody_def Let_def)

lemma zeroFill_done: "\<not> fst (snd (snd s)) < mx \<Longrightarrow> zeroFill m pu mx N s = s"
  by (subst zeroFill.simps) auto

lemma zeroFill_step:
  "fst (snd (snd s)) < mx \<Longrightarrow> zeroFill m pu mx N s = zeroFill m pu mx N (zeroFillBody m pu N s)"
  by (subst zeroFill.simps) auto

lemma zeroFill_below:
  "k < fst (snd (snd s)) \<Longrightarrow> mergeCand (fst (zeroFill m pu mx N s)) k = mergeCand (fst s) k"
proof (induction m pu mx N s rule: zeroFill.induct)
  case (1 m pu mx N s)
  show ?case
  proof (cases "fst (snd (snd s)) < mx")
    case False
    then show ?thesis by (simp add: zeroFill_done)
  next
    case True
    obtain c ici a r rc where s: "s = (c, ici, a, r, rc)" by (cases s) auto
    have n: "fst (snd (snd (zeroFillBody m pu N s))) = a + 1"
      by (simp add: s zeroFillBody_next)
    have "k < fst (snd (snd (zeroFillBody m pu N s)))"
      using "1.prems" n s by simp
    then have "mergeCand (fst (zeroFill m pu mx N (zeroFillBody m pu N s))) k
            = mergeCand (fst (zeroFillBody m pu N s)) k"
      by (rule "1.IH" [OF True])
    also have "\<dots> = mergeCand (fst s) k"
      using "1.prems" by (simp add: s zeroFillBody_other)
    finally show ?thesis by (simp add: zeroFill_step [OF True])
  qed
qed

lemma fillRefIdx_next:
  assumes "1 \<le> N" "r = fillRefIdx N j" "rc = min (int j) (N - 1)"
  shows "(if rc = N - 1 then 0 else r + 1) = fillRefIdx N (j + 1)
       \<and> (if rc = N - 1 then rc else rc + 1) = min (int (j + 1)) (N - 1)"
  using assms by (auto simp: fillRefIdx_def min_def)

lemma zeroFill_slots:
  assumes N: "1 \<le> N"
  shows "r = fillRefIdx N j \<Longrightarrow> rc = min (int j) (N - 1) \<Longrightarrow>
         mx \<le> length (interDirNeighbours c) \<Longrightarrow> 2 * mx \<le> length (mvFieldNeighbours c) \<Longrightarrow>
         a \<le> k \<Longrightarrow> k < mx \<Longrightarrow>
         mergeCand (fst (zeroFill m pu mx N (c, ici, a, r, rc))) k
           = (if sl_isInterB (pu_slice pu) then 3 else 1,
              \<lparr> mf_mv = Mv0, mf_refIdx = fillRefIdx N (j + (k - a)) \<rparr>,
              if sl_isInterB (pu_slice pu)
              then \<lparr> mf_mv = Mv0, mf_refIdx = fillRefIdx N (j + (k - a)) \<rparr>
              else mvFieldNeighbours c ! (2 * k + 1))"
proof (induction "k - a" arbitrary: c ici a r rc j)
  case 0
  then have ka: "k = a" by simp
  let ?s = "(c, ici, a, r, rc)"
  have lt: "fst (snd (snd ?s)) < mx" using "0.prems" ka by simp
  have n: "k < fst (snd (snd (zeroFillBody m pu N ?s)))"
    by (simp add: zeroFillBody_next ka)
  have "mergeCand (fst (zeroFill m pu mx N ?s)) k
          = mergeCand (fst (zeroFillBody m pu N ?s)) k"
    by (simp only: zeroFill_step [OF lt] zeroFill_below [OF n])
  also have "\<dots> = (if sl_isInterB (pu_slice pu) then 3 else 1,
        \<lparr> mf_mv = Mv0, mf_refIdx = r \<rparr>,
        if sl_isInterB (pu_slice pu) then \<lparr> mf_mv = Mv0, mf_refIdx = r \<rparr>
        else mvFieldNeighbours c ! (2 * a + 1))"
    unfolding ka using "0.prems" ka by (intro zeroFillBody_slot) auto
  finally show ?case using "0.prems" ka by simp
next
  case (Suc n)
  let ?s = "(c, ici, a, r, rc)"
  have lt: "fst (snd (snd ?s)) < mx" using Suc.prems Suc.hyps by simp
  obtain c' where b: "zeroFillBody m pu N ?s
      = (c', if JVET_L0090_PAIR_AVG m then ici else ici[a := True], a + 1,
         if rc = N - 1 then 0 else r + 1, if rc = N - 1 then rc else rc + 1)"
    using zeroFillBody_next [of m pu N c ici a r rc]
    by (cases "zeroFillBody m pu N ?s") simp
  have c': "c' = fst (zeroFillBody m pu N ?s)" by (simp add: b)
  note F = fillRefIdx_next [OF N Suc.prems(1) Suc.prems(2)]
  note L = zeroFillBody_lengths [of m pu N ?s, folded c']
  have ak: "a < k" using Suc.hyps(2) by simp
  have o: "mergeCand c' k = mergeCand c k"
    unfolding c' using ak by (intro zeroFillBody_other) auto
  have ar: "(j + 1) + (k - (a + 1)) = j + (k - a)" using ak by simp
  have "mergeCand (fst (zeroFill m pu mx N ?s)) k
          = mergeCand (fst (zeroFill m pu mx N (zeroFillBody m pu N ?s))) k"
    by (simp only: zeroFill_step [OF lt])
  also have "\<dots> = (if sl_isInterB (pu_slice pu) then 3 else 1,
              \<lparr> mf_mv = Mv0, mf_refIdx = fillRefIdx N ((j + 1) + (k - (a + 1))) \<rparr>,
              if sl_isInterB (pu_slice pu)
              then \<lparr> mf_mv = Mv0, mf_refIdx = fillRefIdx N ((j + 1) + (k - (a + 1))) \<rparr>
              else mvFieldNeighbours c' ! (2 * k + 1))"
    unfolding b
    using Suc.hyps(2) Suc.prems F L
    by (intro Suc.hyps(1)) auto
  finally show ?case using o unfolding ar by (simp add: mergeCand_def)
qed


lemma stageB1_skip:
  "spatialAvailable pu (offset (pu_topRight pu) 0 (-1)) True = None \<Longrightarrow>
   ms_cnt st \<noteq> sl_maxNumMergeCand (pu_slice pu) \<Longrightarrow>
   stageB1 m h pu idx st = Inr (Continue st)"
  by (simp add: stageB1_def thenStage_def earlyTermination_def)

lemma stageB0_skip:
  "spatialAvailable pu (offset (pu_topRight pu) 1 (-1)) False = None \<Longrightarrow>
   ms_cnt st \<noteq> sl_maxNumMergeCand (pu_slice pu) \<Longrightarrow>
   stageB0 m h pu idx st = Inr (Continue st)"
  by (simp add: stageB0_def thenStage_def earlyTermination_def)

lemma stageA0_skip:
  "spatialAvailable pu (offset (pu_bottomLeft pu) (-1) 1) False = None \<Longrightarrow>
   ms_cnt st \<noteq> sl_maxNumMergeCand (pu_slice pu) \<Longrightarrow>
   stageA0 m h pu idx st = Inr (Continue st)"
  by (simp add: stageA0_def thenStage_def earlyTermination_def)

lemma stageB2_skip:
  "spatialAvailable pu (offset (pu_topLeft pu) (-1) (-1)) False = None \<Longrightarrow>
   ms_cnt st \<noteq> sl_maxNumMergeCand (pu_slice pu) \<Longrightarrow>
   stageB2 m h pu idx st = Inr (Continue st)"
  by (auto simp: stageB2_def Let_def thenStage_def earlyTermination_def)

lemma stageSubPu_none:
  assumes buf: "\<not> sps_useSubPuMvp pu \<or> subPuMvpMiBuf_allocated (ms_ctx st)"
      and nf: "sps_useSubPuMvp pu \<and> sl_enableTMVPFlag (pu_slice pu) \<and> sps_useATMVP pu \<Longrightarrow>
               \<exists>res. pu_getInterMergeSubPuMvpCand pu (ms_ctx st) (ms_cnt st) = Inr res
                     \<and> \<not> sp_found res"
  shows "\<exists>c'. stageSubPu m h pu idx st = Inr (Continue (st\<lparr> ms_ctx := c' \<rparr>))
              \<and> (c' = ms_ctx st \<or> (\<exists>res. c' = storeSubPu m (ms_ctx st) (ms_cnt st) res))"
proof (cases "sps_useSubPuMvp pu \<and> sl_enableTMVPFlag (pu_slice pu) \<and> sps_useATMVP pu")
  case False
  then have "stageSubPu m h pu idx st = Inr (Continue (st\<lparr> ms_ctx := ms_ctx st \<rparr>))"
    using buf by (auto simp: stageSubPu_def Let_def)
  then show ?thesis by blast
next
  case True
  from nf [OF True] obtain res
    where o: "pu_getInterMergeSubPuMvpCand pu (ms_ctx st) (ms_cnt st) = Inr res"
      and n: "\<not> sp_found res" by blast
  have "stageSubPu m h pu idx st
          = Inr (Continue (st\<lparr> ms_ctx := storeSubPu m (ms_ctx st) (ms_cnt st) res \<rparr>))"
    using True buf o n by (simp add: stageSubPu_def Let_def)
  then show ?thesis by blast
qed

lemma storeSubPu_first:
  "0 < cnt \<Longrightarrow>
   interDirNeighbours (storeSubPu m c cnt res) ! 0 = interDirNeighbours c ! 0
   \<and> mvFieldNeighbours (storeSubPu m c cnt res) ! 0 = mvFieldNeighbours c ! 0
   \<and> length (interDirNeighbours (storeSubPu m c cnt res)) = length (interDirNeighbours c)
   \<and> length (mvFieldNeighbours (storeSubPu m c cnt res)) = length (mvFieldNeighbours c)"
  by (simp add: storeSubPu_def)

lemma stageTemporal_none:
  assumes "sl_enableTMVPFlag (pu_slice pu) \<longrightarrow>
             temporalMVP m h pu REF_PIC_LIST_0 0 = Inr None
             \<and> (sl_isInterB (pu_slice pu) \<longrightarrow> temporalMVP m h pu REF_PIC_LIST_1 0 = Inr None)"
      and "ms_cnt st \<noteq> sl_maxNumMergeCand (pu_slice pu)"
  shows "stageTemporal m h pu idx st = Inr (Continue st)"
  using assms
  by (auto simp: stageTemporal_def Let_def thenStage_def earlyTermination_def)

lemma pairwiseLoop_none: "pairwiseLoop m h pu mx 0 0 ccnt = ccnt"
  by (subst pairwiseLoop.simps) simp

lemma combinedLoop_none: "combinedLoop m h pu mx 0 0 s = Inr s"
  by (subst combinedLoop.simps) simp

lemma stageTail_one:
  "ms_cnt st = 1 \<Longrightarrow> sl_maxNumMergeCand (pu_slice pu) \<noteq> 1 \<Longrightarrow>
   stageTail m h pu st
     = Inr (Return (zeroFillStage m pu (ms_ctx st) (ms_isCandInter st) 1))"
  by (simp add: stageTail_def Let_def pairwiseLoop_none combinedLoop_none)

lemma stageA1_left:
  assumes "spatialAvailable pu (offset (pu_bottomLeft pu) (-1) 0) True = Some puLeft"
      and "\<not> (idx = 0 \<and> pps_log2ParallelMergeLevelMinus2 pu = 0)"
      and "ms_cnt st = 0"
  shows "stageA1 m h pu idx st
     = (let st1 = putSpatial m pu
                    (st\<lparr> ms_miLeft := Some (n_motion puLeft (offset (pu_bottomLeft pu) (-1) 0)) \<rparr>)
                    puLeft (n_motion puLeft (offset (pu_bottomLeft pu) (-1) 0))
        in if sl_maxNumMergeCand (pu_slice pu) = 1 then Inr (Return (ms_ctx st1))
           else Inr (Continue (st1\<lparr> ms_cnt := 1 \<rparr>)))"
  using assms
  by (auto simp: stageA1_def Let_def thenStage_def earlyTermination_def fastExitOrCount_def)

lemma putSpatial_first:
  assumes "ms_cnt st = 0" "0 < length (interDirNeighbours (ms_ctx st))"
          "0 < length (mvFieldNeighbours (ms_ctx st))"
  shows "interDirNeighbours (ms_ctx (putSpatial m pu st npu mi)) ! 0 = interDir mi
       \<and> mvFieldNeighbours (ms_ctx (putSpatial m pu st npu mi)) ! 0
           = \<lparr> mf_mv = mi_mv0 mi, mf_refIdx = mi_refIdx0 mi \<rparr>
       \<and> length (interDirNeighbours (ms_ctx (putSpatial m pu st npu mi)))
           = length (interDirNeighbours (ms_ctx st))
       \<and> length (mvFieldNeighbours (ms_ctx (putSpatial m pu st npu mi)))
           = length (mvFieldNeighbours (ms_ctx st))
       \<and> subPuMvpMiBuf_allocated (ms_ctx (putSpatial m pu st npu mi))
           = subPuMvpMiBuf_allocated (ms_ctx st)"
  using assms by (simp add: putSpatial_def Let_def setMvField_def)

lemma zeroFillStage_cands:
  "mergeCand (zeroFillStage m pu c ici a) k
     = mergeCand (fst (zeroFill m pu (sl_maxNumMergeCand (pu_slice pu))
         (if sl_isInterB (pu_slice pu)
          then min (sl_numRefIdx (pu_slice pu) REF_PIC_LIST_0) (sl_numRefIdx (pu_slice pu) REF_PIC_LIST_1)
          else sl_numRefIdx (pu_slice pu) REF_PIC_LIST_0) (c, ici, a, 0, 0))) k"
  by (simp add: zeroFillStage_def Let_def mergeCand_def)


text \<open>
  Claim C8, as stated, for the block of the scenario (only the left neighbour A1,
  list 0, vector (4,0), reference index 0) in a P slice with two reference pictures, a
  signalled maximum of six and no temporal candidates: the five fills carry the
  reference indices 0, 1, 0, 0, 0.  After the index has reached 1 and gone back to 0 it
  stays 0; it does not cycle 0, 1, 0, 1, 0.
\<close>

theorem getInterMergeCandidates_fill_refIdx_counterexample:
  "map_sum id (\<lambda>c. map (\<lambda>k. mf_refIdx (mvFieldNeighbours c ! (2 * k))) [1 ..< 6])
     (getInterMergeCandidates ex_macros ex_helpers
        (ex_pu (ex_mrgSlice 6 2 False) ex_onlyLeft) ex_mrgCtx (-1))
     = Inr [0, 1, 0, 0, 0]
   \<and> [0, 1, 0, 0, 0] \<noteq> map (\<lambda>k. (int k - 1) mod 2) [1 ..< 6]"
proof -
  have "map_sum id (\<lambda>c. map (\<lambda>k. mf_refIdx (mvFieldNeighbours c ! (2 * k))) [1 ..< 6])
     (getInterMergeCandidates ex_macros ex_helpers
        (ex_pu (ex_mrgSlice 6 2 False) ex_onlyLeft) ex_mrgCtx (-1))
     = Inr [0, 1, 0, 0, 0]"
    by code_simp
  moreover have "[0, 1, 0, 0, 0] \<noteq> map (\<lambda>k. (int k - 1) mod 2) [1 ..< 6]"
    by code_simp
  ultimately show ?thesis by (rule conjI)
qed

text \<open>
  Claim C8, amended.  Let the left neighbour A1 be the only available spatial
  neighbour and the temporal candidates be unavailable: the sub-block temporal
  derivation, where the switches let it be called on the list holding A1, reports no
  candidate, and the temporal derivation, where it is enabled, finds no collocated
  vector.  Let the caller not ask for candidate 0 alone with fast exit, and \<open>N \<ge> 1\<close> be
  the number of reference pictures the fill uses.  Then \<open>PU::getInterMergeCandidates\<close>
  returns, the list holds the signalled maximum of candidates, candidate 0 is the
  neighbour's inter direction, vector and reference index, and every further slot \<open>k\<close>
  below the maximum is a zero-motion fill whose reference index is \<open>k - 1\<close> while
  \<open>k - 1 < N\<close> and 0 from then on: the index runs once through 0..N-1 and then stays
  at 0.
\<close>

theorem getInterMergeCandidates_only_left:
  assumes left: "spatialAvailable pu (offset (pu_bottomLeft pu) (-1) 0) True = Some puLeft"
      and mi: "n_motion puLeft (offset (pu_bottomLeft pu) (-1) 0) = mi"
      and above: "spatialAvailable pu (offset (pu_topRight pu) 0 (-1)) True = None"
      and aboveRight: "spatialAvailable pu (offset (pu_topRight pu) 1 (-1)) False = None"
      and belowLeft: "spatialAvailable pu (offset (pu_bottomLeft pu) (-1) 1) False = None"
      and aboveLeft: "spatialAvailable pu (offset (pu_topLeft pu) (-1) (-1)) False = None"
      and subPu: "\<And>st1. stageA1 m h pu mrgCandIdx (startState m pu mrgCtx) = Inr (Continue st1) \<Longrightarrow>
                   sps_useSubPuMvp pu \<and> sl_enableTMVPFlag (pu_slice pu) \<and> sps_useATMVP pu \<Longrightarrow>
                   \<exists>res. pu_getInterMergeSubPuMvpCand pu (ms_ctx st1) (ms_cnt st1) = Inr res
                         \<and> \<not> sp_found res"
      and temporal: "sl_enableTMVPFlag (pu_slice pu) \<longrightarrow>
                       temporalMVP m h pu REF_PIC_LIST_0 0 = Inr None
                       \<and> (sl_isInterB (pu_slice pu) \<longrightarrow>
                            temporalMVP m h pu REF_PIC_LIST_1 0 = Inr None)"
      and buf: "\<not> sps_useSubPuMvp pu \<or> subPuMvpMiBuf_allocated mrgCtx"
      and nofast: "\<not> (mrgCandIdx = 0 \<and> pps_log2ParallelMergeLevelMinus2 pu = 0)"
      and N: "N = (if sl_isInterB (pu_slice pu)
                   then min (sl_numRefIdx (pu_slice pu) REF_PIC_LIST_0)
                            (sl_numRefIdx (pu_slice pu) REF_PIC_LIST_1)
                   else sl_numRefIdx (pu_slice pu) REF_PIC_LIST_0)"
      and N1: "1 \<le> N"
      and mx: "1 \<le> sl_maxNumMergeCand (pu_slice pu)"
      and cap: "sl_maxNumMergeCand (pu_slice pu) \<le> length (interDirNeighbours mrgCtx)"
               "2 * sl_maxNumMergeCand (pu_slice pu) \<le> length (mvFieldNeighbours mrgCtx)"
  shows "\<exists>c. getInterMergeCandidates m h pu mrgCtx mrgCandIdx = Inr c
           \<and> numValidMergeCand c = sl_maxNumMergeCand (pu_slice pu)
           \<and> interDirNeighbours c ! 0 = interDir mi
           \<and> mvFieldNeighbours c ! 0 = \<lparr> mf_mv = mi_mv0 mi, mf_refIdx = mi_refIdx0 mi \<rparr>
           \<and> (\<forall>k. 1 \<le> k \<and> k < sl_maxNumMergeCand (pu_slice pu) \<longrightarrow>
                 interDirNeighbours c ! k = (if sl_isInterB (pu_slice pu) then 3 else 1)
                 \<and> mvFieldNeighbours c ! (2 * k)
                     = \<lparr> mf_mv = Mv0, mf_refIdx = fillRefIdx N (k - 1) \<rparr>
                 \<and> (sl_isInterB (pu_slice pu) \<longrightarrow>
                      mvFieldNeighbours c ! (2 * k + 1)
                        = \<lparr> mf_mv = Mv0, mf_refIdx = fillRefIdx N (k - 1) \<rparr>))"
proof -
  let ?mx = "sl_maxNumMergeCand (pu_slice pu)"
  let ?start = "startState m pu mrgCtx"
  define st1 where "st1 = putSpatial m pu (?start\<lparr> ms_miLeft := Some mi \<rparr>) puLeft mi"
  define c1 where "c1 = ms_ctx st1"
  have cnt0: "ms_cnt ?start = 0" by (simp add: startState_def)
  have P: "interDirNeighbours c1 ! 0 = interDir mi
       \<and> mvFieldNeighbours c1 ! 0 = \<lparr> mf_mv = mi_mv0 mi, mf_refIdx = mi_refIdx0 mi \<rparr>
       \<and> length (interDirNeighbours c1) = length (interDirNeighbours mrgCtx)
       \<and> length (mvFieldNeighbours c1) = length (mvFieldNeighbours mrgCtx)
       \<and> subPuMvpMiBuf_allocated c1 = subPuMvpMiBuf_allocated mrgCtx"
  proof -
    have "0 < length (interDirNeighbours mrgCtx)" "0 < length (mvFieldNeighbours mrgCtx)"
      using mx cap by auto
    then show ?thesis
      unfolding c1_def st1_def
      using putSpatial_first [of "?start\<lparr> ms_miLeft := Some mi \<rparr>" m pu puLeft mi]
      by (simp add: startState_def)
  qed
  have nv: "numValidMergeCand c1 = ?mx"
    by (simp add: c1_def st1_def startState_def)
  have a1: "stageA1 m h pu mrgCandIdx ?start
              = (if ?mx = 1 then Inr (Return c1) else Inr (Continue (st1\<lparr> ms_cnt := 1 \<rparr>)))"
    using stageA1_left [OF left nofast cnt0, of m h] by (simp add: mi st1_def c1_def Let_def)
  show ?thesis
  proof (cases "?mx = 1")
    case True
    have "getInterMergeCandidates m h pu mrgCtx mrgCandIdx = Inr c1"
      using True a1
      by (simp add: getInterMergeCandidates_def mergeStages_def spatialStages_def thenStage_def)
    then show ?thesis using P nv True by simp
  next
    case False
    let ?stA = "st1\<lparr> ms_cnt := 1 \<rparr>"
    have ne: "ms_cnt ?stA \<noteq> ?mx" using False by simp
    have b: "\<not> sps_useSubPuMvp pu \<or> subPuMvpMiBuf_allocated (ms_ctx ?stA)"
      using buf P by (simp add: c1_def)
    have a1': "stageA1 m h pu mrgCandIdx ?start = Inr (Continue ?stA)"
      using False a1 by simp
    have sp: "spatialStages m h pu mrgCandIdx ?start = Inr (Continue ?stA)"
      by (simp only: spatialStages_def thenStage_def a1' stageB1_skip [OF above ne]
          stageB0_skip [OF aboveRight ne] stageA0_skip [OF belowLeft ne]
          sum.case flow.case)
    from stageSubPu_none [OF b subPu [OF a1'], of m h mrgCandIdx]
    obtain c2 where su: "stageSubPu m h pu mrgCandIdx ?stA = Inr (Continue (?stA\<lparr> ms_ctx := c2 \<rparr>))"
      and c2: "c2 = ms_ctx ?stA \<or> (\<exists>res. c2 = storeSubPu m (ms_ctx ?stA) (ms_cnt ?stA) res)"
      by blast
    let ?stB = "?stA\<lparr> ms_ctx := c2 \<rparr>"
    let ?c = "zeroFillStage m pu c2 (ms_isCandInter st1) 1"
    have neB: "ms_cnt ?stB \<noteq> ?mx" using False by simp
    have P2: "interDirNeighbours c2 ! 0 = interDir mi
       \<and> mvFieldNeighbours c2 ! 0 = \<lparr> mf_mv = mi_mv0 mi, mf_refIdx = mi_refIdx0 mi \<rparr>
       \<and> length (interDirNeighbours c2) = length (interDirNeighbours mrgCtx)
       \<and> length (mvFieldNeighbours c2) = length (mvFieldNeighbours mrgCtx)"
      using c2 P storeSubPu_first [of 1 m c1] by (auto simp: c1_def)
    have tl: "stageTail m h pu ?stB = Inr (Return ?c)"
      using stageTail_one [of ?stB pu m h] False by simp
    have ms: "mergeStages m h pu mrgCtx mrgCandIdx = Inr (Return ?c)"
      by (simp only: mergeStages_def thenStage_def sp su
          stageB2_skip [OF aboveLeft neB] stageTemporal_none [OF temporal neB] tl
          sum.case flow.case)
    have r: "getInterMergeCandidates m h pu mrgCtx mrgCandIdx = Inr ?c"
      by (simp add: getInterMergeCandidates_def ms)
    have nvc: "numValidMergeCand ?c = ?mx"
      using zeroFillStage_keeps [of 1 pu m c2 "ms_isCandInter st1"] mx by simp
    have z0: "mergeCand ?c 0 = mergeCand c2 0"
      by (simp add: zeroFillStage_cands zeroFill_below)
    have zk: "mergeCand ?c k
           = (if sl_isInterB (pu_slice pu) then 3 else 1,
              \<lparr> mf_mv = Mv0, mf_refIdx = fillRefIdx N (k - 1) \<rparr>,
              if sl_isInterB (pu_slice pu)
              then \<lparr> mf_mv = Mv0, mf_refIdx = fillRefIdx N (k - 1) \<rparr>
              else mvFieldNeighbours c2 ! (2 * k + 1))"
      if k: "1 \<le> k" "k < ?mx" for k
      unfolding zeroFillStage_cands N [symmetric]
      using zeroFill_slots [OF N1, of 0 0 0 ?mx c2 1 k m pu "ms_isCandInter st1"] k P2 cap N1
      by (simp add: fillRefIdx_def)
    show ?thesis
      using r nvc z0 P2 zk by (auto simp: mergeCand_def)
  qed
qed

theorem getInterMergeCandidates_only_left_witness:
  "map_sum id (\<lambda>c. (numValidMergeCand c, interDirNeighbours c ! 0, mvFieldNeighbours c ! 0,
                     map (\<lambda>k. mvFieldNeighbours c ! (2 * k)) [1, 2, 3, 4, 5]))
     (getInterMergeCandidates ex_macros ex_helpers
        (ex_puNoSubPu (ex_ltSlice 6 2) ex_onlyLeft) ex_mrgCtx (-1))
   = Inr (6, 1, \<lparr> mf_mv = \<lparr> hor = 4, ver = 0, highPrec = False \<rparr>, mf_refIdx = 0 \<rparr>,
          [\<lparr> mf_mv = Mv0, mf_refIdx = 0 \<rparr>, \<lparr> mf_mv = Mv0, mf_refIdx = 1 \<rparr>,
           \<lparr> mf_mv = Mv0, mf_refIdx = 0 \<rparr>, \<lparr> mf_mv = Mv0, mf_refIdx = 0 \<rparr>,
           \<lparr> mf_mv = Mv0, mf_refIdx = 0 \<rparr>])"
proof -
  let ?pu = "ex_puNoSubPu (ex_ltSlice 6 2) ex_onlyLeft"
  have left: "spatialAvailable ?pu (offset (pu_bottomLeft ?pu) (-1) 0) True = Some (ex_nb 2 (ex_mi 4))"
    by (simp add: spatialAvailable_def ex_puNoSubPu_def ex_pu_def ex_onlyLeft_def offset_def
        isDiffMER_def ex_nb_def Let_def)
  have mi: "n_motion (ex_nb 2 (ex_mi 4)) (offset (pu_bottomLeft ?pu) (-1) 0) = ex_mi 4"
    by (simp add: ex_nb_def)
  have none: "spatialAvailable ?pu (offset (pu_topRight ?pu) 0 (-1)) True = None"
    "spatialAvailable ?pu (offset (pu_topRight ?pu) 1 (-1)) False = None"
    "spatialAvailable ?pu (offset (pu_bottomLeft ?pu) (-1) 1) False = None"
    "spatialAvailable ?pu (offset (pu_topLeft ?pu) (-1) (-1)) False = None"
    by (simp_all add: spatialAvailable_def ex_puNoSubPu_def ex_pu_def ex_onlyLeft_def offset_def)
  have sub: "\<exists>res. pu_getInterMergeSubPuMvpCand ?pu c n = Inr res \<and> \<not> sp_found res" for c n
    by (simp add: ex_puNoSubPu_def)
  have tmp: "temporalMVP ex_macros ex_helpers ?pu REF_PIC_LIST_0 0 = Inr None"
    by code_simp
  have sl: "sl_enableTMVPFlag (pu_slice ?pu)" "\<not> sl_isInterB (pu_slice ?pu)"
    "sl_numRefIdx (pu_slice ?pu) REF_PIC_LIST_0 = 2" "sl_maxNumMergeCand (pu_slice ?pu) = 6"
    by (simp_all add: ex_puNoSubPu_def ex_pu_def ex_ltSlice_def ex_slice_def)
  have ctx: "subPuMvpMiBuf_allocated ex_mrgCtx" "length (interDirNeighbours ex_mrgCtx) = 7"
    "length (mvFieldNeighbours ex_mrgCtx) = 14"
    by (simp_all add: ex_mrgCtx_def)
  from getInterMergeCandidates_only_left [where pu = ?pu and mrgCtx = ex_mrgCtx
      and mrgCandIdx = "-1" and N = 2 and m = ex_macros and h = ex_helpers, OF left mi none sub]
    tmp sl ctx
  obtain c where c: "getInterMergeCandidates ex_macros ex_helpers ?pu ex_mrgCtx (-1) = Inr c"
    and n: "numValidMergeCand c = 6"
    and c0: "interDirNeighbours c ! 0 = interDir (ex_mi 4)"
       "mvFieldNeighbours c ! 0 = \<lparr> mf_mv = mi_mv0 (ex_mi 4), mf_refIdx = mi_refIdx0 (ex_mi 4) \<rparr>"
    and ck: "\<And>k. 1 \<le> k \<Longrightarrow> k < 6 \<Longrightarrow>
                mvFieldNeighbours c ! (2 * k) = \<lparr> mf_mv = Mv0, mf_refIdx = fillRefIdx 2 (k - 1) \<rparr>"
    by auto
  show ?thesis
    using n c0 ck [of 1] ck [of 2] ck [of 3] ck [of 4] ck [of 5]
    by (simp add: c ex_mi_def fillRefIdx_def)
qed

end
